theory Spec2Isabelle
  imports Main
begin

section \<open>JavaScript values and min-dash helpers\<close>

text \<open>
  Scalar values as they occur in templates and in moddle attributes. Strict equality
  (\<open>===\<close>) on these values is HOL equality.
\<close>

datatype jsval = JUndefined | JNull | JBool bool | JNum int | JStr string

text \<open>Truthiness, as used by \<open>!!v\<close>, \<open>v || w\<close> and \<open>if (v)\<close>.\<close>

fun truthy :: "jsval \<Rightarrow> bool" where
  "truthy JUndefined = False"
| "truthy JNull = False"
| "truthy (JBool b) = b"
| "truthy (JNum n) = (n \<noteq> 0)"
| "truthy (JStr s) = (s \<noteq> [])"

text \<open>An optional string read as a value: an absent field is \<open>undefined\<close>.\<close>

fun js_of :: "string option \<Rightarrow> jsval" where
  "js_of None = JUndefined"
| "js_of (Some s) = JStr s"

text \<open>An optional string used as an object key: \<open>obj[undefined]\<close> is the key "undefined".\<close>

fun key_of :: "string option \<Rightarrow> string" where
  "key_of None = ''undefined''"
| "key_of (Some s) = s"

text \<open>min-dash \<open>isUndefined(obj)\<close>: \<open>obj === undefined\<close>.\<close>

definition isUndefined :: "jsval \<Rightarrow> bool" where
  "isUndefined v = (v = JUndefined)"

text \<open>\<open>Array.prototype.indexOf\<close>: the first index of the item, or -1.\<close>

fun indexOf :: "'a list \<Rightarrow> 'a \<Rightarrow> int" where
  "indexOf [] x = - 1"
| "indexOf (y # ys) x =
     (if y = x then 0 else (let i = indexOf ys x in if i < 0 then - 1 else i + 1))"

text \<open>
  \<open>array.splice(start, 1)\<close>: a negative start counts from the end (clamped at 0), a start
  beyond the end is clamped to the length; one element is deleted when there is one.
\<close>

definition splice1 :: "'a list \<Rightarrow> int \<Rightarrow> 'a list" where
  "splice1 xs start =
     (let len = int (length xs);
          s = (if start < 0 then max (len + start) 0 else min start len)
      in take (nat s) xs @ drop (Suc (nat s)) xs)"

text \<open>The handler's own helper \<open>remove(array, item)\<close>; the result is the mutated array.\<close>

definition remove_arr :: "'a list \<Rightarrow> 'a \<Rightarrow> 'a list" where
  "remove_arr array item =
     (let index = indexOf array item
      in if isUndefined (JNum index) then array else splice1 array index)"

text \<open>
  min-dash \<open>without(arr, item)\<close> drops every element identical to the item; with
  \<open>undefined\<close> as the item nothing is dropped from a list of nodes.
  \<open>without(arr, fn)\<close> drops the elements the function accepts.
\<close>

fun without :: "nat list \<Rightarrow> nat option \<Rightarrow> nat list" where
  "without arr None = arr"
| "without arr (Some item) = filter (\<lambda>el. el \<noteq> item) arr"

definition withoutF :: "nat list \<Rightarrow> (nat \<Rightarrow> bool) \<Rightarrow> nat list" where
  "withoutF arr matcher = filter (\<lambda>el. \<not> matcher el) arr"

section \<open>Templates\<close>

record binding =
  btype :: string
  bname :: "string option"
  bproperty :: "string option"
  bsource :: "string option"
  bkey :: "string option"

record choice =
  cname :: string
  cvalue :: jsval

record property =
  ptype :: string
  pvalue :: jsval
  pchoices :: "choice list option"
  pbinding :: binding
  poptional :: bool

record elementType =
  etvalue :: string
  eteventDefinition :: "string option"

text \<open>\<open>ticon\<close> is the icon's \<open>contents\<close> when the template has an icon.\<close>

record template =
  tid :: string
  tversion :: jsval
  ticon :: "jsval option"
  telementType :: "elementType option"
  tproperties :: "property list"

text \<open>
  Modelled from the spec: the binding-kind constants of \<open>util/bindingTypes\<close> are not
  among the sources. The kinds are those of the binding table (task-definition field with
  its type variant, called-element field, message field, message-subscription field).
\<close>

definition ZEEBE_TASK_DEFINITION :: string where
  "ZEEBE_TASK_DEFINITION = ''zeebe:taskDefinition''"

definition ZEEBE_TASK_DEFINITION_TYPE_TYPE :: string where
  "ZEEBE_TASK_DEFINITION_TYPE_TYPE = ''zeebe:taskDefinition:type''"

definition TASK_DEFINITION_TYPES :: "string list" where
  "TASK_DEFINITION_TYPES = [ZEEBE_TASK_DEFINITION, ZEEBE_TASK_DEFINITION_TYPE_TYPE]"

definition ZEEBE_CALLED_ELEMENT :: string where
  "ZEEBE_CALLED_ELEMENT = ''zeebe:calledElement''"

definition MESSAGE_PROPERTY_TYPE :: string where
  "MESSAGE_PROPERTY_TYPE = ''bpmn:Message#property''"

definition MESSAGE_ZEEBE_SUBSCRIPTION_PROPERTY_TYPE :: string where
  "MESSAGE_ZEEBE_SUBSCRIPTION_PROPERTY_TYPE = ''bpmn:Message#zeebe:subscription#property''"

definition MESSAGE_BINDING_TYPES :: "string list" where
  "MESSAGE_BINDING_TYPES = [MESSAGE_PROPERTY_TYPE, MESSAGE_ZEEBE_SUBSCRIPTION_PROPERTY_TYPE]"

text \<open>
  Modelled from the spec: \<open>getTaskDefinitionPropertyName\<close> of \<open>util/taskDefinition\<close> is not
  among the sources. Task-definition fields are matched on the resolved field name: the
  type variant resolves to the field \<open>type\<close>, any other binding to its \<open>property\<close>.
\<close>

definition getTaskDefinitionPropertyName :: "binding \<Rightarrow> string option" where
  "getTaskDefinitionPropertyName b =
     (if btype b = ZEEBE_TASK_DEFINITION_TYPE_TYPE then Some ''type'' else bproperty b)"

text \<open>
  Modelled from the spec: \<open>getDefaultValue\<close> of \<open>Helper\<close> is not among the sources. The
  default of a property descriptor is its \<open>value\<close>.
\<close>

definition getDefaultValue :: "property \<Rightarrow> jsval" where
  "getDefaultValue p = pvalue p"

text \<open>
  Modelled from the spec: \<open>shouldUpdate\<close> of \<open>CreateHelper\<close> is not among the sources. An
  entry is wanted when the computed default value is non-empty or the field is required.
\<close>

definition shouldUpdate :: "jsval \<Rightarrow> property \<Rightarrow> bool" where
  "shouldUpdate v p = (truthy v \<or> \<not> poptional p)"

section \<open>The document: moddle nodes in a store, and the command log\<close>

text \<open>
  Nodes are compared and mutated by reference, so the document is a store from references
  to nodes. A node has scalar attributes, single references and list-valued references;
  an attribute that was never set reads as \<open>undefined\<close>, a list as empty. On a node of the
  \<open>zeebe\<close> package moddle resolves \<open>zeebe:source\<close> and \<open>source\<close> to the same attribute; the
  model writes the unprefixed name. \<open>nsupers\<close> lists the supertypes that \<open>is(node, type)\<close>
  accepts besides the node's own type. The \<open>$parent\<close> back-links are bookkeeping of the
  document model and are read by none of the functions below; they are left out.
\<close>

record node =
  ntype :: string
  nsupers :: "string list"
  nscal :: "string \<Rightarrow> jsval"
  nref :: "string \<Rightarrow> nat option"
  nlist :: "string \<Rightarrow> nat list"

datatype pval = PScalar jsval | PRef "nat option" | PList "nat list"

type_synonym payload = "(string \<times> pval) list"

datatype cmd =
    UpdateProperties nat payload
  | UpdateModdleProperties nat nat payload

record doc =
  heap :: "nat \<Rightarrow> node"
  fresh :: nat
  cmds :: "cmd list"

definition empty_node :: "string \<Rightarrow> node" where
  "empty_node t = \<lparr>ntype = t, nsupers = [], nscal = (\<lambda>_. JUndefined),
     nref = (\<lambda>_. None), nlist = (\<lambda>_. [])\<rparr>"

fun set_prop :: "node \<Rightarrow> string \<times> pval \<Rightarrow> node" where
  "set_prop n (k, PScalar v) = n\<lparr>nscal := (nscal n)(k := v)\<rparr>"
| "set_prop n (k, PRef r) = n\<lparr>nref := (nref n)(k := r)\<rparr>"
| "set_prop n (k, PList rs) = n\<lparr>nlist := (nlist n)(k := rs)\<rparr>"

text \<open>
  \<open>properties[key] = value\<close> on a payload object under construction: an existing key keeps
  its place and takes the new value, a new key is added at the end.
\<close>

fun obj_set :: "payload \<Rightarrow> string \<Rightarrow> pval \<Rightarrow> payload" where
  "obj_set [] k v = [(k, v)]"
| "obj_set ((k', v') # ps) k v = (if k' = k then (k, v) # ps else (k', v') # obj_set ps k v)"

text \<open>
  The command log collaborator: a request is recorded and applies at once to the
  in-memory document. \<open>element.updateModdleProperties\<close> sets the named fields of the given
  node, \<open>element.updateProperties\<close> those of the element's business object. A diagram
  element is identified with the reference of its business object.
\<close>

definition getBusinessObject :: "nat \<Rightarrow> nat" where
  "getBusinessObject element = element"

definition element_updateModdleProperties :: "doc \<Rightarrow> nat \<Rightarrow> nat \<Rightarrow> payload \<Rightarrow> doc" where
  "element_updateModdleProperties d element moddleElement props =
     d\<lparr>heap := (heap d)(moddleElement := foldl set_prop (heap d moddleElement) props),
       cmds := cmds d @ [UpdateModdleProperties element moddleElement props]\<rparr>"

definition element_updateProperties :: "doc \<Rightarrow> nat \<Rightarrow> payload \<Rightarrow> doc" where
  "element_updateProperties d element props =
     d\<lparr>heap := (heap d)(getBusinessObject element :=
                foldl set_prop (heap d (getBusinessObject element)) props),
       cmds := cmds d @ [UpdateProperties element props]\<rparr>"

text \<open>\<open>bpmnFactory.create(type, attrs)\<close>: a new node at the next free reference.\<close>

definition bpmnFactory_create :: "doc \<Rightarrow> string \<Rightarrow> payload \<Rightarrow> doc \<times> nat" where
  "bpmnFactory_create d t attrs =
     (d\<lparr>heap := (heap d)(fresh d := foldl set_prop (empty_node t) attrs),
        fresh := Suc (fresh d)\<rparr>, fresh d)"

text \<open>\<open>is(node, type)\<close> of bpmn-js: the node's type or one of its supertypes.\<close>

definition is_a :: "doc \<Rightarrow> nat \<Rightarrow> string \<Rightarrow> bool" where
  "is_a d n t = (ntype (heap d n) = t \<or> t \<in> set (nsupers (heap d n)))"

text \<open>
  Modelled from the spec: \<open>findExtension\<close> of \<open>Helper\<close> is not among the sources. It
  returns the first node of the given type in the extension container of the element (the
  element itself when it is the container), or nothing when there is no container.
\<close>

definition findExtension :: "doc \<Rightarrow> nat \<Rightarrow> string \<Rightarrow> nat option" where
  "findExtension d element t =
     (let extensionElements =
            (if is_a d element ''bpmn:ExtensionElements'' then Some element
             else nref (heap d element) ''extensionElements'')
      in case extensionElements of
           None \<Rightarrow> None
         | Some ee \<Rightarrow> find (\<lambda>v. is_a d v t) (nlist (heap d ee) ''values''))"

text \<open>
  Modelled from the spec: \<open>findMessage\<close> and \<open>getTemplateId\<close> of \<open>Helper\<close> are not among the
  sources. The message is the one referenced by the element, through its first event
  definition when the element is an event; the template id is the identity stamp.
\<close>

definition findMessage :: "doc \<Rightarrow> nat \<Rightarrow> nat option" where
  "findMessage d businessObject =
     (if is_a d businessObject ''bpmn:Event'' then
        (case nlist (heap d businessObject) ''eventDefinitions'' of
           [] \<Rightarrow> None
         | ed # _ \<Rightarrow> nref (heap d ed) ''messageRef'')
      else nref (heap d businessObject) ''messageRef'')"

definition getTemplateId :: "doc \<Rightarrow> nat \<Rightarrow> jsval" where
  "getTemplateId d n = nscal (heap d n) ''zeebe:modelerTemplate''"

section \<open>Value policy and identity matching\<close>

definition getPropertyValue :: "doc \<Rightarrow> nat option \<Rightarrow> property \<Rightarrow> jsval" where
  "getPropertyValue d element p =
     (case element of
        None \<Rightarrow> JUndefined
      | Some businessObject \<Rightarrow>
          (let b = pbinding p; bindingName = bname b; bindingType = btype b in
           if bindingType = ''property'' then
             nscal (heap d businessObject) (key_of bindingName)
           else if bindingType \<in> set TASK_DEFINITION_TYPES then
             nscal (heap d businessObject) (key_of (getTaskDefinitionPropertyName b))
           else if bindingType = ''zeebe:input'' then
             nscal (heap d businessObject) ''source''
           else if bindingType = ''zeebe:output'' then
             nscal (heap d businessObject) ''target''
           else if bindingType = ''zeebe:taskHeader'' then
             nscal (heap d businessObject) ''value''
           else if bindingType = ''zeebe:property'' then
             nscal (heap d businessObject) ''value''
           else if bindingType = MESSAGE_PROPERTY_TYPE then
             nscal (heap d businessObject) (key_of bindingName)
           else if bindingType = MESSAGE_ZEEBE_SUBSCRIPTION_PROPERTY_TYPE then
             nscal (heap d businessObject) (key_of bindingName)
           else JUndefined))"

definition propertyChanged :: "doc \<Rightarrow> nat option \<Rightarrow> property \<Rightarrow> bool" where
  "propertyChanged d element oldProperty =
     (getPropertyValue d element oldProperty \<noteq> pvalue oldProperty)"

text \<open>
  \<open>shouldKeepValue\<close> is only used as a condition; the model returns its truthiness (absent
  \<open>choices\<close> make the dropdown branch return \<open>undefined\<close>, which is falsy).
\<close>

definition shouldKeepValue :: "doc \<Rightarrow> nat option \<Rightarrow> property option \<Rightarrow> property \<Rightarrow> bool" where
  "shouldKeepValue d element oldProperty newProperty =
     (if ptype newProperty = ''Hidden'' then False
      else if ptype newProperty = ''Dropdown'' then
        (let currentValue = getPropertyValue d element newProperty in
         case pchoices newProperty of
           None \<Rightarrow> False
         | Some cs \<Rightarrow> list_ex (\<lambda>c. cvalue c = currentValue) cs)
      else
        (case oldProperty of
           Some op \<Rightarrow> propertyChanged d element op
         | None \<Rightarrow> truthy (getPropertyValue d element newProperty)))"

definition findOldProperty :: "template option \<Rightarrow> property \<Rightarrow> property option" where
  "findOldProperty oldTemplate newProperty =
     (case oldTemplate of
        None \<Rightarrow> None
      | Some ot \<Rightarrow>
          (let oldProperties = tproperties ot;
               newBinding = pbinding newProperty;
               newBindingName = bname newBinding;
               newBindingType = btype newBinding in
           if newBindingType = ''property'' then
             find (\<lambda>op. btype (pbinding op) = ''property'' \<and> bname (pbinding op) = newBindingName)
               oldProperties
           else if newBindingType \<in> set TASK_DEFINITION_TYPES then
             find (\<lambda>op. getTaskDefinitionPropertyName (pbinding op) =
                         getTaskDefinitionPropertyName newBinding) oldProperties
           else if newBindingType = ''zeebe:input'' then
             find (\<lambda>op. btype (pbinding op) = ''zeebe:input'' \<and>
                         bname (pbinding op) = newBindingName) oldProperties
           else if newBindingType = ''zeebe:output'' then
             find (\<lambda>op. btype (pbinding op) = ''zeebe:output'' \<and>
                         bsource (pbinding op) = bsource newBinding) oldProperties
           else if newBindingType = ''zeebe:taskHeader'' then
             find (\<lambda>op. btype (pbinding op) = ''zeebe:taskHeader'' \<and>
                         bkey (pbinding op) = bkey newBinding) oldProperties
           else if newBindingType = ''zeebe:property'' then
             find (\<lambda>op. btype (pbinding op) = ''zeebe:property'' \<and>
                         bname (pbinding op) = bname newBinding) oldProperties
           else if newBindingType = MESSAGE_PROPERTY_TYPE then
             find (\<lambda>op. btype (pbinding op) = MESSAGE_PROPERTY_TYPE \<and>
                         bname (pbinding op) = bname newBinding) oldProperties
           else if newBindingType = MESSAGE_ZEEBE_SUBSCRIPTION_PROPERTY_TYPE then
             find (\<lambda>op. btype (pbinding op) = MESSAGE_ZEEBE_SUBSCRIPTION_PROPERTY_TYPE \<and>
                         bname (pbinding op) = bname newBinding) oldProperties
           else None))"

text \<open>
  \<open>findBusinessObject(element, property)\<close>: the node that realises the property. The
  element is the extension container in every call of the handler.
\<close>

definition findBusinessObject :: "doc \<Rightarrow> nat \<Rightarrow> property \<Rightarrow> nat option" where
  "findBusinessObject d element p =
     (let businessObject = getBusinessObject element;
          b = pbinding p;
          bindingType = btype b in
      if bindingType \<in> set TASK_DEFINITION_TYPES then
        findExtension d businessObject ''zeebe:TaskDefinition''
      else if bindingType = ''zeebe:input'' \<or> bindingType = ''zeebe:output'' then
        (case findExtension d businessObject ''zeebe:IoMapping'' of
           None \<Rightarrow> None
         | Some extensionElements \<Rightarrow>
             if bindingType = ''zeebe:input'' then
               find (\<lambda>input. nscal (heap d input) ''target'' = js_of (bname b))
                 (nlist (heap d extensionElements) ''inputParameters'')
             else
               find (\<lambda>output. nscal (heap d output) ''source'' = js_of (bsource b))
                 (nlist (heap d extensionElements) ''outputParameters''))
      else if bindingType = ''zeebe:taskHeader'' then
        (case findExtension d businessObject ''zeebe:TaskHeaders'' of
           None \<Rightarrow> None
         | Some extensionElements \<Rightarrow>
             find (\<lambda>v. nscal (heap d v) ''key'' = js_of (bkey b))
               (nlist (heap d extensionElements) ''values''))
      else if bindingType = ''zeebe:property'' then
        (case findExtension d businessObject ''zeebe:Properties'' of
           None \<Rightarrow> None
         | Some zeebeProperties \<Rightarrow>
             find (\<lambda>v. nscal (heap d v) ''name'' = js_of (bname b))
               (nlist (heap d zeebeProperties) ''properties''))
      else None)"

section \<open>The handler\<close>

text \<open>
  Modelled from the spec: the node constructors of \<open>CreateHelper\<close> are not among the
  sources. Each builds a node of its kind whose identity key comes from the binding and
  whose tracked value slot holds the given value (binding table of the data model).
\<close>

definition createTaskDefinition :: "doc \<Rightarrow> payload \<Rightarrow> doc \<times> nat" where
  "createTaskDefinition d props = bpmnFactory_create d ''zeebe:TaskDefinition'' props"

definition createCalledElement :: "doc \<Rightarrow> payload \<Rightarrow> doc \<times> nat" where
  "createCalledElement d props = bpmnFactory_create d ''zeebe:CalledElement'' props"

definition createInputParameter :: "doc \<Rightarrow> binding \<Rightarrow> jsval \<Rightarrow> doc \<times> nat" where
  "createInputParameter d b v =
     bpmnFactory_create d ''zeebe:Input''
       [(''source'', PScalar v), (''target'', PScalar (js_of (bname b)))]"

definition createOutputParameter :: "doc \<Rightarrow> binding \<Rightarrow> jsval \<Rightarrow> doc \<times> nat" where
  "createOutputParameter d b v =
     bpmnFactory_create d ''zeebe:Output''
       [(''source'', PScalar (js_of (bsource b))), (''target'', PScalar v)]"

definition createTaskHeader :: "doc \<Rightarrow> binding \<Rightarrow> jsval \<Rightarrow> doc \<times> nat" where
  "createTaskHeader d b v =
     bpmnFactory_create d ''zeebe:Header''
       [(''key'', PScalar (js_of (bkey b))), (''value'', PScalar v)]"

definition createZeebeProperty :: "doc \<Rightarrow> binding \<Rightarrow> jsval \<Rightarrow> doc \<times> nat" where
  "createZeebeProperty d b v =
     bpmnFactory_create d ''zeebe:Property''
       [(''name'', PScalar (js_of (bname b))), (''value'', PScalar v)]"

text \<open>
  The collaborators outside the handler: the type replacement of bpmn-js, which returns
  the new element, and the removal of the referenced message.
\<close>

record collab =
  replaceElement :: "doc \<Rightarrow> nat \<Rightarrow> string \<Rightarrow> string option \<Rightarrow> doc \<times> nat"
  removeMessage :: "doc \<Rightarrow> nat \<Rightarrow> doc"

subsection \<open>Extension container and identity stamps\<close>

definition getOrCreateExtensionElements :: "doc \<Rightarrow> nat \<Rightarrow> nat \<Rightarrow> doc \<times> nat" where
  "getOrCreateExtensionElements d element businessObject =
     (case nref (heap d businessObject) ''extensionElements'' of
        Some extensionElements \<Rightarrow> (d, extensionElements)
      | None \<Rightarrow>
          (let (d1, extensionElements) =
                 bpmnFactory_create d ''bpmn:ExtensionElements'' [(''values'', PList [])]
           in (element_updateModdleProperties d1 element businessObject
                 [(''extensionElements'', PRef (Some extensionElements))],
               extensionElements)))"

definition updateZeebeModelerTemplate :: "doc \<Rightarrow> nat \<Rightarrow> template option \<Rightarrow> doc" where
  "updateZeebeModelerTemplate d element newTemplate =
     element_updateProperties d element
       [(''zeebe:modelerTemplate'',
           PScalar (case newTemplate of None \<Rightarrow> JUndefined | Some t \<Rightarrow> JStr (tid t))),
        (''zeebe:modelerTemplateVersion'',
           PScalar (case newTemplate of None \<Rightarrow> JUndefined | Some t \<Rightarrow> tversion t))]"

definition updateZeebeModelerTemplateIcon :: "doc \<Rightarrow> nat \<Rightarrow> template option \<Rightarrow> doc" where
  "updateZeebeModelerTemplateIcon d element newTemplate =
     (let icon = (case newTemplate of None \<Rightarrow> None | Some t \<Rightarrow> ticon t)
      in element_updateProperties d element
           [(''zeebe:modelerTemplateIcon'',
               PScalar (case icon of None \<Rightarrow> JUndefined | Some contents \<Rightarrow> contents))])"

subsection \<open>Plain properties\<close>

definition updateProperties_each :: "nat \<Rightarrow> template option \<Rightarrow> doc \<Rightarrow> property \<Rightarrow> doc" where
  "updateProperties_each element oldTemplate d newProperty =
     (let businessObject = getBusinessObject element;
          oldProperty = findOldProperty oldTemplate newProperty;
          newBindingName = bname (pbinding newProperty);
          newPropertyValue = getDefaultValue newProperty;
          changedElement = businessObject
      in if shouldKeepValue d (Some changedElement) oldProperty newProperty then d
         else element_updateModdleProperties d element businessObject
                [(key_of newBindingName, PScalar newPropertyValue)])"

definition updateProperties :: "doc \<Rightarrow> nat \<Rightarrow> template option \<Rightarrow> template \<Rightarrow> doc" where
  "updateProperties d element oldTemplate newTemplate =
     (let businessObject = getBusinessObject element;
          newProperties = filter (\<lambda>np. btype (pbinding np) = ''property'')
                            (tproperties newTemplate);
          propertiesToRemove =
            (case oldTemplate of
               None \<Rightarrow> []
             | Some ot \<Rightarrow>
                 filter (\<lambda>op. btype (pbinding op) = ''property'' \<and>
                           find (\<lambda>np. bname (pbinding np) = bname (pbinding op)) newProperties
                             = None)
                   (tproperties ot));
          d1 = (if propertiesToRemove \<noteq> [] then
                  element_updateModdleProperties d element businessObject
                    (foldl (\<lambda>props p. obj_set props (key_of (bname (pbinding p)))
                                         (PScalar JUndefined)) [] propertiesToRemove)
                else d)
      in if newProperties = [] then d1
         else foldl (updateProperties_each element oldTemplate) d1 newProperties)"

subsection \<open>Task definition\<close>

text \<open>The loop carries the document and the local variable \<open>taskDefinition\<close>.\<close>

definition updateZeebeTaskDefinition_each ::
  "nat \<Rightarrow> template option \<Rightarrow> nat \<Rightarrow> doc \<times> nat option \<Rightarrow> property \<Rightarrow> doc \<times> nat option" where
  "updateZeebeTaskDefinition_each element oldTemplate businessObject st newProperty =
     (let d = fst st; taskDefinition = snd st;
          oldProperty = findOldProperty oldTemplate newProperty;
          newPropertyValue = getDefaultValue newProperty;
          newBinding = pbinding newProperty;
          propertyName = getTaskDefinitionPropertyName newBinding
      in case taskDefinition of
           Some td \<Rightarrow>
             (if \<not> shouldKeepValue d (Some td) oldProperty newProperty then
                (element_updateModdleProperties d element td
                   [(key_of propertyName, PScalar newPropertyValue)], Some td)
              else (d, Some td))
         | None \<Rightarrow>
             (let (d1, td) = createTaskDefinition d
                               [(key_of propertyName, PScalar newPropertyValue)]
              in (element_updateModdleProperties d1 element businessObject
                    [(''values'', PList (nlist (heap d1 businessObject) ''values'' @ [td]))],
                  Some td)))"

definition updateZeebeTaskDefinition :: "doc \<Rightarrow> nat \<Rightarrow> template option \<Rightarrow> template \<Rightarrow> doc" where
  "updateZeebeTaskDefinition d0 element oldTemplate newTemplate =
     (let newProperties = filter (\<lambda>np. btype (pbinding np) \<in> set TASK_DEFINITION_TYPES)
                            (tproperties newTemplate);
          (d, businessObject) =
             getOrCreateExtensionElements d0 element (getBusinessObject element);
          taskDefinition = findExtension d businessObject ''zeebe:TaskDefinition''
      in if newProperties = [] then
           element_updateModdleProperties d element businessObject
             [(''values'', PList (without (nlist (heap d businessObject) ''values'')
                                    taskDefinition))]
         else
           (let (d2, taskDefinition2) =
                  foldl (updateZeebeTaskDefinition_each element oldTemplate businessObject)
                    (d, taskDefinition) newProperties;
                oldProperties =
                  (case oldTemplate of
                     None \<Rightarrow> []
                   | Some ot \<Rightarrow>
                       filter (\<lambda>op. btype (pbinding op) \<in> set TASK_DEFINITION_TYPES \<and>
                                 find (\<lambda>np. bproperty (pbinding np) = bproperty (pbinding op))
                                   newProperties = None)
                         (tproperties ot))
            in case taskDefinition2 of
                 None \<Rightarrow> d2
               | Some td \<Rightarrow>
                   foldl (\<lambda>dd op. element_updateModdleProperties dd element td
                            [(key_of (bproperty (pbinding op)), PScalar JUndefined)])
                     d2 oldProperties))"

subsection \<open>Input and output mappings\<close>

text \<open>
  The loop carries the document and the two snapshots \<open>oldInputs\<close> and \<open>oldOutputs\<close>, the
  candidates for removal.
\<close>

definition updateZeebeInputOutputParameterProperties_each ::
  "nat \<Rightarrow> template option \<Rightarrow> nat \<Rightarrow> nat \<Rightarrow> doc \<times> nat list \<times> nat list \<Rightarrow> property
     \<Rightarrow> doc \<times> nat list \<times> nat list" where
  "updateZeebeInputOutputParameterProperties_each element oldTemplate businessObject ioMapping
     st newProperty =
     (let d = fst st; oldInputs = fst (snd st); oldOutputs = snd (snd st);
          oldProperty = findOldProperty oldTemplate newProperty;
          inputOrOutput = findBusinessObject d businessObject newProperty;
          newPropertyValue = getDefaultValue newProperty;
          newBinding = pbinding newProperty;
          newBindingType = btype newBinding
      in case inputOrOutput of
           Some io \<Rightarrow>
             (let olds =
                    (if shouldUpdate newPropertyValue newProperty \<or>
                        shouldKeepValue d (Some io) oldProperty newProperty
                     then (if is_a d io ''zeebe:Input''
                           then (remove_arr oldInputs io, oldOutputs)
                           else (oldInputs, remove_arr oldOutputs io))
                     else (oldInputs, oldOutputs));
                  d1 = (if \<not> shouldKeepValue d (Some io) oldProperty newProperty then
                          element_updateModdleProperties d element io
                            (if is_a d io ''zeebe:Input''
                             then [(''source'', PScalar newPropertyValue)]
                             else [(''target'', PScalar newPropertyValue)])
                        else d)
              in (d1, olds))
         | None \<Rightarrow>
             (if shouldUpdate newPropertyValue newProperty then
                (let propertyName = (if newBindingType = ''zeebe:input''
                                     then ''inputParameters'' else ''outputParameters'');
                     (d1, newInputOrOutput) =
                        (if newBindingType = ''zeebe:input''
                         then createInputParameter d newBinding newPropertyValue
                         else createOutputParameter d newBinding newPropertyValue)
                 in (element_updateModdleProperties d1 element ioMapping
                       [(propertyName,
                         PList (nlist (heap d1 ioMapping) propertyName @ [newInputOrOutput]))],
                     oldInputs, oldOutputs))
              else (d, oldInputs, oldOutputs)))"

definition updateZeebeInputOutputParameterProperties ::
  "doc \<Rightarrow> nat \<Rightarrow> template option \<Rightarrow> template \<Rightarrow> doc" where
  "updateZeebeInputOutputParameterProperties d0 element oldTemplate newTemplate =
     (let newProperties = filter (\<lambda>np. btype (pbinding np) = ''zeebe:input'' \<or>
                                        btype (pbinding np) = ''zeebe:output'')
                            (tproperties newTemplate);
          (d, businessObject) =
             getOrCreateExtensionElements d0 element (getBusinessObject element);
          ioMapping0 = findExtension d businessObject ''zeebe:IoMapping''
      in if newProperties = [] \<and> ioMapping0 = None then d
         else
           (let d1 = (if newProperties = [] then
                        element_updateModdleProperties d element businessObject
                          [(''values'', PList (without (nlist (heap d businessObject) ''values'')
                                                 ioMapping0))]
                      else d);
                (d2, ioMapping) =
                   (case ioMapping0 of
                      Some io \<Rightarrow> (d1, io)
                    | None \<Rightarrow>
                        (let (dc, io) = bpmnFactory_create d1 ''zeebe:IoMapping'' []
                         in (element_updateModdleProperties dc element businessObject
                               [(''values'',
                                 PList (nlist (heap dc businessObject) ''values'' @ [io]))],
                             io)));
                oldInputs0 = nlist (heap d2 ioMapping) ''inputParameters'';
                oldOutputs0 = nlist (heap d2 ioMapping) ''outputParameters'';
                st = foldl (updateZeebeInputOutputParameterProperties_each element oldTemplate
                              businessObject ioMapping)
                       (d2, oldInputs0, oldOutputs0) newProperties;
                d3 = fst st; oldInputs = fst (snd st); oldOutputs = snd (snd st);
                d4 = (if oldInputs \<noteq> [] then
                        element_updateModdleProperties d3 element ioMapping
                          [(''inputParameters'',
                            PList (withoutF (nlist (heap d3 ioMapping) ''inputParameters'')
                                     (\<lambda>inputParameter. inputParameter \<in> set oldInputs)))]
                      else d3)
            in if oldOutputs \<noteq> [] then
                 element_updateModdleProperties d4 element ioMapping
                   [(''outputParameters'',
                     PList (withoutF (nlist (heap d4 ioMapping) ''outputParameters'')
                              (\<lambda>outputParameter. outputParameter \<in> set oldOutputs)))]
               else d4))"

subsection \<open>Task headers\<close>

definition updateZeebeTaskHeaderProperties_each ::
  "nat \<Rightarrow> template option \<Rightarrow> nat \<Rightarrow> nat \<Rightarrow> doc \<times> nat list \<Rightarrow> property \<Rightarrow> doc \<times> nat list" where
  "updateZeebeTaskHeaderProperties_each element oldTemplate businessObject taskHeaders
     st newProperty =
     (let d = fst st; oldHeaders = snd st;
          oldProperty = findOldProperty oldTemplate newProperty;
          oldHeader = findBusinessObject d businessObject newProperty;
          newPropertyValue = getDefaultValue newProperty;
          newBinding = pbinding newProperty
      in case oldHeader of
           Some h \<Rightarrow>
             (let d1 = (if \<not> shouldKeepValue d (Some h) oldProperty newProperty then
                          element_updateModdleProperties d element h
                            [(''value'', PScalar newPropertyValue)]
                        else d)
              in (d1, remove_arr oldHeaders h))
         | None \<Rightarrow>
             (if truthy newPropertyValue then
                (let (d1, newHeader) = createTaskHeader d newBinding newPropertyValue
                 in (element_updateModdleProperties d1 element taskHeaders
                       [(''values'', PList (nlist (heap d1 taskHeaders) ''values'' @ [newHeader]))],
                     oldHeaders))
              else (d, oldHeaders)))"

definition updateZeebeTaskHeaderProperties ::
  "doc \<Rightarrow> nat \<Rightarrow> template option \<Rightarrow> template \<Rightarrow> doc" where
  "updateZeebeTaskHeaderProperties d0 element oldTemplate newTemplate =
     (let newProperties = filter (\<lambda>np. btype (pbinding np) = ''zeebe:taskHeader'')
                            (tproperties newTemplate);
          (d, businessObject) =
             getOrCreateExtensionElements d0 element (getBusinessObject element);
          taskHeaders0 = findExtension d businessObject ''zeebe:TaskHeaders''
      in if newProperties = [] \<and> taskHeaders0 = None then d
         else
           (let d1 = (if newProperties = [] then
                        element_updateModdleProperties d element businessObject
                          [(''values'', PList (without (nlist (heap d businessObject) ''values'')
                                                 taskHeaders0))]
                      else d);
                (d2, taskHeaders) =
                   (case taskHeaders0 of
                      Some th \<Rightarrow> (d1, th)
                    | None \<Rightarrow>
                        (let (dc, th) = bpmnFactory_create d1 ''zeebe:TaskHeaders'' []
                         in (element_updateModdleProperties dc element businessObject
                               [(''values'',
                                 PList (nlist (heap dc businessObject) ''values'' @ [th]))],
                             th)));
                oldHeaders0 = nlist (heap d2 taskHeaders) ''values'';
                st = foldl (updateZeebeTaskHeaderProperties_each element oldTemplate
                              businessObject taskHeaders)
                       (d2, oldHeaders0) newProperties;
                d3 = fst st; oldHeaders = snd st
            in if oldHeaders \<noteq> [] then
                 element_updateModdleProperties d3 element taskHeaders
                   [(''values'',
                     PList (withoutF (nlist (heap d3 taskHeaders) ''values'')
                              (\<lambda>header. header \<in> set oldHeaders)))]
               else d3))"

subsection \<open>Custom properties\<close>

definition updateZeebePropertyProperties_each ::
  "nat \<Rightarrow> template option \<Rightarrow> nat \<Rightarrow> nat \<Rightarrow> doc \<times> nat list \<Rightarrow> property \<Rightarrow> doc \<times> nat list" where
  "updateZeebePropertyProperties_each element oldTemplate businessObject zeebeProperties
     st newProperty =
     (let d = fst st; oldZeebeProperties = snd st;
          oldProperty = findOldProperty oldTemplate newProperty;
          oldZeebeProperty = findBusinessObject d businessObject newProperty;
          newPropertyValue = getDefaultValue newProperty;
          newBinding = pbinding newProperty
      in case oldZeebeProperty of
           Some zp \<Rightarrow>
             (let olds = (if shouldUpdate newPropertyValue newProperty \<or>
                             shouldKeepValue d (Some zp) oldProperty newProperty
                          then remove_arr oldZeebeProperties zp
                          else oldZeebeProperties);
                  d1 = (if \<not> shouldKeepValue d (Some zp) oldProperty newProperty then
                          element_updateModdleProperties d element zp
                            [(''value'', PScalar newPropertyValue)]
                        else d)
              in (d1, olds))
         | None \<Rightarrow>
             (if shouldUpdate newPropertyValue newProperty then
                (let (d1, created) = createZeebeProperty d newBinding newPropertyValue
                 in (element_updateModdleProperties d1 element zeebeProperties
                       [(''properties'',
                         PList (nlist (heap d1 zeebeProperties) ''properties'' @ [created]))],
                     oldZeebeProperties))
              else (d, oldZeebeProperties)))"

definition updateZeebePropertyProperties ::
  "doc \<Rightarrow> nat \<Rightarrow> template option \<Rightarrow> template \<Rightarrow> doc" where
  "updateZeebePropertyProperties d0 element oldTemplate newTemplate =
     (let newProperties = filter (\<lambda>np. btype (pbinding np) = ''zeebe:property'')
                            (tproperties newTemplate);
          (d, businessObject) =
             getOrCreateExtensionElements d0 element (getBusinessObject element);
          zeebeProperties0 = findExtension d businessObject ''zeebe:Properties''
      in if newProperties = [] \<and> zeebeProperties0 = None then d
         else
           (let d1 = (if newProperties = [] then
                        element_updateModdleProperties d element businessObject
                          [(''values'', PList (without (nlist (heap d businessObject) ''values'')
                                                 zeebeProperties0))]
                      else d);
                (d2, zeebeProperties) =
                   (case zeebeProperties0 of
                      Some zps \<Rightarrow> (d1, zps)
                    | None \<Rightarrow>
                        (let (dc, zps) = bpmnFactory_create d1 ''zeebe:Properties'' []
                         in (element_updateModdleProperties dc element businessObject
                               [(''values'',
                                 PList (nlist (heap dc businessObject) ''values'' @ [zps]))],
                             zps)));
                oldZeebeProperties0 = nlist (heap d2 zeebeProperties) ''properties'';
                st = foldl (updateZeebePropertyProperties_each element oldTemplate
                              businessObject zeebeProperties)
                       (d2, oldZeebeProperties0) newProperties;
                d3 = fst st; oldZeebeProperties = snd st
            in if oldZeebeProperties \<noteq> [] then
                 element_updateModdleProperties d3 element zeebeProperties
                   [(''properties'',
                     PList (withoutF (nlist (heap d3 zeebeProperties) ''properties'')
                              (\<lambda>zeebeProperty. zeebeProperty \<in> set oldZeebeProperties)))]
               else d3))"

subsection \<open>Message and subscription\<close>

definition getMessage :: "doc \<Rightarrow> nat \<Rightarrow> nat option" where
  "getMessage d element =
     (let bo = getBusinessObject element;
          bo2 = (if is_a d bo ''bpmn:Event'' then
                   (case nlist (heap d bo) ''eventDefinitions'' of
                      [] \<Rightarrow> None
                    | ed # _ \<Rightarrow> Some ed)
                 else Some bo)
      in case bo2 of None \<Rightarrow> None | Some b \<Rightarrow> nref (heap d b) ''messageRef'')"

text \<open>
  \<open>_createMessage\<close> reads the root of the referring object and sets its \<open>messageRef\<close>; for an
  event without event definitions the referring object is \<open>undefined\<close> and the source
  throws a TypeError, which is the result \<open>None\<close>.
\<close>

definition createMessage :: "doc \<Rightarrow> nat \<Rightarrow> template \<Rightarrow> (doc \<times> nat) option" where
  "createMessage d element t =
     (let bo = getBusinessObject element;
          bo2 = (if is_a d bo ''bpmn:Event'' then
                   (case nlist (heap d bo) ''eventDefinitions'' of
                      [] \<Rightarrow> None
                    | ed # _ \<Rightarrow> Some ed)
                 else Some bo);
          (d1, message) = bpmnFactory_create d ''bpmn:Message''
                            [(''zeebe:modelerTemplate'', PScalar (JStr (tid t)))]
      in case bo2 of
           None \<Rightarrow> None
         | Some b \<Rightarrow>
             Some (element_updateModdleProperties d1 element b
                     [(''messageRef'', PRef (Some message))], message))"

definition getOrCreateMessage :: "doc \<Rightarrow> nat \<Rightarrow> template \<Rightarrow> (doc \<times> nat) option" where
  "getOrCreateMessage d element t =
     (case getMessage d element of
        Some message \<Rightarrow> Some (d, message)
      | None \<Rightarrow> createMessage d element t)"

definition getSubscription :: "doc \<Rightarrow> nat \<Rightarrow> nat \<Rightarrow> doc \<times> nat option" where
  "getSubscription d element bo =
     (let (d1, extensionElements) = getOrCreateExtensionElements d element bo
      in (d1, findExtension d1 extensionElements ''zeebe:Subscription''))"

definition updateMessageProperties_each ::
  "nat \<Rightarrow> template option \<Rightarrow> nat \<Rightarrow> doc \<Rightarrow> property \<Rightarrow> doc" where
  "updateMessageProperties_each element oldTemplate message d newProperty =
     (let oldProperty = findOldProperty oldTemplate newProperty;
          newBindingName = bname (pbinding newProperty);
          newPropertyValue = getDefaultValue newProperty;
          changedElement = message
      in if shouldKeepValue d (Some changedElement) oldProperty newProperty then d
         else element_updateModdleProperties d element changedElement
                [(key_of newBindingName, PScalar newPropertyValue)])"

definition updateMessageProperties ::
  "doc \<Rightarrow> nat \<Rightarrow> template option \<Rightarrow> template \<Rightarrow> doc option" where
  "updateMessageProperties d element oldTemplate newTemplate =
     (let newProperties = filter (\<lambda>np. btype (pbinding np) = MESSAGE_PROPERTY_TYPE)
                            (tproperties newTemplate);
          removedProperties =
            (case oldTemplate of
               None \<Rightarrow> []
             | Some ot \<Rightarrow>
                 filter (\<lambda>op. btype (pbinding op) = MESSAGE_PROPERTY_TYPE \<and>
                           find (\<lambda>np. bname (pbinding np) = bname (pbinding op)) newProperties
                             = None)
                   (tproperties ot));
          d1 = (case getMessage d element of
                  None \<Rightarrow> d
                | Some message \<Rightarrow>
                    foldl (\<lambda>dd rp. element_updateModdleProperties dd element message
                             [(key_of (bname (pbinding rp)), PScalar JUndefined)])
                      d removedProperties)
      in if newProperties = [] then Some d1
         else
           (case getOrCreateMessage d1 element newTemplate of
              None \<Rightarrow> None
            | Some (d2, message) \<Rightarrow>
                Some (foldl (updateMessageProperties_each element oldTemplate message)
                        d2 newProperties)))"

definition updateMessageZeebeSubscriptionProperties ::
  "doc \<Rightarrow> nat \<Rightarrow> template option \<Rightarrow> template \<Rightarrow> doc option" where
  "updateMessageZeebeSubscriptionProperties d element oldTemplate newTemplate =
     (let newProperties =
            filter (\<lambda>np. btype (pbinding np) = MESSAGE_ZEEBE_SUBSCRIPTION_PROPERTY_TYPE)
              (tproperties newTemplate);
          removedProperties =
            (case oldTemplate of
               None \<Rightarrow> []
             | Some ot \<Rightarrow>
                 filter (\<lambda>op. btype (pbinding op) = MESSAGE_ZEEBE_SUBSCRIPTION_PROPERTY_TYPE \<and>
                           find (\<lambda>np. bname (pbinding np) = bname (pbinding op)) newProperties
                             = None)
                   (tproperties ot))
      in if newProperties = [] \<and> removedProperties = [] then Some d
         else
           (case getOrCreateMessage d element newTemplate of
              None \<Rightarrow> None
            | Some (d1, message) \<Rightarrow>
                (let (d2, messageExtensionElements) =
                        getOrCreateExtensionElements d1 element message;
                     (d3, zeebeSubscription) = getSubscription d2 element message;
                     propertiesToSet =
                       foldl (\<lambda>props newProperty.
                                if shouldKeepValue d3 zeebeSubscription
                                     (findOldProperty oldTemplate newProperty) newProperty
                                then props
                                else obj_set props (key_of (bname (pbinding newProperty)))
                                       (PScalar (getDefaultValue newProperty)))
                         [] newProperties
                 in case zeebeSubscription of
                      Some sub \<Rightarrow>
                        (let d4 = element_updateModdleProperties d3 element sub propertiesToSet
                         in if oldTemplate = None then Some d4
                            else Some (element_updateModdleProperties d4 element sub
                                         (foldl (\<lambda>props rp.
                                                   obj_set props (key_of (bname (pbinding rp)))
                                                     (PScalar JUndefined))
                                            [] removedProperties)))
                    | None \<Rightarrow>
                        (let (d4, newSubscription) =
                                bpmnFactory_create d3 ''zeebe:Subscription'' propertiesToSet
                         in Some (element_updateModdleProperties d4 element
                                    messageExtensionElements
                                    [(''values'',
                                      PList (nlist (heap d4 messageExtensionElements) ''values''
                                               @ [newSubscription]))])))))"

definition updateZeebeModelerTemplateOnReferencedElement ::
  "doc \<Rightarrow> nat \<Rightarrow> template option \<Rightarrow> template \<Rightarrow> doc" where
  "updateZeebeModelerTemplateOnReferencedElement d element oldTemplate newTemplate =
     (let businessObject = getBusinessObject element in
      case findMessage d businessObject of
        None \<Rightarrow> d
      | Some message \<Rightarrow>
          if getTemplateId d message = JStr (tid newTemplate) then d
          else element_updateModdleProperties d element message
                 [(''zeebe:modelerTemplate'', PScalar (JStr (tid newTemplate)))])"

definition hasMessageProperties :: "template \<Rightarrow> bool" where
  "hasMessageProperties t =
     list_ex (\<lambda>p. btype (pbinding p) \<in> set MESSAGE_BINDING_TYPES) (tproperties t)"

definition updateMessage ::
  "collab \<Rightarrow> doc \<Rightarrow> nat \<Rightarrow> template option \<Rightarrow> template \<Rightarrow> doc option" where
  "updateMessage c d element oldTemplate newTemplate =
     (case updateMessageProperties d element oldTemplate newTemplate of
        None \<Rightarrow> None
      | Some d1 \<Rightarrow>
          (case updateMessageZeebeSubscriptionProperties d1 element oldTemplate newTemplate of
             None \<Rightarrow> None
           | Some d2 \<Rightarrow>
               (let d3 = updateZeebeModelerTemplateOnReferencedElement d2 element
                           oldTemplate newTemplate
                in if \<not> hasMessageProperties newTemplate
                   then Some (removeMessage c d3 element)
                   else Some d3)))"

subsection \<open>Called element\<close>

definition updateCalledElement_each ::
  "nat \<Rightarrow> template option \<Rightarrow> nat \<Rightarrow> doc \<times> nat option \<Rightarrow> property \<Rightarrow> doc \<times> nat option" where
  "updateCalledElement_each element oldTemplate businessObject st newProperty =
     (let d = fst st; calledElement = snd st;
          oldProperty = findOldProperty oldTemplate newProperty;
          newPropertyValue = getDefaultValue newProperty;
          propertyName = bproperty (pbinding newProperty)
      in case calledElement of
           Some ce \<Rightarrow>
             (if \<not> shouldKeepValue d (Some ce) oldProperty newProperty then
                (element_updateModdleProperties d element ce
                   [(key_of propertyName, PScalar newPropertyValue)], Some ce)
              else (d, Some ce))
         | None \<Rightarrow>
             (let (d1, ce) = createCalledElement d
                               [(key_of propertyName, PScalar newPropertyValue)]
              in (element_updateModdleProperties d1 element businessObject
                    [(''values'', PList (nlist (heap d1 businessObject) ''values'' @ [ce]))],
                  Some ce)))"

definition updateCalledElement :: "doc \<Rightarrow> nat \<Rightarrow> template option \<Rightarrow> template \<Rightarrow> doc" where
  "updateCalledElement d0 element oldTemplate newTemplate =
     (let newProperties = filter (\<lambda>np. btype (pbinding np) = ZEEBE_CALLED_ELEMENT)
                            (tproperties newTemplate);
          (d, businessObject) =
             getOrCreateExtensionElements d0 element (getBusinessObject element);
          calledElement = findExtension d businessObject ''zeebe:CalledElement''
      in if newProperties = [] then
           element_updateModdleProperties d element businessObject
             [(''values'', PList (without (nlist (heap d businessObject) ''values'')
                                    calledElement))]
         else
           (let (d2, calledElement2) =
                  foldl (updateCalledElement_each element oldTemplate businessObject)
                    (d, calledElement) newProperties;
                oldProperties =
                  (case oldTemplate of
                     None \<Rightarrow> []
                   | Some ot \<Rightarrow>
                       filter (\<lambda>op. btype (pbinding op) = ZEEBE_CALLED_ELEMENT \<and>
                                 find (\<lambda>np. bproperty (pbinding np) = bproperty (pbinding op))
                                   newProperties = None)
                         (tproperties ot))
            in case calledElement2 of
                 None \<Rightarrow> d2
               | Some ce \<Rightarrow>
                   foldl (\<lambda>dd op. element_updateModdleProperties dd element ce
                            [(key_of (bproperty (pbinding op)), PScalar JUndefined)])
                     d2 oldProperties))"

subsection \<open>Element type and the handler's entry point\<close>

definition updateElementType ::
  "collab \<Rightarrow> doc \<Rightarrow> nat \<Rightarrow> template option \<Rightarrow> template \<Rightarrow> doc \<times> nat" where
  "updateElementType c d element oldTemplate newTemplate =
     (case telementType newTemplate of
        None \<Rightarrow> (d, element)
      | Some newType \<Rightarrow>
          (let oldType = (case oldTemplate of None \<Rightarrow> None | Some ot \<Rightarrow> telementType ot) in
           if (case oldType of
                 None \<Rightarrow> False
               | Some ot \<Rightarrow> etvalue ot = etvalue newType \<and>
                            eteventDefinition ot = eteventDefinition newType)
           then (d, element)
           else replaceElement c d element (etvalue newType)
                  (case eteventDefinition newType of
                     None \<Rightarrow> None
                   | Some ed \<Rightarrow> if ed \<noteq> [] then Some ed else None)))"

text \<open>
  \<open>preExecute(context)\<close>: the result is the document and \<open>context.element\<close> after the call,
  or \<open>None\<close> when the source throws.
\<close>

definition preExecute ::
  "collab \<Rightarrow> doc \<Rightarrow> nat \<Rightarrow> template option \<Rightarrow> template option \<Rightarrow> (doc \<times> nat) option" where
  "preExecute c d0 element0 oldTemplate newTemplate =
     (let d1 = updateZeebeModelerTemplate d0 element0 newTemplate;
          d2 = updateZeebeModelerTemplateIcon d1 element0 newTemplate
      in case newTemplate of
           None \<Rightarrow> Some (d2, element0)
         | Some nt \<Rightarrow>
             (let (d3, element) = updateElementType c d2 element0 oldTemplate nt;
                  d4 = updateProperties d3 element oldTemplate nt;
                  d5 = updateZeebeTaskDefinition d4 element oldTemplate nt;
                  d6 = updateZeebeInputOutputParameterProperties d5 element oldTemplate nt;
                  d7 = updateZeebeTaskHeaderProperties d6 element oldTemplate nt;
                  d8 = updateZeebePropertyProperties d7 element oldTemplate nt
              in case updateMessage c d8 element oldTemplate nt of
                   None \<Rightarrow> None
                 | Some d9 \<Rightarrow> Some (updateCalledElement d9 element oldTemplate nt, element)))"

section \<open>Example documents and templates\<close>

text \<open>
  Collaborators for the examples: the type replacement keeps the element, the message
  removal leaves the document as it is.
\<close>

definition ex_collab :: collab where
  "ex_collab = \<lparr>replaceElement = (\<lambda>d element t ed. (d, element)),
                 removeMessage = (\<lambda>d element. d)\<rparr>"

definition ex_binding :: "string \<Rightarrow> binding" where
  "ex_binding t = \<lparr>btype = t, bname = None, bproperty = None, bsource = None, bkey = None\<rparr>"

definition ex_property :: "string \<Rightarrow> jsval \<Rightarrow> binding \<Rightarrow> property" where
  "ex_property t v b = \<lparr>ptype = t, pvalue = v, pchoices = None, pbinding = b, poptional = False\<rparr>"

definition ex_template :: "property list \<Rightarrow> template" where
  "ex_template ps = \<lparr>tid = ''T'', tversion = JNum 1, ticon = None, telementType = None,
     tproperties = ps\<rparr>"

text \<open>A service task without extension container (node 0).\<close>

definition ex_task :: doc where
  "ex_task = \<lparr>heap = (\<lambda>_. empty_node [])(0 := empty_node ''bpmn:ServiceTask''),
               fresh = 1, cmds = []\<rparr>"

text \<open>A plain property \<open>x\<close> with a given default, and the task with a value of \<open>x\<close>.\<close>

definition ex_plain :: "jsval \<Rightarrow> property" where
  "ex_plain v = ex_property ''String'' v ((ex_binding ''property'')\<lparr>bname := Some ''x''\<rparr>)"

definition ex_with_x :: "jsval \<Rightarrow> doc" where
  "ex_with_x v = ex_task\<lparr>heap := (heap ex_task)
     (0 := (heap ex_task 0)\<lparr>nscal := (nscal (heap ex_task 0))(''x'' := v)\<rparr>)\<rparr>"

text \<open>A dropdown for \<open>x\<close> with the choices red and blue.\<close>

definition ex_dropdown :: property where
  "ex_dropdown = (ex_plain (JStr ''blue''))\<lparr>ptype := ''Dropdown'',
     pchoices := Some [\<lparr>cname = ''Red'', cvalue = JStr ''red''\<rparr>,
                       \<lparr>cname = ''Blue'', cvalue = JStr ''blue''\<rparr>]\<rparr>"

text \<open>A template with two properties bound to the same field \<open>x\<close>.\<close>

definition ex_dup :: template where
  "ex_dup = ex_template [ex_plain (JStr ''a''), ex_plain (JStr ''b'')]"

text \<open>
  A task (node 0) whose container (node 1) holds a task-headers holder (node 2) with the
  header \<open>k = v\<close> (node 3).
\<close>

definition ex_headers :: doc where
  "ex_headers = \<lparr>heap = (\<lambda>_. empty_node [])
      (0 := (empty_node ''bpmn:ServiceTask'')
              \<lparr>nref := (\<lambda>_. None)(''extensionElements'' := Some 1)\<rparr>,
       1 := (empty_node ''bpmn:ExtensionElements'')\<lparr>nlist := (\<lambda>_. [])(''values'' := [2])\<rparr>,
       2 := (empty_node ''zeebe:TaskHeaders'')\<lparr>nlist := (\<lambda>_. [])(''values'' := [3])\<rparr>,
       3 := (empty_node ''zeebe:Header'')
              \<lparr>nscal := (\<lambda>_. JUndefined)(''key'' := JStr ''k'', ''value'' := JStr ''v'')\<rparr>),
     fresh = 4, cmds = []\<rparr>"

definition ex_header :: "string \<Rightarrow> jsval \<Rightarrow> bool \<Rightarrow> property" where
  "ex_header k v opt =
     (ex_property ''String'' v ((ex_binding ''zeebe:taskHeader'')\<lparr>bkey := Some k\<rparr>))
       \<lparr>poptional := opt\<rparr>"

text \<open>
  A task (node 0) whose container (node 1) holds a mapping holder (node 2) with the input
  \<open>x\<close> fed by \<open>={{a}}\<close> (node 3).
\<close>

definition ex_io :: doc where
  "ex_io = \<lparr>heap = (\<lambda>_. empty_node [])
      (0 := (empty_node ''bpmn:ServiceTask'')
              \<lparr>nref := (\<lambda>_. None)(''extensionElements'' := Some 1)\<rparr>,
       1 := (empty_node ''bpmn:ExtensionElements'')\<lparr>nlist := (\<lambda>_. [])(''values'' := [2])\<rparr>,
       2 := (empty_node ''zeebe:IoMapping'')\<lparr>nlist := (\<lambda>_. [])(''inputParameters'' := [3])\<rparr>,
       3 := (empty_node ''zeebe:Input'')\<lparr>nscal := (\<lambda>_. JUndefined)
              (''target'' := JStr ''x'', ''source'' := JStr ''={{a}}'')\<rparr>),
     fresh = 4, cmds = []\<rparr>"

definition ex_input :: "jsval \<Rightarrow> bool \<Rightarrow> property" where
  "ex_input v opt =
     (ex_property ''String'' v ((ex_binding ''zeebe:input'')\<lparr>bname := Some ''x''\<rparr>))
       \<lparr>poptional := opt\<rparr>"

section \<open>Auxiliary notions for the proofs\<close>

definition keeps_containers :: "doc \<Rightarrow> doc \<Rightarrow> bool" where
  "keeps_containers d d' =
     (fresh d \<le> fresh d' \<and>
      (\<forall>n<fresh d. nref (heap d n) ''extensionElements'' \<noteq> None \<longrightarrow>
                    nref (heap d' n) ''extensionElements'' \<noteq> None))"

definition keeps_payload :: "payload \<Rightarrow> bool" where
  "keeps_payload props = ((''extensionElements'', PRef None) \<notin> set props)"

definition io_cleanup :: "nat \<Rightarrow> nat \<Rightarrow> doc \<times> nat list \<times> nat list \<Rightarrow> doc" where
  "io_cleanup element ioMapping st =
     (let d3 = fst st; oldInputs = fst (snd st); oldOutputs = snd (snd st);
          d4 = (if oldInputs \<noteq> [] then
                  element_updateModdleProperties d3 element ioMapping
                    [(''inputParameters'',
                      PList (withoutF (nlist (heap d3 ioMapping) ''inputParameters'')
                               (\<lambda>inputParameter. inputParameter \<in> set oldInputs)))]
                else d3)
      in if oldOutputs \<noteq> [] then
           element_updateModdleProperties d4 element ioMapping
             [(''outputParameters'',
               PList (withoutF (nlist (heap d4 ioMapping) ''outputParameters'')
                        (\<lambda>outputParameter. outputParameter \<in> set oldOutputs)))]
         else d4)"

definition io_loop ::
  "nat \<Rightarrow> template option \<Rightarrow> nat \<Rightarrow> nat \<Rightarrow> doc \<Rightarrow> property list \<Rightarrow> doc" where
  "io_loop element oldTemplate businessObject ioMapping d nps =
     io_cleanup element ioMapping
       (foldl (updateZeebeInputOutputParameterProperties_each element oldTemplate
                 businessObject ioMapping)
          (d, nlist (heap d ioMapping) ''inputParameters'',
              nlist (heap d ioMapping) ''outputParameters'') nps)"

definition holder_removed :: "doc \<Rightarrow> nat \<Rightarrow> nat \<Rightarrow> nat \<Rightarrow> doc" where
  "holder_removed d element businessObject holder =
     element_updateModdleProperties d element businessObject
       [(''values'', PList (without (nlist (heap d businessObject) ''values'') (Some holder)))]"

definition holder_created :: "doc \<Rightarrow> nat \<Rightarrow> nat \<Rightarrow> string \<Rightarrow> doc" where
  "holder_created d element businessObject t =
     element_updateModdleProperties (fst (bpmnFactory_create d t [])) element businessObject
       [(''values'', PList (nlist (heap (fst (bpmnFactory_create d t [])) businessObject)
                              ''values'' @ [fresh d]))]"

definition io_properties :: "template \<Rightarrow> property list" where
  "io_properties nt = filter (\<lambda>np. btype (pbinding np) = ''zeebe:input'' \<or>
                                   btype (pbinding np) = ''zeebe:output'') (tproperties nt)"

definition list_cleanup :: "nat \<Rightarrow> nat \<Rightarrow> string \<Rightarrow> doc \<times> nat list \<Rightarrow> doc" where
  "list_cleanup element holder field st =
     (if snd st \<noteq> [] then
        element_updateModdleProperties (fst st) element holder
          [(field, PList (withoutF (nlist (heap (fst st) holder) field)
                            (\<lambda>entry. entry \<in> set (snd st))))]
      else fst st)"

definition header_loop ::
  "nat \<Rightarrow> template option \<Rightarrow> nat \<Rightarrow> nat \<Rightarrow> doc \<Rightarrow> property list \<Rightarrow> doc" where
  "header_loop element oldTemplate businessObject taskHeaders d nps =
     list_cleanup element taskHeaders ''values''
       (foldl (updateZeebeTaskHeaderProperties_each element oldTemplate businessObject
                 taskHeaders)
          (d, nlist (heap d taskHeaders) ''values'') nps)"

definition zp_loop ::
  "nat \<Rightarrow> template option \<Rightarrow> nat \<Rightarrow> nat \<Rightarrow> doc \<Rightarrow> property list \<Rightarrow> doc" where
  "zp_loop element oldTemplate businessObject zeebeProperties d nps =
     list_cleanup element zeebeProperties ''properties''
       (foldl (updateZeebePropertyProperties_each element oldTemplate businessObject
                 zeebeProperties)
          (d, nlist (heap d zeebeProperties) ''properties'') nps)"

definition header_properties :: "template \<Rightarrow> property list" where
  "header_properties nt =
     filter (\<lambda>np. btype (pbinding np) = ''zeebe:taskHeader'') (tproperties nt)"

definition zp_properties :: "template \<Rightarrow> property list" where
  "zp_properties nt =
     filter (\<lambda>np. btype (pbinding np) = ''zeebe:property'') (tproperties nt)"

section \<open>Settled documents\<close>

text \<open>
  Two documents have the same store when they have the same nodes and the same next free
  reference; they may differ in the commands logged.
\<close>

definition same_store :: "doc \<Rightarrow> doc \<Rightarrow> bool" where
  "same_store d d' = (heap d' = heap d \<and> fresh d' = fresh d)"

text \<open>
  The properties of a template by binding kind, as the reconcilers filter them.
\<close>

definition plain_properties :: "template \<Rightarrow> property list" where
  "plain_properties nt = filter (\<lambda>np. btype (pbinding np) = ''property'') (tproperties nt)"

definition td_properties :: "template \<Rightarrow> property list" where
  "td_properties nt =
     filter (\<lambda>np. btype (pbinding np) \<in> set TASK_DEFINITION_TYPES) (tproperties nt)"

definition ce_properties :: "template \<Rightarrow> property list" where
  "ce_properties nt =
     filter (\<lambda>np. btype (pbinding np) = ZEEBE_CALLED_ELEMENT) (tproperties nt)"

definition msg_properties :: "template \<Rightarrow> property list" where
  "msg_properties nt =
     filter (\<lambda>np. btype (pbinding np) = MESSAGE_PROPERTY_TYPE) (tproperties nt)"

definition sub_properties :: "template \<Rightarrow> property list" where
  "sub_properties nt =
     filter (\<lambda>np. btype (pbinding np) = MESSAGE_ZEEBE_SUBSCRIPTION_PROPERTY_TYPE)
       (tproperties nt)"

text \<open>
  A tracked slot is settled for a property when the handler, comparing against the same
  template, keeps its value or would write the value it holds. An entry is retained when
  the reconciler of mappings and custom properties takes it out of its removal snapshot.
\<close>

definition slot_settled :: "doc \<Rightarrow> nat \<Rightarrow> template \<Rightarrow> property \<Rightarrow> string \<Rightarrow> bool" where
  "slot_settled d n t p k =
     (shouldKeepValue d (Some n) (findOldProperty (Some t) p) p \<or>
      nscal (heap d n) k = getDefaultValue p)"

definition retained :: "doc \<Rightarrow> nat \<Rightarrow> template \<Rightarrow> property \<Rightarrow> bool" where
  "retained d n t p =
     (shouldUpdate (getDefaultValue p) p \<or>
      shouldKeepValue d (Some n) (findOldProperty (Some t) p) p)"

text \<open>
  The settled document of a template, family by family: stamps, plain properties, and the
  singleton nodes, which exist exactly when the template has properties of their kind.
\<close>

definition settled_stamps :: "template \<Rightarrow> doc \<Rightarrow> nat \<Rightarrow> bool" where
  "settled_stamps t d e =
     (nscal (heap d e) ''zeebe:modelerTemplate'' = JStr (tid t) \<and>
      nscal (heap d e) ''zeebe:modelerTemplateVersion'' = tversion t \<and>
      nscal (heap d e) ''zeebe:modelerTemplateIcon'' =
        (case ticon t of None \<Rightarrow> JUndefined | Some contents \<Rightarrow> contents))"

definition settled_plain :: "template \<Rightarrow> doc \<Rightarrow> nat \<Rightarrow> bool" where
  "settled_plain t d e =
     (\<forall>p\<in>set (plain_properties t). slot_settled d e t p (key_of (bname (pbinding p))))"

definition settled_td :: "template \<Rightarrow> doc \<Rightarrow> nat \<Rightarrow> bool" where
  "settled_td t d ee =
     (case findExtension d ee ''zeebe:TaskDefinition'' of
        None \<Rightarrow> td_properties t = []
      | Some td \<Rightarrow> td_properties t \<noteq> [] \<and>
          (\<forall>p\<in>set (td_properties t).
             slot_settled d td t p (key_of (getTaskDefinitionPropertyName (pbinding p)))))"

definition settled_ce :: "template \<Rightarrow> doc \<Rightarrow> nat \<Rightarrow> bool" where
  "settled_ce t d ee =
     (case findExtension d ee ''zeebe:CalledElement'' of
        None \<Rightarrow> ce_properties t = []
      | Some ce \<Rightarrow> ce_properties t \<noteq> [] \<and>
          (\<forall>p\<in>set (ce_properties t). slot_settled d ce t p (key_of (bproperty (pbinding p)))))"

text \<open>
  The last step of the singleton reconcilers: the fields of the properties that the new
  template has dropped are cleared.
\<close>

definition singleton_finish :: "nat \<Rightarrow> doc \<times> nat option \<Rightarrow> property list \<Rightarrow> doc" where
  "singleton_finish element st oldProperties =
     (case snd st of
        None \<Rightarrow> fst st
      | Some n \<Rightarrow>
          foldl (\<lambda>dd op. element_updateModdleProperties dd element n
                   [(key_of (bproperty (pbinding op)), PScalar JUndefined)])
            (fst st) oldProperties)"

definition td_dropped :: "template option \<Rightarrow> template \<Rightarrow> property list" where
  "td_dropped oldTemplate nt =
     (case oldTemplate of
        None \<Rightarrow> []
      | Some ot \<Rightarrow>
          filter (\<lambda>op. btype (pbinding op) \<in> set TASK_DEFINITION_TYPES \<and>
                    find (\<lambda>np. bproperty (pbinding np) = bproperty (pbinding op))
                      (td_properties nt) = None)
            (tproperties ot))"

definition ce_dropped :: "template option \<Rightarrow> template \<Rightarrow> property list" where
  "ce_dropped oldTemplate nt =
     (case oldTemplate of
        None \<Rightarrow> []
      | Some ot \<Rightarrow>
          filter (\<lambda>op. btype (pbinding op) = ZEEBE_CALLED_ELEMENT \<and>
                    find (\<lambda>np. bproperty (pbinding np) = bproperty (pbinding op))
                      (ce_properties nt) = None)
            (tproperties ot))"

text \<open>
  The keyed families: the holder exists exactly when the template has properties of the
  kind, no property waits for an entry to be created, every entry found is settled, and
  every entry of the holder is found by a property of the template.
\<close>

definition settled_headers :: "template \<Rightarrow> doc \<Rightarrow> nat \<Rightarrow> bool" where
  "settled_headers t d ee =
     (case findExtension d ee ''zeebe:TaskHeaders'' of
        None \<Rightarrow> header_properties t = []
      | Some th \<Rightarrow> header_properties t \<noteq> [] \<and>
          distinct (nlist (heap d th) ''values'') \<and>
          (\<forall>p\<in>set (header_properties t).
             case findBusinessObject d ee p of
               None \<Rightarrow> \<not> truthy (getDefaultValue p)
             | Some h \<Rightarrow> slot_settled d h t p ''value'') \<and>
          (\<forall>h\<in>set (nlist (heap d th) ''values'').
             \<exists>p\<in>set (header_properties t). findBusinessObject d ee p = Some h))"

definition settled_zp :: "template \<Rightarrow> doc \<Rightarrow> nat \<Rightarrow> bool" where
  "settled_zp t d ee =
     (case findExtension d ee ''zeebe:Properties'' of
        None \<Rightarrow> zp_properties t = []
      | Some zps \<Rightarrow> zp_properties t \<noteq> [] \<and>
          distinct (nlist (heap d zps) ''properties'') \<and>
          (\<forall>p\<in>set (zp_properties t).
             case findBusinessObject d ee p of
               None \<Rightarrow> \<not> shouldUpdate (getDefaultValue p) p
             | Some z \<Rightarrow> slot_settled d z t p ''value'') \<and>
          (\<forall>z\<in>set (nlist (heap d zps) ''properties'').
             \<exists>p\<in>set (zp_properties t). findBusinessObject d ee p = Some z \<and> retained d z t p))"

definition settled_io :: "template \<Rightarrow> doc \<Rightarrow> nat \<Rightarrow> bool" where
  "settled_io t d ee =
     (case findExtension d ee ''zeebe:IoMapping'' of
        None \<Rightarrow> io_properties t = []
      | Some io \<Rightarrow> io_properties t \<noteq> [] \<and>
          distinct (nlist (heap d io) ''inputParameters'') \<and>
          distinct (nlist (heap d io) ''outputParameters'') \<and>
          (\<forall>p\<in>set (io_properties t).
             case findBusinessObject d ee p of
               None \<Rightarrow> \<not> shouldUpdate (getDefaultValue p) p
             | Some x \<Rightarrow> slot_settled d x t p
                           (if is_a d x ''zeebe:Input'' then ''source'' else ''target'')) \<and>
          (\<forall>i\<in>set (nlist (heap d io) ''inputParameters'').
             is_a d i ''zeebe:Input'' \<and>
             (\<exists>p\<in>set (io_properties t). findBusinessObject d ee p = Some i \<and> retained d i t p)) \<and>
          (\<forall>out\<in>set (nlist (heap d io) ''outputParameters'').
             \<not> is_a d out ''zeebe:Input'' \<and>
             (\<exists>p\<in>set (io_properties t). findBusinessObject d ee p = Some out \<and>
                                          retained d out t p)))"

text \<open>
  A payload is inert on a node when it sets every field to the value the node holds.
\<close>

definition inert :: "node \<Rightarrow> payload \<Rightarrow> bool" where
  "inert n props = list_all (\<lambda>kv. snd kv = PScalar (nscal n (fst kv))) props"

text \<open>
  The message: it exists when the template has message properties, its subscription
  exists when the template has subscription properties, and it carries the stamp.
\<close>

definition settled_message :: "template \<Rightarrow> doc \<Rightarrow> nat \<Rightarrow> bool" where
  "settled_message t d e =
     ((msg_properties t \<noteq> [] \<longrightarrow>
         (case getMessage d e of
            None \<Rightarrow> False
          | Some m \<Rightarrow> \<forall>p\<in>set (msg_properties t).
                        slot_settled d m t p (key_of (bname (pbinding p))))) \<and>
      (sub_properties t \<noteq> [] \<longrightarrow>
         (case getMessage d e of
            None \<Rightarrow> False
          | Some m \<Rightarrow>
              (case nref (heap d m) ''extensionElements'' of
                 None \<Rightarrow> False
               | Some mee \<Rightarrow>
                   (case findExtension d mee ''zeebe:Subscription'' of
                      None \<Rightarrow> False
                    | Some sub \<Rightarrow> \<forall>p\<in>set (sub_properties t).
                                    slot_settled d sub t p (key_of (bname (pbinding p))))))) \<and>
      (case findMessage d (getBusinessObject e) of
         None \<Rightarrow> True
       | Some m \<Rightarrow> getTemplateId d m = JStr (tid t)))"

text \<open>
  The message collaborator is idle on a document when it changes no node of the store.
\<close>

definition removeMessage_idle :: "collab \<Rightarrow> doc \<Rightarrow> nat \<Rightarrow> bool" where
  "removeMessage_idle c d e =
     (\<forall>d'. heap d' = heap d \<and> fresh d' = fresh d \<longrightarrow>
           heap (removeMessage c d' e) = heap d \<and> fresh (removeMessage c d' e) = fresh d)"

text \<open>
  The settled document of a template.
\<close>

definition settled :: "collab \<Rightarrow> template \<Rightarrow> doc \<Rightarrow> nat \<Rightarrow> bool" where
  "settled c t d e =
     (settled_stamps t d e \<and> settled_plain t d e \<and>
      (case nref (heap d e) ''extensionElements'' of
         None \<Rightarrow> False
       | Some ee \<Rightarrow> settled_td t d ee \<and> settled_io t d ee \<and> settled_headers t d ee \<and>
                   settled_zp t d ee \<and> settled_ce t d ee) \<and>
      settled_message t d e \<and>
      (\<not> hasMessageProperties t \<longrightarrow> removeMessage_idle c d e))"

text \<open>
  The example task after the template with the plain property \<open>x\<close> (default \<open>a\<close>) has
  been applied to it: stamps, the value of \<open>x\<close>, and the empty container (node 1).
\<close>

definition ex_applied :: doc where
  "ex_applied = \<lparr>heap = (\<lambda>_. empty_node [])
      (0 := (empty_node ''bpmn:ServiceTask'')
              \<lparr>nscal := (\<lambda>_. JUndefined)
                 (''zeebe:modelerTemplate'' := JStr ''T'',
                  ''zeebe:modelerTemplateVersion'' := JNum 1,
                  ''x'' := JStr ''a''),
               nref := (\<lambda>_. None)(''extensionElements'' := Some 1)\<rparr>,
       1 := empty_node ''bpmn:ExtensionElements''),
     fresh = 2, cmds = []\<rparr>"

section \<open>Value slots and further examples\<close>







section \<open>Well-formed documents and the mapping holder\<close>

text \<open>
  The invariants of a document as bpmn-moddle builds it. They are not part of the handler:
  they say what the handler may rely on, and the theorems below that need them take them
  as hypotheses. The types the handler creates or looks up are \<^emph>\<open>reserved\<close>; the types of
  which it keeps at most one node per container are the \<^emph>\<open>singletons\<close> (the handler looks
  each of them up with \<open>findExtension\<close>, which returns the first).
\<close>

definition reserved :: "string list" where
  "reserved = [''bpmn:ExtensionElements'', ''bpmn:Message'', ''zeebe:TaskDefinition'',
     ''zeebe:IoMapping'', ''zeebe:Input'', ''zeebe:Output'', ''zeebe:TaskHeaders'',
     ''zeebe:Header'', ''zeebe:Properties'', ''zeebe:Property'', ''zeebe:CalledElement'',
     ''zeebe:Subscription'']"

definition singletons :: "string list" where
  "singletons = [''zeebe:TaskDefinition'', ''zeebe:IoMapping'', ''zeebe:TaskHeaders'',
     ''zeebe:Properties'', ''zeebe:CalledElement'', ''zeebe:Subscription'']"

text \<open>
  The lists of a node of type \<open>t\<close>: a container has at most one node of each singleton
  type; the lists of a holder have no node twice and only entries of the type of the holder.
  A property that is a reference points to a node of the expected type.
\<close>

definition list_ok :: "(nat \<Rightarrow> string) \<Rightarrow> string \<Rightarrow> string \<Rightarrow> nat list \<Rightarrow> bool" where
  "list_ok ty t k rs =
     ((t = ''bpmn:ExtensionElements'' \<and> k = ''values'' \<longrightarrow>
         (\<forall>s\<in>set singletons. length (filter (\<lambda>v. ty v = s) rs) \<le> 1)) \<and>
      (t = ''zeebe:IoMapping'' \<and> k = ''inputParameters'' \<longrightarrow>
         distinct rs \<and> (\<forall>x\<in>set rs. ty x = ''zeebe:Input'')) \<and>
      (t = ''zeebe:IoMapping'' \<and> k = ''outputParameters'' \<longrightarrow>
         distinct rs \<and> (\<forall>x\<in>set rs. ty x = ''zeebe:Output'')) \<and>
      (t = ''zeebe:TaskHeaders'' \<and> k = ''values'' \<longrightarrow>
         distinct rs \<and> (\<forall>x\<in>set rs. ty x = ''zeebe:Header'')) \<and>
      (t = ''zeebe:Properties'' \<and> k = ''properties'' \<longrightarrow>
         distinct rs \<and> (\<forall>x\<in>set rs. ty x = ''zeebe:Property'')))"

definition ref_ok :: "(nat \<Rightarrow> string) \<Rightarrow> string \<Rightarrow> nat \<Rightarrow> bool" where
  "ref_ok ty k x =
     ((k = ''extensionElements'' \<longrightarrow> ty x = ''bpmn:ExtensionElements'') \<and>
      (k = ''messageRef'' \<longrightarrow> ty x = ''bpmn:Message''))"

text \<open>
  A node is well-typed when none of its supertypes is reserved (so \<open>is_a\<close> of a reserved
  type reads the type of the node), its references and list members are allocated nodes,
  and its references and lists are as above. A document is well-formed for the element
  \<open>e\<close> when \<open>e\<close> is allocated, is not itself of a reserved type, and every allocated node
  is well-typed.
\<close>

definition typed_node :: "doc \<Rightarrow> nat \<Rightarrow> bool" where
  "typed_node d n =
     ((\<forall>t\<in>set reserved. t \<notin> set (nsupers (heap d n))) \<and>
      (\<forall>k x. nref (heap d n) k = Some x \<longrightarrow>
              x < fresh d \<and> ref_ok (\<lambda>v. ntype (heap d v)) k x) \<and>
      (\<forall>k. (\<forall>x\<in>set (nlist (heap d n) k). x < fresh d) \<and>
           list_ok (\<lambda>v. ntype (heap d v)) (ntype (heap d n)) k (nlist (heap d n) k)))"

definition wf_doc :: "doc \<Rightarrow> nat \<Rightarrow> bool" where
  "wf_doc d e =
     (e < fresh d \<and> ntype (heap d e) \<notin> set reserved \<and> (\<forall>n<fresh d. typed_node d n))"

text \<open>
  \<open>touches K d d'\<close>: the document \<open>d'\<close> differs from \<open>d\<close> at most by new nodes, by the scalars
  and lists of nodes whose type is in \<open>K\<close>, by the members of type in \<open>K\<close> of a container,
  by a container given to a node that had none, and (if messages are in \<open>K\<close>) by the
  message references.
\<close>

definition touches :: "string set \<Rightarrow> doc \<Rightarrow> doc \<Rightarrow> bool" where
  "touches K d d' =
     (fresh d \<le> fresh d' \<and>
      (\<forall>n<fresh d.
         ntype (heap d' n) = ntype (heap d n) \<and>
         nsupers (heap d' n) = nsupers (heap d n) \<and>
         (\<forall>k. nref (heap d' n) k = nref (heap d n) k \<or>
              (k = ''messageRef'' \<and> ''bpmn:Message'' \<in> K) \<or>
              (k = ''extensionElements'' \<and> nref (heap d n) k = None)) \<and>
         (ntype (heap d n) \<notin> K \<longrightarrow> nscal (heap d' n) = nscal (heap d n)) \<and>
         (\<forall>k. ntype (heap d n) \<notin> K \<longrightarrow>
              (ntype (heap d n) = ''bpmn:ExtensionElements'' \<and> k = ''values'') \<or>
              nlist (heap d' n) k = nlist (heap d n) k) \<and>
         (ntype (heap d n) = ''bpmn:ExtensionElements'' \<longrightarrow>
            filter (\<lambda>v. ntype (heap d' v) \<notin> K) (nlist (heap d' n) ''values'') =
            filter (\<lambda>v. ntype (heap d v) \<notin> K) (nlist (heap d n) ''values''))))"

text \<open>
  A payload of \<open>updateModdleProperties\<close> that writes scalars only.
\<close>

definition scalars :: "payload \<Rightarrow> bool" where
  "scalars props = list_all (\<lambda>kv. case snd kv of PScalar v \<Rightarrow> True | _ \<Rightarrow> False) props"

text \<open>
  The element \<open>e\<close> of a well-formed document has the container \<open>ee\<close>, which holds the
  mapping holder \<open>io\<close>.
\<close>

definition io_ctx :: "doc \<Rightarrow> nat \<Rightarrow> nat \<Rightarrow> nat \<Rightarrow> bool" where
  "io_ctx d e ee io =
     (wf_doc d e \<and> nref (heap d e) ''extensionElements'' = Some ee \<and>
      findExtension d ee ''zeebe:IoMapping'' = Some io)"

text \<open>
  The two kinds of mapping properties, side by side, as \<open>findOldProperty\<close>,
  \<open>findBusinessObject\<close>, \<open>getPropertyValue\<close> and the loop of
  \<open>_updateZeebeInputOutputParameterProperties\<close> treat them: the slot that holds the tracked
  value, the list of the holder, the entry the loop creates, the field and the value of
  the identity key, and the type of the entries. \<open>tracks d io p x\<close>: the node \<open>x\<close> is the one
  entry of the holder \<open>io\<close> with the identity key of the property \<open>p\<close>.
\<close>

definition io_slot :: "property \<Rightarrow> string" where
  "io_slot q = (if btype (pbinding q) = ''zeebe:input'' then ''source'' else ''target'')"

definition io_field :: "property \<Rightarrow> string" where
  "io_field q = (if btype (pbinding q) = ''zeebe:input''
                 then ''inputParameters'' else ''outputParameters'')"

definition io_new :: "doc \<Rightarrow> property \<Rightarrow> doc" where
  "io_new d q = (if btype (pbinding q) = ''zeebe:input''
                 then fst (createInputParameter d (pbinding q) (getDefaultValue q))
                 else fst (createOutputParameter d (pbinding q) (getDefaultValue q)))"

definition io_keyf :: "property \<Rightarrow> string" where
  "io_keyf q = (if btype (pbinding q) = ''zeebe:input'' then ''target'' else ''source'')"

definition io_key :: "property \<Rightarrow> jsval" where
  "io_key q = (if btype (pbinding q) = ''zeebe:input'' then js_of (bname (pbinding q))
               else js_of (bsource (pbinding q)))"

definition io_type :: "property \<Rightarrow> string" where
  "io_type q = (if btype (pbinding q) = ''zeebe:input'' then ''zeebe:Input'' else ''zeebe:Output'')"

definition io_kind :: "property \<Rightarrow> bool" where
  "io_kind q = (btype (pbinding q) = ''zeebe:input'' \<or> btype (pbinding q) = ''zeebe:output'')"

definition tracks :: "doc \<Rightarrow> nat \<Rightarrow> property \<Rightarrow> nat \<Rightarrow> bool" where
  "tracks d io p x =
     (filter (\<lambda>i. nscal (heap d i) (io_keyf p) = io_key p) (nlist (heap d io) (io_field p)) = [x])"

text \<open>The snapshot of the list of a property, in the state of the loop.\<close>

definition io_olds :: "property \<Rightarrow> doc \<times> nat list \<times> nat list \<Rightarrow> nat list" where
  "io_olds p st = (if btype (pbinding p) = ''zeebe:input'' then fst (snd st) else snd (snd st))"

text \<open>
  A task (node 0) whose container (node 1) holds a mapping holder (node 2) with the input
  \<open>x\<close> fed by \<open>={{a}}\<close> (node 3) and the output \<open>y\<close> fed by \<open>={{r}}\<close> (node 4); an output
  property for the source \<open>={{r}}\<close>.
\<close>

definition ex_mappings :: doc where
  "ex_mappings = \<lparr>heap = (\<lambda>_. empty_node [])
      (0 := (empty_node ''bpmn:ServiceTask'')
              \<lparr>nref := (\<lambda>_. None)(''extensionElements'' := Some 1)\<rparr>,
       1 := (empty_node ''bpmn:ExtensionElements'')\<lparr>nlist := (\<lambda>_. [])(''values'' := [2])\<rparr>,
       2 := (empty_node ''zeebe:IoMapping'')
              \<lparr>nlist := (\<lambda>_. [])(''inputParameters'' := [3], ''outputParameters'' := [4])\<rparr>,
       3 := (empty_node ''zeebe:Input'')\<lparr>nscal := (\<lambda>_. JUndefined)
              (''target'' := JStr ''x'', ''source'' := JStr ''={{a}}'')\<rparr>,
       4 := (empty_node ''zeebe:Output'')\<lparr>nscal := (\<lambda>_. JUndefined)
              (''source'' := JStr ''={{r}}'', ''target'' := JStr ''y'')\<rparr>),
     fresh = 5, cmds = []\<rparr>"

definition ex_output :: "jsval \<Rightarrow> property" where
  "ex_output v =
     ex_property ''String'' v ((ex_binding ''zeebe:output'')\<lparr>bsource := Some ''={{r}}''\<rparr>)"

section \<open>Basic facts\<close>

lemmas ex_defs = ex_collab_def ex_binding_def ex_property_def ex_template_def ex_task_def
  ex_plain_def ex_with_x_def ex_dropdown_def ex_dup_def ex_headers_def ex_header_def
  ex_io_def ex_input_def empty_node_def

subsection \<open>The array helper\<close>

lemma indexOf_absent: "x \<notin> set xs \<Longrightarrow> indexOf xs x = - 1"
  by (induction xs) (auto simp: Let_def)

lemma indexOf_nonneg: "x \<in> set xs \<Longrightarrow> 0 \<le> indexOf xs x"
  by (induction xs) (auto simp: Let_def)

lemma indexOf_lt: "x \<in> set xs \<Longrightarrow> indexOf xs x < int (length xs)"
  by (induction xs) (auto simp: Let_def)

lemma splice1_indexOf: "x \<in> set xs \<Longrightarrow> splice1 xs (indexOf xs x) = remove1 x xs"
proof (induction xs)
  case Nil
  then show ?case by simp
next
  case (Cons y ys)
  show ?case
  proof (cases "y = x")
    case True
    then show ?thesis by (simp add: splice1_def)
  next
    case False
    with Cons.prems have mem: "x \<in> set ys" by simp
    have nn: "0 \<le> indexOf ys x" and lt: "indexOf ys x < int (length ys)"
      using mem by (simp_all add: indexOf_nonneg indexOf_lt)
    have "splice1 ys (indexOf ys x) = remove1 x ys" using Cons.IH mem by simp
    moreover have "nat (indexOf ys x + 1) = Suc (nat (indexOf ys x))" using nn by simp
    ultimately show ?thesis using False nn lt
      by (simp add: splice1_def Let_def min_def)
  qed
qed

lemma splice1_minus_one: "xs \<noteq> [] \<Longrightarrow> splice1 xs (- 1) = butlast xs"
proof -
  assume ne: "xs \<noteq> []"
  then have len: "0 < length xs" by simp
  have n: "nat (max (int (length xs) + - 1) 0) = length xs - 1" using len by simp
  have "take (length xs - 1) xs @ drop (Suc (length xs - 1)) xs = butlast xs"
    using len by (simp add: butlast_conv_take)
  then show ?thesis unfolding splice1_def Let_def using n by simp
qed

subsection \<open>Binding kinds, matching and the value policy\<close>

lemma find_SomeD: "find P xs = Some x \<Longrightarrow> P x \<and> x \<in> set xs"
  by (induction xs) (auto split: if_splits)

lemma kinds_distinct:
  "''property'' \<notin> set TASK_DEFINITION_TYPES"
  "''zeebe:input'' \<notin> set TASK_DEFINITION_TYPES"
  "''zeebe:output'' \<notin> set TASK_DEFINITION_TYPES"
  "''zeebe:taskHeader'' \<notin> set TASK_DEFINITION_TYPES"
  "''zeebe:property'' \<notin> set TASK_DEFINITION_TYPES"
  "MESSAGE_PROPERTY_TYPE \<notin> set TASK_DEFINITION_TYPES"
  "MESSAGE_ZEEBE_SUBSCRIPTION_PROPERTY_TYPE \<notin> set TASK_DEFINITION_TYPES"
  "ZEEBE_CALLED_ELEMENT \<notin> set TASK_DEFINITION_TYPES"
  "MESSAGE_PROPERTY_TYPE \<noteq> ''property''"
  "MESSAGE_PROPERTY_TYPE \<noteq> ''zeebe:input''"
  "MESSAGE_PROPERTY_TYPE \<noteq> ''zeebe:output''"
  "MESSAGE_PROPERTY_TYPE \<noteq> ''zeebe:taskHeader''"
  "MESSAGE_PROPERTY_TYPE \<noteq> ''zeebe:property''"
  "MESSAGE_ZEEBE_SUBSCRIPTION_PROPERTY_TYPE \<noteq> ''property''"
  "MESSAGE_ZEEBE_SUBSCRIPTION_PROPERTY_TYPE \<noteq> ''zeebe:input''"
  "MESSAGE_ZEEBE_SUBSCRIPTION_PROPERTY_TYPE \<noteq> ''zeebe:output''"
  "MESSAGE_ZEEBE_SUBSCRIPTION_PROPERTY_TYPE \<noteq> ''zeebe:taskHeader''"
  "MESSAGE_ZEEBE_SUBSCRIPTION_PROPERTY_TYPE \<noteq> ''zeebe:property''"
  "MESSAGE_ZEEBE_SUBSCRIPTION_PROPERTY_TYPE \<noteq> MESSAGE_PROPERTY_TYPE"
  "ZEEBE_CALLED_ELEMENT \<noteq> ''property''"
  "ZEEBE_CALLED_ELEMENT \<noteq> ''zeebe:input''"
  "ZEEBE_CALLED_ELEMENT \<noteq> ''zeebe:output''"
  "ZEEBE_CALLED_ELEMENT \<noteq> ''zeebe:taskHeader''"
  "ZEEBE_CALLED_ELEMENT \<noteq> ''zeebe:property''"
  "ZEEBE_CALLED_ELEMENT \<noteq> MESSAGE_PROPERTY_TYPE"
  "ZEEBE_CALLED_ELEMENT \<noteq> MESSAGE_ZEEBE_SUBSCRIPTION_PROPERTY_TYPE"
  by (simp_all add: TASK_DEFINITION_TYPES_def ZEEBE_TASK_DEFINITION_def
        ZEEBE_TASK_DEFINITION_TYPE_TYPE_def MESSAGE_PROPERTY_TYPE_def
        MESSAGE_ZEEBE_SUBSCRIPTION_PROPERTY_TYPE_def ZEEBE_CALLED_ELEMENT_def)

lemma findOldProperty_None [simp]: "findOldProperty None np = None"
  by (simp add: findOldProperty_def)



lemma findOldProperty_input:
  "btype (pbinding np) = ''zeebe:input'' \<Longrightarrow>
   findOldProperty (Some ot) np =
     find (\<lambda>op. btype (pbinding op) = ''zeebe:input'' \<and>
                 bname (pbinding op) = bname (pbinding np)) (tproperties ot)"
  by (simp add: findOldProperty_def Let_def kinds_distinct)

lemma findOldProperty_output:
  "btype (pbinding np) = ''zeebe:output'' \<Longrightarrow>
   findOldProperty (Some ot) np =
     find (\<lambda>op. btype (pbinding op) = ''zeebe:output'' \<and>
                 bsource (pbinding op) = bsource (pbinding np)) (tproperties ot)"
  by (simp add: findOldProperty_def Let_def kinds_distinct)








lemma heap_upd_scal:
  "nscal (heap (element_updateModdleProperties d e m [(k, PScalar v)]) m) k = v"
  by (simp add: element_updateModdleProperties_def)

lemma upd_scalar_nlist [simp]:
  "nlist (heap (element_updateModdleProperties d e m [(k, PScalar v)]) n) = nlist (heap d n)"
  by (simp add: element_updateModdleProperties_def)

lemma upd_scalar_nref [simp]:
  "nref (heap (element_updateModdleProperties d e m [(k, PScalar v)]) n) = nref (heap d n)"
  by (simp add: element_updateModdleProperties_def)

lemma upd_fresh [simp]:
  "fresh (element_updateModdleProperties d e m props) = fresh d"
  by (simp add: element_updateModdleProperties_def)


lemma getPropertyValue_input:
  "btype (pbinding p) = ''zeebe:input'' \<Longrightarrow>
   getPropertyValue d (Some e) p = nscal (heap d e) ''source''"
  by (simp add: getPropertyValue_def Let_def kinds_distinct)

lemma getPropertyValue_output:
  "btype (pbinding p) = ''zeebe:output'' \<Longrightarrow>
   getPropertyValue d (Some e) p = nscal (heap d e) ''target''"
  by (simp add: getPropertyValue_def Let_def kinds_distinct)

lemma findBusinessObject_input:
  "btype (pbinding p) = ''zeebe:input'' \<Longrightarrow>
   findBusinessObject d ee p =
     (case findExtension d ee ''zeebe:IoMapping'' of
        None \<Rightarrow> None
      | Some io \<Rightarrow> find (\<lambda>i. nscal (heap d i) ''target'' = js_of (bname (pbinding p)))
                     (nlist (heap d io) ''inputParameters''))"
  by (simp add: findBusinessObject_def Let_def kinds_distinct getBusinessObject_def
        split: option.splits)

lemma findBusinessObject_output:
  "btype (pbinding p) = ''zeebe:output'' \<Longrightarrow>
   findBusinessObject d ee p =
     (case findExtension d ee ''zeebe:IoMapping'' of
        None \<Rightarrow> None
      | Some io \<Rightarrow> find (\<lambda>out. nscal (heap d out) ''source'' = js_of (bsource (pbinding p)))
                     (nlist (heap d io) ''outputParameters''))"
  by (simp add: findBusinessObject_def Let_def kinds_distinct getBusinessObject_def
        split: option.splits)

lemma io_each_found:
  assumes f: "findBusinessObject d ee p = Some e"
  shows "fresh (fst (updateZeebeInputOutputParameterProperties_each el ot ee io (d, oi, oo) p))
           = fresh d"
    and "nlist (heap (fst (updateZeebeInputOutputParameterProperties_each el ot ee io (d, oi, oo) p)) n)
           = nlist (heap d n)"
    and "is_a d e ''zeebe:Input'' \<Longrightarrow> \<not> shouldKeepValue d (Some e) (findOldProperty ot p) p \<Longrightarrow>
         nscal (heap (fst (updateZeebeInputOutputParameterProperties_each el ot ee io (d, oi, oo) p)) e)
           ''source'' = getDefaultValue p"
    and "\<not> is_a d e ''zeebe:Input'' \<Longrightarrow> \<not> shouldKeepValue d (Some e) (findOldProperty ot p) p \<Longrightarrow>
         nscal (heap (fst (updateZeebeInputOutputParameterProperties_each el ot ee io (d, oi, oo) p)) e)
           ''target'' = getDefaultValue p"
    and "shouldKeepValue d (Some e) (findOldProperty ot p) p \<Longrightarrow>
         fst (updateZeebeInputOutputParameterProperties_each el ot ee io (d, oi, oo) p) = d"
  using f
  by (simp_all add: updateZeebeInputOutputParameterProperties_each_def Let_def heap_upd_scal)

lemmas kind_defs = TASK_DEFINITION_TYPES_def ZEEBE_TASK_DEFINITION_def
  ZEEBE_TASK_DEFINITION_TYPE_TYPE_def MESSAGE_PROPERTY_TYPE_def
  MESSAGE_ZEEBE_SUBSCRIPTION_PROPERTY_TYPE_def ZEEBE_CALLED_ELEMENT_def
  MESSAGE_BINDING_TYPES_def

subsection \<open>Commands and node creation\<close>

lemma upd_heap_other [simp]:
  "n \<noteq> m \<Longrightarrow> heap (element_updateModdleProperties d e m props) n = heap d n"
  by (simp add: element_updateModdleProperties_def)

lemma upd_list_nlist_same [simp]:
  "nlist (heap (element_updateModdleProperties d e m [(k, PList rs)]) m) k = rs"
  by (simp add: element_updateModdleProperties_def)

lemma upd_list_nscal [simp]:
  "nscal (heap (element_updateModdleProperties d e m [(k, PList rs)]) n) = nscal (heap d n)"
  by (simp add: element_updateModdleProperties_def)

lemma create_fresh [simp]:
  "fresh (fst (bpmnFactory_create d t attrs)) = Suc (fresh d)"
  "snd (bpmnFactory_create d t attrs) = fresh d"
  by (simp_all add: bpmnFactory_create_def)

lemma create_heap_other [simp]:
  "n \<noteq> fresh d \<Longrightarrow> heap (fst (bpmnFactory_create d t attrs)) n = heap d n"
  by (simp add: bpmnFactory_create_def)

lemma create_heap_new:
  "heap (fst (bpmnFactory_create d t attrs)) (fresh d) = foldl set_prop (empty_node t) attrs"
  by (simp add: bpmnFactory_create_def)

lemma remove_arr_present:
  "distinct xs \<Longrightarrow> e \<in> set xs \<Longrightarrow> set (remove_arr xs e) = set xs - {e}"
  by (simp add: remove_arr_def isUndefined_def Let_def splice1_indexOf)

subsection \<open>One step of the keyed collections\<close>

lemma io_each_not_found:
  assumes nf: "findBusinessObject d ee p = None" and h: "holder < fresh d"
  shows "\<not> shouldUpdate (getDefaultValue p) p \<Longrightarrow>
           updateZeebeInputOutputParameterProperties_each el old ee holder (d, oi, oo) p
             = (d, oi, oo)"
    and "shouldUpdate (getDefaultValue p) p \<Longrightarrow> btype (pbinding p) = ''zeebe:input'' \<Longrightarrow>
           fresh (fst (updateZeebeInputOutputParameterProperties_each el old ee holder
                         (d, oi, oo) p)) = Suc (fresh d) \<and>
           nlist (heap (fst (updateZeebeInputOutputParameterProperties_each el old ee holder
                               (d, oi, oo) p)) holder) ''inputParameters''
             = nlist (heap d holder) ''inputParameters'' @ [fresh d] \<and>
           heap (fst (updateZeebeInputOutputParameterProperties_each el old ee holder
                        (d, oi, oo) p)) (fresh d)
             = (empty_node ''zeebe:Input'')\<lparr>nscal := (\<lambda>_. JUndefined)
                  (''source'' := getDefaultValue p, ''target'' := js_of (bname (pbinding p)))\<rparr>"
    and "shouldUpdate (getDefaultValue p) p \<Longrightarrow> btype (pbinding p) \<noteq> ''zeebe:input'' \<Longrightarrow>
           fresh (fst (updateZeebeInputOutputParameterProperties_each el old ee holder
                         (d, oi, oo) p)) = Suc (fresh d) \<and>
           nlist (heap (fst (updateZeebeInputOutputParameterProperties_each el old ee holder
                               (d, oi, oo) p)) holder) ''outputParameters''
             = nlist (heap d holder) ''outputParameters'' @ [fresh d] \<and>
           heap (fst (updateZeebeInputOutputParameterProperties_each el old ee holder
                        (d, oi, oo) p)) (fresh d)
             = (empty_node ''zeebe:Output'')\<lparr>nscal := (\<lambda>_. JUndefined)
                  (''source'' := js_of (bsource (pbinding p)), ''target'' := getDefaultValue p)\<rparr>"
  using nf h
  by (auto simp: updateZeebeInputOutputParameterProperties_each_def Let_def
        createInputParameter_def createOutputParameter_def bpmnFactory_create_def
        element_updateModdleProperties_def empty_node_def split: prod.splits)

lemma zp_each_not_found:
  assumes nf: "findBusinessObject d ee p = None" and h: "holder < fresh d"
  shows "\<not> shouldUpdate (getDefaultValue p) p \<Longrightarrow>
           updateZeebePropertyProperties_each el old ee holder (d, olds) p = (d, olds)"
    and "shouldUpdate (getDefaultValue p) p \<Longrightarrow>
           fresh (fst (updateZeebePropertyProperties_each el old ee holder (d, olds) p))
             = Suc (fresh d) \<and>
           nlist (heap (fst (updateZeebePropertyProperties_each el old ee holder (d, olds) p))
                    holder) ''properties''
             = nlist (heap d holder) ''properties'' @ [fresh d] \<and>
           heap (fst (updateZeebePropertyProperties_each el old ee holder (d, olds) p)) (fresh d)
             = (empty_node ''zeebe:Property'')\<lparr>nscal := (\<lambda>_. JUndefined)
                  (''name'' := js_of (bname (pbinding p)), ''value'' := getDefaultValue p)\<rparr>"
  using nf h
  by (auto simp: updateZeebePropertyProperties_each_def Let_def
        createZeebeProperty_def bpmnFactory_create_def
        element_updateModdleProperties_def empty_node_def split: prod.splits)

lemma header_each_not_found:
  assumes nf: "findBusinessObject d ee p = None" and h: "holder < fresh d"
  shows "\<not> truthy (getDefaultValue p) \<Longrightarrow>
           updateZeebeTaskHeaderProperties_each el old ee holder (d, olds) p = (d, olds)"
    and "truthy (getDefaultValue p) \<Longrightarrow>
           fresh (fst (updateZeebeTaskHeaderProperties_each el old ee holder (d, olds) p))
             = Suc (fresh d) \<and>
           nlist (heap (fst (updateZeebeTaskHeaderProperties_each el old ee holder (d, olds) p))
                    holder) ''values''
             = nlist (heap d holder) ''values'' @ [fresh d] \<and>
           heap (fst (updateZeebeTaskHeaderProperties_each el old ee holder (d, olds) p)) (fresh d)
             = (empty_node ''zeebe:Header'')\<lparr>nscal := (\<lambda>_. JUndefined)
                  (''key'' := js_of (bkey (pbinding p)), ''value'' := getDefaultValue p)\<rparr>"
  using nf h
  by (auto simp: updateZeebeTaskHeaderProperties_each_def Let_def
        createTaskHeader_def bpmnFactory_create_def
        element_updateModdleProperties_def empty_node_def split: prod.splits)

lemma io_each_found_olds:
  assumes f: "findBusinessObject d ee p = Some e"
  shows "snd (updateZeebeInputOutputParameterProperties_each el old ee holder (d, oi, oo) p) =
           (if shouldUpdate (getDefaultValue p) p \<or>
               shouldKeepValue d (Some e) (findOldProperty old p) p
            then (if is_a d e ''zeebe:Input'' then (remove_arr oi e, oo)
                  else (oi, remove_arr oo e))
            else (oi, oo))"
  using f by (simp add: updateZeebeInputOutputParameterProperties_each_def Let_def)

lemma zp_each_found_olds:
  assumes f: "findBusinessObject d ee p = Some e"
  shows "snd (updateZeebePropertyProperties_each el old ee holder (d, olds) p) =
           (if shouldUpdate (getDefaultValue p) p \<or>
               shouldKeepValue d (Some e) (findOldProperty old p) p
            then remove_arr olds e else olds)"
  using f by (simp add: updateZeebePropertyProperties_each_def Let_def)

lemma header_each_found_olds:
  assumes f: "findBusinessObject d ee p = Some e"
  shows "snd (updateZeebeTaskHeaderProperties_each el old ee holder (d, olds) p)
           = remove_arr olds e"
  using f by (simp add: updateZeebeTaskHeaderProperties_each_def Let_def)

lemmas eval_defs = findBusinessObject_def findExtension_def is_a_def getBusinessObject_def
  findOldProperty_def getDefaultValue_def shouldUpdate_def shouldKeepValue_def
  propertyChanged_def getPropertyValue_def remove_arr_def splice1_def isUndefined_def
  element_updateModdleProperties_def withoutF_def bpmnFactory_create_def
  getOrCreateExtensionElements_def kind_defs Let_def

subsection \<open>Extension containers are kept\<close>

lemma keeps_refl [simp]: "keeps_containers d d"
  by (simp add: keeps_containers_def)

lemma keeps_trans:
  "keeps_containers d1 d2 \<Longrightarrow> keeps_containers d2 d3 \<Longrightarrow> keeps_containers d1 d3"
  by (auto simp: keeps_containers_def)

lemma set_props_keeps:
  "keeps_payload props \<Longrightarrow> nref n ''extensionElements'' \<noteq> None \<Longrightarrow>
   nref (foldl set_prop n props) ''extensionElements'' \<noteq> None"
proof (induction props arbitrary: n)
  case Nil
  then show ?case by simp
next
  case (Cons kv props)
  obtain k v where kv: "kv = (k, v)" by (cases kv)
  have "nref (set_prop n (k, v)) ''extensionElements'' \<noteq> None"
  proof (cases v)
    case (PRef r)
    then show ?thesis using Cons.prems by (cases r) (auto simp: keeps_payload_def kv)
  qed (use Cons.prems in \<open>auto simp: kv\<close>)
  moreover have "keeps_payload props" using Cons.prems(1) by (simp add: keeps_payload_def)
  ultimately show ?case using Cons.IH by (simp add: kv)
qed

lemma keeps_upd:
  "keeps_payload props \<Longrightarrow> keeps_containers d (element_updateModdleProperties d e m props)"
  using set_props_keeps [of props "heap d m"]
  by (auto simp: keeps_containers_def element_updateModdleProperties_def)

lemma keeps_upd_then:
  "keeps_payload props \<Longrightarrow> keeps_containers d0 d \<Longrightarrow>
   keeps_containers d0 (element_updateModdleProperties d e m props)"
  using keeps_trans keeps_upd by blast

lemma keeps_create:
  "keeps_containers d (fst (bpmnFactory_create d t attrs))"
  by (simp add: keeps_containers_def bpmnFactory_create_def)

lemma keeps_create_then:
  "keeps_containers d0 d \<Longrightarrow> bpmnFactory_create d t attrs = (d1, r) \<Longrightarrow> keeps_containers d0 d1"
  using keeps_trans keeps_create by (metis fst_conv)

lemma keeps_payload_simps [simp]:
  "keeps_payload []"
  "keeps_payload [(k, PScalar v)]"
  "keeps_payload [(k, PList rs)]"
  "keeps_payload [(k, PRef (Some r))]"
  by (simp_all add: keeps_payload_def)

lemma obj_set_set: "set (obj_set ps k v) \<subseteq> insert (k, v) (set ps)"
  by (induction ps k v rule: obj_set.induct) auto

lemma keeps_payload_obj_set:
  "keeps_payload ps \<Longrightarrow> keeps_payload (obj_set ps k (PScalar v))"
  using obj_set_set [of ps k "PScalar v"] by (auto simp: keeps_payload_def)

lemma keeps_payload_foldl_remove:
  "keeps_payload ps \<Longrightarrow>
   keeps_payload (foldl (\<lambda>props p. obj_set props (f p) (PScalar JUndefined)) ps xs)"
  by (induction xs arbitrary: ps) (simp_all add: keeps_payload_obj_set)

lemma keeps_payload_foldl_set:
  "keeps_payload ps \<Longrightarrow>
   keeps_payload (foldl (\<lambda>props p. if c p then props else obj_set props (f p) (PScalar (g p)))
                    ps xs)"
  by (induction xs arbitrary: ps) (simp_all add: keeps_payload_obj_set)

lemma keeps_foldl:
  assumes "\<And>d x. keeps_containers d (f d x)"
  shows "keeps_containers d (foldl f d xs)"
proof (induction xs arbitrary: d)
  case Nil
  show ?case by simp
next
  case (Cons x xs)
  show ?case using keeps_trans [OF assms [of d x] Cons.IH [of "f d x"]] by simp
qed

lemma keeps_foldl_fst:
  assumes "\<And>st x. keeps_containers (fst st) (fst (f st x))"
  shows "keeps_containers (fst st) (fst (foldl f st xs))"
proof (induction xs arbitrary: st)
  case Nil
  show ?case by simp
next
  case (Cons x xs)
  show ?case using keeps_trans [OF assms [of st x] Cons.IH [of "f st x"]] by simp
qed

lemma keeps_getOrCreate:
  "keeps_containers d (fst (getOrCreateExtensionElements d e bo))"
  by (auto simp: getOrCreateExtensionElements_def split: option.splits prod.splits
        intro!: keeps_upd_then intro: keeps_create_then [OF keeps_refl])

lemma getOrCreate_has:
  assumes "bo < fresh d"
  shows "nref (heap (fst (getOrCreateExtensionElements d e bo)) bo) ''extensionElements''
           = Some (snd (getOrCreateExtensionElements d e bo))"
  using assms
  by (auto simp: getOrCreateExtensionElements_def bpmnFactory_create_def
        element_updateModdleProperties_def split: option.splits)

lemma keeps_updateProperties_each:
  "keeps_containers d (updateProperties_each e old d p)"
  by (simp add: updateProperties_each_def Let_def keeps_upd)

lemma keeps_updateProperties:
  "keeps_containers d (updateProperties d e old nt)"
  unfolding updateProperties_def Let_def
  by (auto intro!: keeps_trans [OF _ keeps_foldl] keeps_updateProperties_each keeps_upd
        keeps_payload_foldl_remove)

lemma keeps_td_each:
  "keeps_containers (fst st) (fst (updateZeebeTaskDefinition_each e old bo st p))"
  by (auto simp: updateZeebeTaskDefinition_each_def Let_def createTaskDefinition_def
        split: option.splits prod.splits
        intro!: keeps_upd keeps_upd_then intro: keeps_create_then [OF keeps_refl])

lemma keeps_foldl_drop:
  "keeps_containers d (foldl (\<lambda>dd op. element_updateModdleProperties dd e m
                                  [(f op, PScalar JUndefined)]) d xs)"
  by (rule keeps_foldl) (simp add: keeps_upd)

lemma keeps_updateZeebeTaskDefinition_from:
  assumes "getOrCreateExtensionElements d0 e (getBusinessObject e) = (d, bo)"
  shows "keeps_containers d (updateZeebeTaskDefinition d0 e old nt)"
proof -
  let ?nps = "filter (\<lambda>np. btype (pbinding np) \<in> set TASK_DEFINITION_TYPES) (tproperties nt)"
  let ?st = "foldl (updateZeebeTaskDefinition_each e old bo)
               (d, findExtension d bo ''zeebe:TaskDefinition'') ?nps"
  have k: "keeps_containers d (fst ?st)"
    using keeps_foldl_fst [of "updateZeebeTaskDefinition_each e old bo"
            "(d, findExtension d bo ''zeebe:TaskDefinition'')" ?nps, OF keeps_td_each]
    by simp
  show ?thesis
    unfolding updateZeebeTaskDefinition_def Let_def assms
    using k
    by (auto simp: keeps_upd split: prod.splits option.splits
          intro: keeps_trans [OF _ keeps_foldl_drop])
qed

lemma keeps_updateZeebeTaskDefinition:
  "keeps_containers d0 (updateZeebeTaskDefinition d0 e old nt)"
  using keeps_updateZeebeTaskDefinition_from [of d0 e _ _ old nt]
        keeps_getOrCreate [of d0 e "getBusinessObject e"]
  by (cases "getOrCreateExtensionElements d0 e (getBusinessObject e)")
     (auto intro: keeps_trans)

lemma td_has_container:
  assumes "e < fresh d0"
  shows "nref (heap (updateZeebeTaskDefinition d0 e old nt) e) ''extensionElements'' \<noteq> None"
proof -
  obtain d bo where g: "getOrCreateExtensionElements d0 e (getBusinessObject e) = (d, bo)"
    by (cases "getOrCreateExtensionElements d0 e (getBusinessObject e)")
  have h: "nref (heap d e) ''extensionElements'' \<noteq> None"
    using getOrCreate_has [of e d0 e] assms g by (simp add: getBusinessObject_def)
  have "fresh d0 \<le> fresh d"
    using keeps_getOrCreate [of d0 e "getBusinessObject e"] g by (simp add: keeps_containers_def)
  then have "e < fresh d" using assms by simp
  then show ?thesis
    using keeps_updateZeebeTaskDefinition_from [OF g, of old nt] h
    by (simp add: keeps_containers_def)
qed

lemma keeps_io_each:
  "keeps_containers (fst st)
     (fst (updateZeebeInputOutputParameterProperties_each e old bo io st p))"
  by (auto simp: updateZeebeInputOutputParameterProperties_each_def Let_def
        createInputParameter_def createOutputParameter_def
        split: option.splits prod.splits
        intro!: keeps_upd keeps_upd_then intro: keeps_create_then [OF keeps_refl])

lemma keeps_header_each:
  "keeps_containers (fst st) (fst (updateZeebeTaskHeaderProperties_each e old bo th st p))"
  by (auto simp: updateZeebeTaskHeaderProperties_each_def Let_def createTaskHeader_def
        split: option.splits prod.splits
        intro!: keeps_upd keeps_upd_then intro: keeps_create_then [OF keeps_refl])

lemma keeps_zp_each:
  "keeps_containers (fst st) (fst (updateZeebePropertyProperties_each e old bo zps st p))"
  by (auto simp: updateZeebePropertyProperties_each_def Let_def createZeebeProperty_def
        split: option.splits prod.splits
        intro!: keeps_upd keeps_upd_then intro: keeps_create_then [OF keeps_refl])

subsection \<open>The keyed-collection reconcilers in stages\<close>

lemma io_unfold:
  assumes g: "getOrCreateExtensionElements d0 e (getBusinessObject e) = (d, bo)"
  shows "updateZeebeInputOutputParameterProperties d0 e old nt =
           (case findExtension d bo ''zeebe:IoMapping'' of
              None \<Rightarrow> if io_properties nt = [] then d
                       else io_loop e old bo (fresh d) (holder_created d e bo ''zeebe:IoMapping'')
                              (io_properties nt)
            | Some io \<Rightarrow> if io_properties nt = []
                          then io_loop e old bo io (holder_removed d e bo io) []
                          else io_loop e old bo io d (io_properties nt))"
  unfolding updateZeebeInputOutputParameterProperties_def g
  by (simp add: io_loop_def io_cleanup_def holder_removed_def holder_created_def
        io_properties_def Let_def bpmnFactory_create_def split: option.splits)

lemma header_unfold:
  assumes g: "getOrCreateExtensionElements d0 e (getBusinessObject e) = (d, bo)"
  shows "updateZeebeTaskHeaderProperties d0 e old nt =
           (case findExtension d bo ''zeebe:TaskHeaders'' of
              None \<Rightarrow> if header_properties nt = [] then d
                       else header_loop e old bo (fresh d)
                              (holder_created d e bo ''zeebe:TaskHeaders'') (header_properties nt)
            | Some th \<Rightarrow> if header_properties nt = []
                          then header_loop e old bo th (holder_removed d e bo th) []
                          else header_loop e old bo th d (header_properties nt))"
  unfolding updateZeebeTaskHeaderProperties_def g
  by (simp add: header_loop_def list_cleanup_def holder_removed_def holder_created_def
        header_properties_def Let_def bpmnFactory_create_def split: option.splits)

lemma zp_unfold:
  assumes g: "getOrCreateExtensionElements d0 e (getBusinessObject e) = (d, bo)"
  shows "updateZeebePropertyProperties d0 e old nt =
           (case findExtension d bo ''zeebe:Properties'' of
              None \<Rightarrow> if zp_properties nt = [] then d
                       else zp_loop e old bo (fresh d)
                              (holder_created d e bo ''zeebe:Properties'') (zp_properties nt)
            | Some zps \<Rightarrow> if zp_properties nt = []
                          then zp_loop e old bo zps (holder_removed d e bo zps) []
                          else zp_loop e old bo zps d (zp_properties nt))"
  unfolding updateZeebePropertyProperties_def g
  by (simp add: zp_loop_def list_cleanup_def holder_removed_def holder_created_def
        zp_properties_def Let_def bpmnFactory_create_def split: option.splits)

lemma keeps_holder_removed: "keeps_containers d (holder_removed d e bo h)"
  by (simp add: holder_removed_def keeps_upd)

lemma keeps_holder_created: "keeps_containers d (holder_created d e bo t)"
  unfolding holder_created_def
  by (rule keeps_trans [OF keeps_create [of d t "[]"]]) (rule keeps_upd, simp)

lemma keeps_io_cleanup: "keeps_containers (fst st) (io_cleanup e io st)"
  unfolding io_cleanup_def Let_def
  by (auto intro!: keeps_upd_then keeps_upd)

lemma keeps_list_cleanup: "keeps_containers (fst st) (list_cleanup e h f st)"
  by (simp add: list_cleanup_def keeps_upd)

lemma keeps_io_loop: "keeps_containers d (io_loop e old bo io d nps)"
  unfolding io_loop_def
  by (rule keeps_trans [OF _ keeps_io_cleanup])
     (use keeps_foldl_fst [where f = "updateZeebeInputOutputParameterProperties_each e old bo io",
            OF keeps_io_each] in force)

lemma keeps_header_loop: "keeps_containers d (header_loop e old bo th d nps)"
  unfolding header_loop_def
  by (rule keeps_trans [OF _ keeps_list_cleanup])
     (use keeps_foldl_fst [where f = "updateZeebeTaskHeaderProperties_each e old bo th",
            OF keeps_header_each] in force)

lemma keeps_zp_loop: "keeps_containers d (zp_loop e old bo zps d nps)"
  unfolding zp_loop_def
  by (rule keeps_trans [OF _ keeps_list_cleanup])
     (use keeps_foldl_fst [where f = "updateZeebePropertyProperties_each e old bo zps",
            OF keeps_zp_each] in force)

lemma keeps_io:
  "keeps_containers d0 (updateZeebeInputOutputParameterProperties d0 e old nt)"
proof -
  obtain d bo where g: "getOrCreateExtensionElements d0 e (getBusinessObject e) = (d, bo)"
    by (cases "getOrCreateExtensionElements d0 e (getBusinessObject e)")
  have k0: "keeps_containers d0 d"
    using keeps_getOrCreate [of d0 e "getBusinessObject e"] g by simp
  show ?thesis
    unfolding io_unfold [OF g]
    by (auto split: option.splits
          intro: keeps_trans [OF k0] keeps_trans [OF keeps_holder_created keeps_io_loop]
                 keeps_trans [OF keeps_holder_removed keeps_io_loop] keeps_io_loop k0)
qed

lemma keeps_headers:
  "keeps_containers d0 (updateZeebeTaskHeaderProperties d0 e old nt)"
proof -
  obtain d bo where g: "getOrCreateExtensionElements d0 e (getBusinessObject e) = (d, bo)"
    by (cases "getOrCreateExtensionElements d0 e (getBusinessObject e)")
  have k0: "keeps_containers d0 d"
    using keeps_getOrCreate [of d0 e "getBusinessObject e"] g by simp
  show ?thesis
    unfolding header_unfold [OF g]
    by (auto split: option.splits
          intro: keeps_trans [OF k0] keeps_trans [OF keeps_holder_created keeps_header_loop]
                 keeps_trans [OF keeps_holder_removed keeps_header_loop] keeps_header_loop k0)
qed

lemma keeps_zps:
  "keeps_containers d0 (updateZeebePropertyProperties d0 e old nt)"
proof -
  obtain d bo where g: "getOrCreateExtensionElements d0 e (getBusinessObject e) = (d, bo)"
    by (cases "getOrCreateExtensionElements d0 e (getBusinessObject e)")
  have k0: "keeps_containers d0 d"
    using keeps_getOrCreate [of d0 e "getBusinessObject e"] g by simp
  show ?thesis
    unfolding zp_unfold [OF g]
    by (auto split: option.splits
          intro: keeps_trans [OF k0] keeps_trans [OF keeps_holder_created keeps_zp_loop]
                 keeps_trans [OF keeps_holder_removed keeps_zp_loop] keeps_zp_loop k0)
qed

lemma keeps_ce_each:
  "keeps_containers (fst st) (fst (updateCalledElement_each e old bo st p))"
  by (auto simp: updateCalledElement_each_def Let_def createCalledElement_def
        split: option.splits prod.splits
        intro!: keeps_upd keeps_upd_then intro: keeps_create_then [OF keeps_refl])

lemma keeps_updateCalledElement:
  "keeps_containers d0 (updateCalledElement d0 e old nt)"
proof -
  obtain d bo where g: "getOrCreateExtensionElements d0 e (getBusinessObject e) = (d, bo)"
    by (cases "getOrCreateExtensionElements d0 e (getBusinessObject e)")
  have k0: "keeps_containers d0 d"
    using keeps_getOrCreate [of d0 e "getBusinessObject e"] g by simp
  let ?nps = "filter (\<lambda>np. btype (pbinding np) = ZEEBE_CALLED_ELEMENT) (tproperties nt)"
  let ?st = "foldl (updateCalledElement_each e old bo)
               (d, findExtension d bo ''zeebe:CalledElement'') ?nps"
  have "keeps_containers d (fst ?st)"
    using keeps_foldl_fst [of "updateCalledElement_each e old bo"
            "(d, findExtension d bo ''zeebe:CalledElement'')" ?nps, OF keeps_ce_each]
    by simp
  then have k: "keeps_containers d0 (fst ?st)" using k0 keeps_trans by blast
  show ?thesis
    unfolding updateCalledElement_def Let_def g
    using k k0
    by (auto simp: keeps_upd_then split: prod.splits option.splits
          intro: keeps_trans [OF _ keeps_foldl_drop])
qed

lemma keeps_createMessage:
  "createMessage d e t = Some (d1, m) \<Longrightarrow> keeps_containers d d1"
  by (auto simp: createMessage_def Let_def split: prod.splits option.splits if_splits list.splits
        intro!: keeps_upd_then intro: keeps_create_then [OF keeps_refl])

lemma keeps_getOrCreateMessage:
  "getOrCreateMessage d e t = Some (d1, m) \<Longrightarrow> keeps_containers d d1"
  by (auto simp: getOrCreateMessage_def split: option.splits dest: keeps_createMessage)

lemma keeps_msg_each:
  "keeps_containers d (updateMessageProperties_each e old m d p)"
  by (simp add: updateMessageProperties_each_def Let_def keeps_upd)

lemma keeps_updateMessageProperties:
  "updateMessageProperties d e old nt = Some d1 \<Longrightarrow> keeps_containers d d1"
  unfolding updateMessageProperties_def Let_def
  by (auto split: option.splits if_splits prod.splits
        dest!: keeps_getOrCreateMessage
        intro!: keeps_trans [OF _ keeps_foldl] keeps_msg_each keeps_foldl_drop
        intro: keeps_trans [OF keeps_foldl_drop])

lemma keeps_getSubscription:
  "keeps_containers d (fst (getSubscription d e bo))"
  using keeps_getOrCreate [of d e bo]
  by (auto simp: getSubscription_def split: prod.splits)

lemma keeps_updateSubscription:
  "updateMessageZeebeSubscriptionProperties d e old nt = Some d1 \<Longrightarrow> keeps_containers d d1"
proof -
  assume a: "updateMessageZeebeSubscriptionProperties d e old nt = Some d1"
  have goc: "\<And>da bo db r. getOrCreateExtensionElements da e bo = (db, r) \<Longrightarrow> keeps_containers da db"
    using keeps_getOrCreate by (metis fst_conv)
  have gs: "\<And>da bo db r. getSubscription da e bo = (db, r) \<Longrightarrow> keeps_containers da db"
    using keeps_getSubscription by (metis fst_conv)
  show ?thesis
    using a unfolding updateMessageZeebeSubscriptionProperties_def Let_def
    by (auto split: option.splits if_splits prod.splits
          dest!: keeps_getOrCreateMessage goc gs
          intro!: keeps_upd_then keeps_payload_foldl_set keeps_payload_foldl_remove
          intro: keeps_trans keeps_create_then)
qed

lemma keeps_stamp_referenced:
  "keeps_containers d (updateZeebeModelerTemplateOnReferencedElement d e old nt)"
  by (simp add: updateZeebeModelerTemplateOnReferencedElement_def Let_def keeps_upd
        split: option.splits)

lemma keeps_updateMessage:
  assumes rm: "\<forall>d e. keeps_containers d (removeMessage c d e)"
      and u: "updateMessage c d e old nt = Some d1"
  shows "keeps_containers d d1"
proof -
  obtain da where a: "updateMessageProperties d e old nt = Some da"
    using u by (auto simp: updateMessage_def split: option.splits)
  obtain db where b: "updateMessageZeebeSubscriptionProperties da e old nt = Some db"
    using u a by (auto simp: updateMessage_def split: option.splits)
  let ?dc = "updateZeebeModelerTemplateOnReferencedElement db e old nt"
  have k: "keeps_containers d ?dc"
    using keeps_updateMessageProperties [OF a] keeps_updateSubscription [OF b]
          keeps_stamp_referenced [of db e old nt] keeps_trans by blast
  have "d1 = (if \<not> hasMessageProperties nt then removeMessage c ?dc e else ?dc)"
    using u a b by (simp add: updateMessage_def Let_def split: if_splits)
  then show ?thesis using k rm keeps_trans by (auto split: if_splits)
qed

lemma stamps_fresh [simp]:
  "fresh (updateZeebeModelerTemplate d e nt) = fresh d"
  "fresh (updateZeebeModelerTemplateIcon d e nt) = fresh d"
  by (simp_all add: updateZeebeModelerTemplate_def updateZeebeModelerTemplateIcon_def
        element_updateProperties_def Let_def)

lemma updateElementType_cases:
  "updateElementType c d e old nt = (d, e) \<or>
   (\<exists>t ed. updateElementType c d e old nt = replaceElement c d e t ed)"
  by (auto simp: updateElementType_def Let_def split: option.splits)

subsection \<open>The handler on the example task\<close>

lemma doc_proj_simps [simp]:
  "heap (element_updateProperties d e props) =
     (heap d)(getBusinessObject e := foldl set_prop (heap d (getBusinessObject e)) props)"
  "fresh (element_updateProperties d e props) = fresh d"
  "heap (element_updateModdleProperties d e m props) =
     (heap d)(m := foldl set_prop (heap d m) props)"
  by (simp_all add: element_updateProperties_def element_updateModdleProperties_def)

text \<open>
  The template without properties on the task without container: the stamps are set, the
  task-definition reconciler creates the container (node 1), and no later step changes
  the store.
\<close>

lemma ex_task_empty_template:
  "\<exists>d. preExecute ex_collab ex_task 0 None (Some (ex_template [])) = Some (d, 0) \<and>
       fresh d = 2 \<and>
       heap d = (\<lambda>_. empty_node [])
         (0 := (empty_node ''bpmn:ServiceTask'')
                 \<lparr>nscal := (\<lambda>_. JUndefined)
                    (''zeebe:modelerTemplate'' := JStr ''T'',
                     ''zeebe:modelerTemplateVersion'' := JNum 1,
                     ''zeebe:modelerTemplateIcon'' := JUndefined),
                  nref := (\<lambda>_. None)(''extensionElements'' := Some 1)\<rparr>,
          1 := (empty_node ''bpmn:ExtensionElements'')\<lparr>nlist := (\<lambda>_. [])(''values'' := [])\<rparr>)"
proof -
  let ?T = "ex_template []"
  let ?n0 = "(empty_node ''bpmn:ServiceTask'')\<lparr>nscal := (\<lambda>_. JUndefined)
               (''zeebe:modelerTemplate'' := JStr ''T'',
                ''zeebe:modelerTemplateVersion'' := JNum 1,
                ''zeebe:modelerTemplateIcon'' := JUndefined)\<rparr>"
  let ?h2 = "(\<lambda>_. empty_node [])(0 := ?n0)"
  let ?h5 = "(\<lambda>_. empty_node [])
               (0 := ?n0\<lparr>nref := (\<lambda>_. None)(''extensionElements'' := Some 1)\<rparr>,
                1 := (empty_node ''bpmn:ExtensionElements'')\<lparr>nlist := (\<lambda>_. [])(''values'' := [])\<rparr>)"
  define d2 where "d2 = updateZeebeModelerTemplateIcon
                          (updateZeebeModelerTemplate ex_task 0 (Some ?T)) 0 (Some ?T)"
  have h2: "heap d2 = ?h2" "fresh d2 = 1"
    by (simp_all add: d2_def updateZeebeModelerTemplate_def updateZeebeModelerTemplateIcon_def
          ex_defs getBusinessObject_def)
  have t: "updateElementType ex_collab d2 0 None ?T = (d2, 0)"
    by (simp add: updateElementType_def ex_template_def)
  define d4 where "d4 = updateProperties d2 0 None ?T"
  have h4: "d4 = d2"
    by (simp add: d4_def updateProperties_def ex_template_def Let_def)
  define d5 where "d5 = updateZeebeTaskDefinition d4 0 None ?T"
  have h5: "heap d5 = ?h5" "fresh d5 = 2"
    by (simp_all add: d5_def h4 updateZeebeTaskDefinition_def ex_template_def Let_def
          getOrCreateExtensionElements_def getBusinessObject_def h2 bpmnFactory_create_def
          findExtension_def is_a_def empty_node_def fun_upd_twist)
  define d6 where "d6 = updateZeebeInputOutputParameterProperties d5 0 None ?T"
  have h6: "heap d6 = ?h5" "fresh d6 = 2"
    by (simp_all add: d6_def updateZeebeInputOutputParameterProperties_def ex_template_def
          Let_def getOrCreateExtensionElements_def getBusinessObject_def h5
          findExtension_def is_a_def empty_node_def)
  define d7 where "d7 = updateZeebeTaskHeaderProperties d6 0 None ?T"
  have h7: "heap d7 = ?h5" "fresh d7 = 2"
    by (simp_all add: d7_def updateZeebeTaskHeaderProperties_def ex_template_def
          Let_def getOrCreateExtensionElements_def getBusinessObject_def h6
          findExtension_def is_a_def empty_node_def)
  define d8 where "d8 = updateZeebePropertyProperties d7 0 None ?T"
  have h8: "heap d8 = ?h5" "fresh d8 = 2"
    by (simp_all add: d8_def updateZeebePropertyProperties_def ex_template_def
          Let_def getOrCreateExtensionElements_def getBusinessObject_def h7
          findExtension_def is_a_def empty_node_def)
  have m: "updateMessage ex_collab d8 0 None ?T = Some d8"
    by (simp add: updateMessage_def updateMessageProperties_def
          updateMessageZeebeSubscriptionProperties_def
          updateZeebeModelerTemplateOnReferencedElement_def hasMessageProperties_def
          findMessage_def getMessage_def ex_template_def ex_collab_def Let_def
          getBusinessObject_def h8 is_a_def empty_node_def)
  define d10 where "d10 = updateCalledElement d8 0 None ?T"
  have h10: "heap d10 = ?h5" "fresh d10 = 2"
    by (simp_all add: d10_def updateCalledElement_def ex_template_def
          Let_def getOrCreateExtensionElements_def getBusinessObject_def h8
          findExtension_def is_a_def empty_node_def)
  have "preExecute ex_collab ex_task 0 None (Some ?T) = Some (d10, 0)"
    unfolding preExecute_def Let_def
    by (simp add: d2_def [symmetric] t d4_def [symmetric] d5_def [symmetric]
          d6_def [symmetric] d7_def [symmetric] d8_def [symmetric] m d10_def [symmetric])
  then show ?thesis using h10 by blast
qed

section \<open>The handler on a settled document\<close>

lemma same_store_refl [simp]: "same_store d d"
  by (simp add: same_store_def)

lemma same_store_trans: "same_store d1 d2 \<Longrightarrow> same_store d2 d3 \<Longrightarrow> same_store d1 d3"
  by (simp add: same_store_def)

lemma same_store_sym: "same_store d1 d2 \<Longrightarrow> same_store d2 d1"
  by (simp add: same_store_def)

text \<open>A document differs from one with the same store in its command log only.\<close>

lemma same_store_cmds: "same_store d d' \<Longrightarrow> d' = d\<lparr>cmds := cmds d'\<rparr>"
  by (cases d, cases d') (simp add: same_store_def)

lemma same_store_cmds_upd [simp]: "same_store d (d\<lparr>cmds := cs\<rparr>)"
  by (simp add: same_store_def)

lemma is_a_cmds [simp]: "is_a (d\<lparr>cmds := cs\<rparr>) = is_a d"
  by (simp add: fun_eq_iff is_a_def)

lemma findExtension_cmds [simp]: "findExtension (d\<lparr>cmds := cs\<rparr>) = findExtension d"
  by (simp add: fun_eq_iff findExtension_def cong: option.case_cong)

lemma findMessage_cmds [simp]: "findMessage (d\<lparr>cmds := cs\<rparr>) = findMessage d"
  by (simp add: fun_eq_iff findMessage_def cong: list.case_cong)

lemma getMessage_cmds [simp]: "getMessage (d\<lparr>cmds := cs\<rparr>) = getMessage d"
  by (simp add: fun_eq_iff getMessage_def cong: list.case_cong option.case_cong if_cong)

lemma getTemplateId_cmds [simp]: "getTemplateId (d\<lparr>cmds := cs\<rparr>) = getTemplateId d"
  by (simp add: fun_eq_iff getTemplateId_def)

lemma getPropertyValue_cmds [simp]:
  "getPropertyValue (d\<lparr>cmds := cs\<rparr>) = getPropertyValue d"
  by (simp add: fun_eq_iff getPropertyValue_def cong: option.case_cong if_cong)

lemma propertyChanged_cmds [simp]:
  "propertyChanged (d\<lparr>cmds := cs\<rparr>) = propertyChanged d"
  by (simp add: fun_eq_iff propertyChanged_def)

lemma shouldKeepValue_cmds [simp]:
  "shouldKeepValue (d\<lparr>cmds := cs\<rparr>) = shouldKeepValue d"
  by (simp add: fun_eq_iff shouldKeepValue_def cong: option.case_cong if_cong)

lemma findBusinessObject_cmds [simp]:
  "findBusinessObject (d\<lparr>cmds := cs\<rparr>) = findBusinessObject d"
  by (simp add: fun_eq_iff findBusinessObject_def cong: option.case_cong if_cong)

lemma upd_same_store:
  "foldl set_prop (heap d m) props = heap d m \<Longrightarrow>
   same_store d (element_updateModdleProperties d e m props)"
  by (simp add: same_store_def element_updateModdleProperties_def)

lemma upd_scalar_same_store:
  "nscal (heap d m) k = v \<Longrightarrow>
   same_store d (element_updateModdleProperties d e m [(k, PScalar v)])"
  by (rule upd_same_store) (auto simp: fun_upd_idem_iff)

lemma upd_list_same_store:
  "nlist (heap d m) k = rs \<Longrightarrow>
   same_store d (element_updateModdleProperties d e m [(k, PList rs)])"
  by (rule upd_same_store) (auto simp: fun_upd_idem_iff)

lemma updp_same_store:
  "foldl set_prop (heap d (getBusinessObject e)) props = heap d (getBusinessObject e) \<Longrightarrow>
   same_store d (element_updateProperties d e props)"
  by (simp add: same_store_def element_updateProperties_def)

lemma same_store_readers:
  assumes "same_store d d'"
  shows "is_a d' = is_a d" "findExtension d' = findExtension d" "findMessage d' = findMessage d"
    "getMessage d' = getMessage d" "getTemplateId d' = getTemplateId d"
    "getPropertyValue d' = getPropertyValue d" "shouldKeepValue d' = shouldKeepValue d"
    "findBusinessObject d' = findBusinessObject d" "heap d' = heap d" "fresh d' = fresh d"
proof -
  have eq: "d' = d\<lparr>cmds := cmds d'\<rparr>" using same_store_cmds [OF assms] .
  show "is_a d' = is_a d" by (subst eq) simp
  show "findExtension d' = findExtension d" by (subst eq) simp
  show "findMessage d' = findMessage d" by (subst eq) simp
  show "getMessage d' = getMessage d" by (subst eq) simp
  show "getTemplateId d' = getTemplateId d" by (subst eq) simp
  show "getPropertyValue d' = getPropertyValue d" by (subst eq) simp
  show "shouldKeepValue d' = shouldKeepValue d" by (subst eq) simp
  show "findBusinessObject d' = findBusinessObject d" by (subst eq) simp
  show "heap d' = heap d" "fresh d' = fresh d" using assms by (simp_all add: same_store_def)
qed

subsection \<open>Stamps and element type\<close>

lemma stamps_settled:
  assumes "settled_stamps t d e"
  shows "same_store d (updateZeebeModelerTemplateIcon (updateZeebeModelerTemplate d e (Some t))
                         e (Some t))"
proof -
  have 1: "same_store d (updateZeebeModelerTemplate d e (Some t))"
    unfolding updateZeebeModelerTemplate_def
    using assms
    by (intro updp_same_store) (simp add: settled_stamps_def getBusinessObject_def
          fun_upd_idem)
  have 2: "same_store (updateZeebeModelerTemplate d e (Some t))
             (updateZeebeModelerTemplateIcon (updateZeebeModelerTemplate d e (Some t)) e (Some t))"
    unfolding updateZeebeModelerTemplateIcon_def Let_def
    using assms same_store_readers(9) [OF 1]
    by (intro updp_same_store) (simp add: settled_stamps_def getBusinessObject_def
          fun_upd_idem)
  show ?thesis using same_store_trans [OF 1 2] .
qed

lemma updateElementType_same_template [simp]:
  "updateElementType c d e (Some t) t = (d, e)"
  by (simp add: updateElementType_def split: option.splits)

subsection \<open>Plain properties\<close>

lemma updateProperties_each_settled:
  assumes s: "same_store d d'" and ok: "slot_settled d e t p (key_of (bname (pbinding p)))"
  shows "same_store d (updateProperties_each e (Some t) d' p)"
proof -
  have heap: "heap d' = heap d" and keep: "shouldKeepValue d' = shouldKeepValue d"
    using same_store_readers [OF s] by simp_all
  show ?thesis
  proof (cases "shouldKeepValue d (Some e) (findOldProperty (Some t) p) p")
    case True
    then show ?thesis using s by (simp add: updateProperties_each_def getBusinessObject_def keep)
  next
    case False
    then have "nscal (heap d' e) (key_of (bname (pbinding p))) = getDefaultValue p"
      using ok by (simp add: slot_settled_def heap)
    then have "same_store d' (updateProperties_each e (Some t) d' p)"
      using False
      by (simp add: updateProperties_each_def getBusinessObject_def keep upd_scalar_same_store)
    then show ?thesis using s same_store_trans by blast
  qed
qed

lemma foldl_same_store:
  assumes "\<And>d' x. same_store d d' \<Longrightarrow> x \<in> set xs \<Longrightarrow> same_store d (f d' x)"
      and "same_store d d0"
  shows "same_store d (foldl f d0 xs)"
  using assms
proof (induction xs arbitrary: d0)
  case Nil
  then show ?case by simp
next
  case (Cons x xs)
  have "same_store d (f d0 x)" using Cons.prems by simp
  then show ?case using Cons.IH [of "f d0 x"] Cons.prems(1) by simp
qed

lemma no_removed_properties:
  "filter (\<lambda>op. P op \<and> find (\<lambda>np. key np = key op) (filter P xs) = None) xs = []"
  by (auto simp: filter_empty_conv find_None_iff)

lemma updateProperties_settled:
  assumes "settled_plain t d e" and s: "same_store d d'"
  shows "same_store d (updateProperties d' e (Some t) t)"
proof -
  have rm: "filter (\<lambda>op. btype (pbinding op) = ''property'' \<and>
                     find (\<lambda>np. bname (pbinding np) = bname (pbinding op))
                       (filter (\<lambda>np. btype (pbinding np) = ''property'') (tproperties t)) = None)
              (tproperties t) = []"
    by (rule no_removed_properties)
  have "same_store d (foldl (updateProperties_each e (Some t)) d' (plain_properties t))"
    using assms
    by (intro foldl_same_store updateProperties_each_settled) (auto simp: settled_plain_def)
  then show ?thesis
    using s by (simp add: updateProperties_def Let_def rm plain_properties_def)
qed

lemma getOrCreate_present:
  "nref (heap d bo) ''extensionElements'' = Some ee \<Longrightarrow>
   getOrCreateExtensionElements d e bo = (d, ee)"
  by (simp add: getOrCreateExtensionElements_def)

subsection \<open>Task definition and called element\<close>

lemma td_unfold:
  assumes g: "getOrCreateExtensionElements d0 e (getBusinessObject e) = (d, bo)"
  shows "updateZeebeTaskDefinition d0 e old nt =
           (if td_properties nt = [] then
              element_updateModdleProperties d e bo
                [(''values'', PList (without (nlist (heap d bo) ''values'')
                                       (findExtension d bo ''zeebe:TaskDefinition'')))]
            else singleton_finish e
                   (foldl (updateZeebeTaskDefinition_each e old bo)
                      (d, findExtension d bo ''zeebe:TaskDefinition'') (td_properties nt))
                   (td_dropped old nt))"
  unfolding updateZeebeTaskDefinition_def g
  by (auto simp: singleton_finish_def td_dropped_def td_properties_def Let_def
        split: prod.splits option.splits)

lemma ce_unfold:
  assumes g: "getOrCreateExtensionElements d0 e (getBusinessObject e) = (d, bo)"
  shows "updateCalledElement d0 e old nt =
           (if ce_properties nt = [] then
              element_updateModdleProperties d e bo
                [(''values'', PList (without (nlist (heap d bo) ''values'')
                                       (findExtension d bo ''zeebe:CalledElement'')))]
            else singleton_finish e
                   (foldl (updateCalledElement_each e old bo)
                      (d, findExtension d bo ''zeebe:CalledElement'') (ce_properties nt))
                   (ce_dropped old nt))"
  unfolding updateCalledElement_def g
  by (auto simp: singleton_finish_def ce_dropped_def ce_properties_def Let_def
        split: prod.splits option.splits)

lemma td_dropped_same [simp]: "td_dropped (Some t) t = []"
  unfolding td_dropped_def td_properties_def by (simp add: no_removed_properties)

lemma ce_dropped_same [simp]: "ce_dropped (Some t) t = []"
  unfolding ce_dropped_def ce_properties_def by (simp add: no_removed_properties)

lemma dropped_None [simp]: "td_dropped None t = []" "ce_dropped None t = []"
  by (simp_all add: td_dropped_def ce_dropped_def)

lemma singleton_finish_Nil [simp]: "singleton_finish e st [] = fst st"
  by (simp add: singleton_finish_def split: option.splits)

lemma td_each_settled:
  assumes s: "same_store d d'"
      and ok: "slot_settled d td t p (key_of (getTaskDefinitionPropertyName (pbinding p)))"
  shows "same_store d (fst (updateZeebeTaskDefinition_each e (Some t) bo (d', Some td) p)) \<and>
         snd (updateZeebeTaskDefinition_each e (Some t) bo (d', Some td) p) = Some td"
proof -
  have heap: "heap d' = heap d" and keep: "shouldKeepValue d' = shouldKeepValue d"
    using same_store_readers [OF s] by simp_all
  show ?thesis
  proof (cases "shouldKeepValue d (Some td) (findOldProperty (Some t) p) p")
    case True
    then show ?thesis using s by (simp add: updateZeebeTaskDefinition_each_def Let_def keep)
  next
    case False
    then have "nscal (heap d' td) (key_of (getTaskDefinitionPropertyName (pbinding p)))
                 = getDefaultValue p"
      using ok by (simp add: slot_settled_def heap)
    then have "same_store d' (element_updateModdleProperties d' e td
                 [(key_of (getTaskDefinitionPropertyName (pbinding p)),
                   PScalar (getDefaultValue p))])"
      by (rule upd_scalar_same_store)
    then have "same_store d (element_updateModdleProperties d' e td
                 [(key_of (getTaskDefinitionPropertyName (pbinding p)),
                   PScalar (getDefaultValue p))])"
      using s same_store_trans by blast
    then show ?thesis
      using False by (simp add: updateZeebeTaskDefinition_each_def Let_def keep)
  qed
qed

lemma td_foldl_settled:
  assumes "\<forall>p\<in>set ps. slot_settled d td t p (key_of (getTaskDefinitionPropertyName (pbinding p)))"
      and "same_store d d'"
  shows "same_store d (fst (foldl (updateZeebeTaskDefinition_each e (Some t) bo) (d', Some td) ps)) \<and>
         snd (foldl (updateZeebeTaskDefinition_each e (Some t) bo) (d', Some td) ps) = Some td"
  using assms
proof (induction ps arbitrary: d')
  case Nil
  then show ?case by simp
next
  case (Cons p ps)
  obtain d2 where st: "updateZeebeTaskDefinition_each e (Some t) bo (d', Some td) p = (d2, Some td)"
    and s2: "same_store d d2"
    using td_each_settled [of d d' td t p e bo] Cons.prems
    by (cases "updateZeebeTaskDefinition_each e (Some t) bo (d', Some td) p") auto
  show ?case using Cons.IH [of d2] Cons.prems(1) s2 by (simp add: st)
qed

lemma updateZeebeTaskDefinition_settled:
  assumes ee: "nref (heap d e) ''extensionElements'' = Some ee"
      and st: "settled_td t d ee" and s: "same_store d d'"
  shows "same_store d (updateZeebeTaskDefinition d' e (Some t) t)"
proof -
  have g: "getOrCreateExtensionElements d' e (getBusinessObject e) = (d', ee)"
    using ee same_store_readers(9) [OF s]
    by (simp add: getOrCreate_present getBusinessObject_def)
  have fe: "findExtension d' = findExtension d" using same_store_readers [OF s] by simp
  show ?thesis
  proof (cases "findExtension d ee ''zeebe:TaskDefinition''")
    case None
    then have nil: "td_properties t = []" using st by (simp add: settled_td_def)
    have "same_store d' (element_updateModdleProperties d' e ee
            [(''values'', PList (nlist (heap d' ee) ''values''))])"
      by (rule upd_list_same_store) simp
    then have "same_store d (element_updateModdleProperties d' e ee
            [(''values'', PList (nlist (heap d' ee) ''values''))])"
      using s same_store_trans by blast
    then show ?thesis
      unfolding td_unfold [OF g] using nil None by (simp add: fe)
  next
    case (Some td)
    then have ne: "td_properties t \<noteq> []"
      and ok: "\<forall>p\<in>set (td_properties t).
                 slot_settled d td t p (key_of (getTaskDefinitionPropertyName (pbinding p)))"
      using st by (simp_all add: settled_td_def)
    show ?thesis
      unfolding td_unfold [OF g] using ne td_foldl_settled [OF ok s, of e ee]
      by (simp add: fe Some)
  qed
qed

lemma ce_each_settled:
  assumes s: "same_store d d'"
      and ok: "slot_settled d ce t p (key_of (bproperty (pbinding p)))"
  shows "same_store d (fst (updateCalledElement_each e (Some t) bo (d', Some ce) p)) \<and>
         snd (updateCalledElement_each e (Some t) bo (d', Some ce) p) = Some ce"
proof -
  have heap: "heap d' = heap d" and keep: "shouldKeepValue d' = shouldKeepValue d"
    using same_store_readers [OF s] by simp_all
  show ?thesis
  proof (cases "shouldKeepValue d (Some ce) (findOldProperty (Some t) p) p")
    case True
    then show ?thesis using s by (simp add: updateCalledElement_each_def Let_def keep)
  next
    case False
    then have "nscal (heap d' ce) (key_of (bproperty (pbinding p))) = getDefaultValue p"
      using ok by (simp add: slot_settled_def heap)
    then have "same_store d' (element_updateModdleProperties d' e ce
                 [(key_of (bproperty (pbinding p)), PScalar (getDefaultValue p))])"
      by (rule upd_scalar_same_store)
    then have "same_store d (element_updateModdleProperties d' e ce
                 [(key_of (bproperty (pbinding p)), PScalar (getDefaultValue p))])"
      using s same_store_trans by blast
    then show ?thesis
      using False by (simp add: updateCalledElement_each_def Let_def keep)
  qed
qed

lemma ce_foldl_settled:
  assumes "\<forall>p\<in>set ps. slot_settled d ce t p (key_of (bproperty (pbinding p)))"
      and "same_store d d'"
  shows "same_store d (fst (foldl (updateCalledElement_each e (Some t) bo) (d', Some ce) ps)) \<and>
         snd (foldl (updateCalledElement_each e (Some t) bo) (d', Some ce) ps) = Some ce"
  using assms
proof (induction ps arbitrary: d')
  case Nil
  then show ?case by simp
next
  case (Cons p ps)
  obtain d2 where st: "updateCalledElement_each e (Some t) bo (d', Some ce) p = (d2, Some ce)"
    and s2: "same_store d d2"
    using ce_each_settled [of d d' ce t p e bo] Cons.prems
    by (cases "updateCalledElement_each e (Some t) bo (d', Some ce) p") auto
  show ?case using Cons.IH [of d2] Cons.prems(1) s2 by (simp add: st)
qed

lemma updateCalledElement_settled:
  assumes ee: "nref (heap d e) ''extensionElements'' = Some ee"
      and st: "settled_ce t d ee" and s: "same_store d d'"
  shows "same_store d (updateCalledElement d' e (Some t) t)"
proof -
  have g: "getOrCreateExtensionElements d' e (getBusinessObject e) = (d', ee)"
    using ee same_store_readers(9) [OF s]
    by (simp add: getOrCreate_present getBusinessObject_def)
  have fe: "findExtension d' = findExtension d" using same_store_readers [OF s] by simp
  show ?thesis
  proof (cases "findExtension d ee ''zeebe:CalledElement''")
    case None
    then have nil: "ce_properties t = []" using st by (simp add: settled_ce_def)
    have "same_store d' (element_updateModdleProperties d' e ee
            [(''values'', PList (nlist (heap d' ee) ''values''))])"
      by (rule upd_list_same_store) simp
    then have "same_store d (element_updateModdleProperties d' e ee
            [(''values'', PList (nlist (heap d' ee) ''values''))])"
      using s same_store_trans by blast
    then show ?thesis
      unfolding ce_unfold [OF g] using nil None by (simp add: fe)
  next
    case (Some ce)
    then have ne: "ce_properties t \<noteq> []"
      and ok: "\<forall>p\<in>set (ce_properties t). slot_settled d ce t p (key_of (bproperty (pbinding p)))"
      using st by (simp_all add: settled_ce_def)
    show ?thesis
      unfolding ce_unfold [OF g] using ne ce_foldl_settled [OF ok s, of e ee]
      by (simp add: fe Some)
  qed
qed

lemma remove_arr_eq:
  "remove_arr xs x = (if x \<in> set xs then remove1 x xs else butlast xs)"
proof (cases "xs = []")
  case True
  then show ?thesis by (simp add: remove_arr_def isUndefined_def splice1_def)
next
  case False
  then show ?thesis
    by (simp add: remove_arr_def isUndefined_def Let_def indexOf_absent splice1_minus_one
          splice1_indexOf)
qed

lemma remove_arr_distinct:
  "distinct xs \<Longrightarrow> distinct (remove_arr xs x) \<and> set (remove_arr xs x) \<subseteq> set xs - {x}"
  by (auto simp: remove_arr_eq distinct_butlast dest: in_set_butlastD)

lemma owned_empty: "A \<subseteq> B - {h. P h} \<Longrightarrow> \<forall>h\<in>B. P h \<Longrightarrow> A = {}"
  by blast

subsection \<open>Task headers\<close>

lemma header_each_settled:
  assumes s: "same_store d d'" and dis: "distinct olds"
      and ok: "case findBusinessObject d ee p of
                 None \<Rightarrow> \<not> truthy (getDefaultValue p)
               | Some h \<Rightarrow> slot_settled d h t p ''value''"
  shows "same_store d (fst (updateZeebeTaskHeaderProperties_each e (Some t) ee th (d', olds) p)) \<and>
         distinct (snd (updateZeebeTaskHeaderProperties_each e (Some t) ee th (d', olds) p)) \<and>
         set (snd (updateZeebeTaskHeaderProperties_each e (Some t) ee th (d', olds) p))
           \<subseteq> set olds - {h. findBusinessObject d ee p = Some h}"
proof -
  have rd: "heap d' = heap d" "shouldKeepValue d' = shouldKeepValue d"
    "findBusinessObject d' = findBusinessObject d"
    using same_store_readers [OF s] by simp_all
  show ?thesis
  proof (cases "findBusinessObject d ee p")
    case None
    then show ?thesis
      using ok s dis by (simp add: updateZeebeTaskHeaderProperties_each_def Let_def rd)
  next
    case (Some h)
    have st: "same_store d (if \<not> shouldKeepValue d (Some h) (findOldProperty (Some t) p) p
                then element_updateModdleProperties d' e h [(''value'', PScalar (getDefaultValue p))]
                else d')"
    proof (cases "shouldKeepValue d (Some h) (findOldProperty (Some t) p) p")
      case True
      then show ?thesis using s by simp
    next
      case False
      then have "nscal (heap d' h) ''value'' = getDefaultValue p"
        using ok Some by (simp add: slot_settled_def rd)
      then have "same_store d' (element_updateModdleProperties d' e h
                   [(''value'', PScalar (getDefaultValue p))])"
        by (rule upd_scalar_same_store)
      then show ?thesis using False s same_store_trans by auto
    qed
    show ?thesis
      using st remove_arr_distinct [OF dis, of h]
      by (simp add: updateZeebeTaskHeaderProperties_each_def Let_def rd Some)
  qed
qed

lemma header_foldl_settled:
  assumes "\<forall>p\<in>set ps. case findBusinessObject d ee p of
                         None \<Rightarrow> \<not> truthy (getDefaultValue p)
                       | Some h \<Rightarrow> slot_settled d h t p ''value''"
      and "same_store d d'" and "distinct olds"
  shows "same_store d (fst (foldl (updateZeebeTaskHeaderProperties_each e (Some t) ee th)
                              (d', olds) ps)) \<and>
         set (snd (foldl (updateZeebeTaskHeaderProperties_each e (Some t) ee th) (d', olds) ps))
           \<subseteq> set olds - {h. \<exists>p\<in>set ps. findBusinessObject d ee p = Some h}"
  using assms
proof (induction ps arbitrary: d' olds)
  case Nil
  then show ?case by simp
next
  case (Cons p ps)
  let ?st = "updateZeebeTaskHeaderProperties_each e (Some t) ee th (d', olds) p"
  have step: "same_store d (fst ?st)" "distinct (snd ?st)"
    "set (snd ?st) \<subseteq> set olds - {h. findBusinessObject d ee p = Some h}"
    using header_each_settled [where d = d and d' = d' and olds = olds and ee = ee and p = p
            and t = t and e = e and th = th] Cons.prems by simp_all
  have ih: "same_store d (fst (foldl (updateZeebeTaskHeaderProperties_each e (Some t) ee th)
                                 (fst ?st, snd ?st) ps)) \<and>
            set (snd (foldl (updateZeebeTaskHeaderProperties_each e (Some t) ee th)
                        (fst ?st, snd ?st) ps))
              \<subseteq> set (snd ?st) - {h. \<exists>p\<in>set ps. findBusinessObject d ee p = Some h}"
    using Cons.IH [of "fst ?st" "snd ?st"] Cons.prems(1) step by simp
  show ?case using ih step(3) by auto
qed

lemma updateZeebeTaskHeaderProperties_settled:
  assumes ee: "nref (heap d e) ''extensionElements'' = Some ee"
      and st: "settled_headers t d ee" and s: "same_store d d'"
  shows "same_store d (updateZeebeTaskHeaderProperties d' e (Some t) t)"
proof -
  have g: "getOrCreateExtensionElements d' e (getBusinessObject e) = (d', ee)"
    using ee same_store_readers(9) [OF s]
    by (simp add: getOrCreate_present getBusinessObject_def)
  have rd: "findExtension d' = findExtension d" "heap d' = heap d"
    using same_store_readers [OF s] by simp_all
  show ?thesis
  proof (cases "findExtension d ee ''zeebe:TaskHeaders''")
    case None
    then show ?thesis
      unfolding header_unfold [OF g] using st s by (simp add: rd settled_headers_def)
  next
    case (Some th)
    let ?olds = "nlist (heap d th) ''values''"
    let ?st = "foldl (updateZeebeTaskHeaderProperties_each e (Some t) ee th) (d', ?olds)
                 (header_properties t)"
    have ne: "header_properties t \<noteq> []" and dis: "distinct ?olds"
      and ok: "\<forall>p\<in>set (header_properties t). case findBusinessObject d ee p of
                 None \<Rightarrow> \<not> truthy (getDefaultValue p)
               | Some h \<Rightarrow> slot_settled d h t p ''value''"
      and own: "\<forall>h\<in>set ?olds. \<exists>p\<in>set (header_properties t). findBusinessObject d ee p = Some h"
      using st Some by (simp_all add: settled_headers_def)
    have f: "same_store d (fst ?st)"
      and r: "set (snd ?st) \<subseteq> set ?olds - {h. \<exists>p\<in>set (header_properties t).
                                                 findBusinessObject d ee p = Some h}"
      using header_foldl_settled [OF ok s dis, of e th] by simp_all
    have "set (snd ?st) = {}" by (rule owned_empty [OF r own])
    then have "snd ?st = []" by simp
    then show ?thesis
      unfolding header_unfold [OF g]
      using ne f by (simp add: rd Some header_loop_def list_cleanup_def)
  qed
qed

subsection \<open>Custom properties\<close>

lemma zp_each_settled:
  assumes s: "same_store d d'" and dis: "distinct olds"
      and ok: "case findBusinessObject d ee p of
                 None \<Rightarrow> \<not> shouldUpdate (getDefaultValue p) p
               | Some z \<Rightarrow> slot_settled d z t p ''value''"
  shows "same_store d (fst (updateZeebePropertyProperties_each e (Some t) ee zps (d', olds) p)) \<and>
         distinct (snd (updateZeebePropertyProperties_each e (Some t) ee zps (d', olds) p)) \<and>
         set (snd (updateZeebePropertyProperties_each e (Some t) ee zps (d', olds) p))
           \<subseteq> set olds - {z. findBusinessObject d ee p = Some z \<and> retained d z t p}"
proof -
  have rd: "heap d' = heap d" "shouldKeepValue d' = shouldKeepValue d"
    "findBusinessObject d' = findBusinessObject d"
    using same_store_readers [OF s] by simp_all
  show ?thesis
  proof (cases "findBusinessObject d ee p")
    case None
    then show ?thesis
      using ok s dis by (simp add: updateZeebePropertyProperties_each_def Let_def rd)
  next
    case (Some z)
    have st: "same_store d (if \<not> shouldKeepValue d (Some z) (findOldProperty (Some t) p) p
                then element_updateModdleProperties d' e z [(''value'', PScalar (getDefaultValue p))]
                else d')"
    proof (cases "shouldKeepValue d (Some z) (findOldProperty (Some t) p) p")
      case True
      then show ?thesis using s by simp
    next
      case False
      then have "nscal (heap d' z) ''value'' = getDefaultValue p"
        using ok Some by (simp add: slot_settled_def rd)
      then have "same_store d' (element_updateModdleProperties d' e z
                   [(''value'', PScalar (getDefaultValue p))])"
        by (rule upd_scalar_same_store)
      then have "same_store d (element_updateModdleProperties d' e z
                   [(''value'', PScalar (getDefaultValue p))])"
        using s same_store_trans by blast
      then show ?thesis using False by simp
    qed
    show ?thesis
      using st remove_arr_distinct [OF dis, of z] dis
      by (auto simp: updateZeebePropertyProperties_each_def Let_def rd Some retained_def)
  qed
qed

lemma zp_foldl_settled:
  assumes "\<forall>p\<in>set ps. case findBusinessObject d ee p of
                         None \<Rightarrow> \<not> shouldUpdate (getDefaultValue p) p
                       | Some z \<Rightarrow> slot_settled d z t p ''value''"
      and "same_store d d'" and "distinct olds"
  shows "same_store d (fst (foldl (updateZeebePropertyProperties_each e (Some t) ee zps)
                              (d', olds) ps)) \<and>
         set (snd (foldl (updateZeebePropertyProperties_each e (Some t) ee zps) (d', olds) ps))
           \<subseteq> set olds - {z. \<exists>p\<in>set ps. findBusinessObject d ee p = Some z \<and> retained d z t p}"
  using assms
proof (induction ps arbitrary: d' olds)
  case Nil
  then show ?case by simp
next
  case (Cons p ps)
  let ?st = "updateZeebePropertyProperties_each e (Some t) ee zps (d', olds) p"
  have step: "same_store d (fst ?st)" "distinct (snd ?st)"
    "set (snd ?st) \<subseteq> set olds - {z. findBusinessObject d ee p = Some z \<and> retained d z t p}"
    using zp_each_settled [where d = d and d' = d' and olds = olds and ee = ee and p = p
            and t = t and e = e and zps = zps] Cons.prems by simp_all
  have ih: "same_store d (fst (foldl (updateZeebePropertyProperties_each e (Some t) ee zps)
                                 (fst ?st, snd ?st) ps)) \<and>
            set (snd (foldl (updateZeebePropertyProperties_each e (Some t) ee zps)
                        (fst ?st, snd ?st) ps))
              \<subseteq> set (snd ?st) - {z. \<exists>p\<in>set ps. findBusinessObject d ee p = Some z \<and>
                                                   retained d z t p}"
    using Cons.IH [of "fst ?st" "snd ?st"] Cons.prems(1) step by simp
  show ?case using ih step(3) by auto
qed

lemma updateZeebePropertyProperties_settled:
  assumes ee: "nref (heap d e) ''extensionElements'' = Some ee"
      and st: "settled_zp t d ee" and s: "same_store d d'"
  shows "same_store d (updateZeebePropertyProperties d' e (Some t) t)"
proof -
  have g: "getOrCreateExtensionElements d' e (getBusinessObject e) = (d', ee)"
    using ee same_store_readers(9) [OF s]
    by (simp add: getOrCreate_present getBusinessObject_def)
  have rd: "findExtension d' = findExtension d" "heap d' = heap d"
    using same_store_readers [OF s] by simp_all
  show ?thesis
  proof (cases "findExtension d ee ''zeebe:Properties''")
    case None
    then show ?thesis
      unfolding zp_unfold [OF g] using st s by (simp add: rd settled_zp_def)
  next
    case (Some zps)
    let ?olds = "nlist (heap d zps) ''properties''"
    let ?st = "foldl (updateZeebePropertyProperties_each e (Some t) ee zps) (d', ?olds)
                 (zp_properties t)"
    have ne: "zp_properties t \<noteq> []" and dis: "distinct ?olds"
      and ok: "\<forall>p\<in>set (zp_properties t). case findBusinessObject d ee p of
                 None \<Rightarrow> \<not> shouldUpdate (getDefaultValue p) p
               | Some z \<Rightarrow> slot_settled d z t p ''value''"
      and own: "\<forall>z\<in>set ?olds. \<exists>p\<in>set (zp_properties t).
                  findBusinessObject d ee p = Some z \<and> retained d z t p"
      using st Some by (simp_all add: settled_zp_def)
    have f: "same_store d (fst ?st)"
      and r: "set (snd ?st) \<subseteq> set ?olds - {z. \<exists>p\<in>set (zp_properties t).
                 findBusinessObject d ee p = Some z \<and> retained d z t p}"
      using zp_foldl_settled [OF ok s dis, of e zps] by simp_all
    have "set (snd ?st) = {}" by (rule owned_empty [OF r own])
    then have "snd ?st = []" by simp
    then show ?thesis
      unfolding zp_unfold [OF g]
      using ne f by (simp add: rd Some zp_loop_def list_cleanup_def)
  qed
qed

subsection \<open>Input and output mappings\<close>

lemma io_each_settled:
  assumes s: "same_store d d'" and dis: "distinct oi" "distinct oo"
      and ok: "case findBusinessObject d ee p of
                 None \<Rightarrow> \<not> shouldUpdate (getDefaultValue p) p
               | Some x \<Rightarrow> slot_settled d x t p
                             (if is_a d x ''zeebe:Input'' then ''source'' else ''target'')"
  shows "same_store d (fst (updateZeebeInputOutputParameterProperties_each e (Some t) ee io
                              (d', oi, oo) p)) \<and>
         distinct (fst (snd (updateZeebeInputOutputParameterProperties_each e (Some t) ee io
                               (d', oi, oo) p))) \<and>
         distinct (snd (snd (updateZeebeInputOutputParameterProperties_each e (Some t) ee io
                               (d', oi, oo) p))) \<and>
         set (fst (snd (updateZeebeInputOutputParameterProperties_each e (Some t) ee io
                          (d', oi, oo) p)))
           \<subseteq> set oi - {x. findBusinessObject d ee p = Some x \<and> is_a d x ''zeebe:Input'' \<and>
                            retained d x t p} \<and>
         set (snd (snd (updateZeebeInputOutputParameterProperties_each e (Some t) ee io
                          (d', oi, oo) p)))
           \<subseteq> set oo - {x. findBusinessObject d ee p = Some x \<and> \<not> is_a d x ''zeebe:Input'' \<and>
                            retained d x t p}"
proof -
  have rd: "heap d' = heap d" "shouldKeepValue d' = shouldKeepValue d"
    "findBusinessObject d' = findBusinessObject d" "is_a d' = is_a d"
    using same_store_readers [OF s] by simp_all
  show ?thesis
  proof (cases "findBusinessObject d ee p")
    case None
    then show ?thesis
      using ok s dis
      by (simp add: updateZeebeInputOutputParameterProperties_each_def Let_def rd)
  next
    case (Some x)
    let ?k = "if is_a d x ''zeebe:Input'' then ''source'' else ''target''"
    have st: "same_store d (if \<not> shouldKeepValue d (Some x) (findOldProperty (Some t) p) p
                then element_updateModdleProperties d' e x [(?k, PScalar (getDefaultValue p))]
                else d')"
    proof (cases "shouldKeepValue d (Some x) (findOldProperty (Some t) p) p")
      case True
      then show ?thesis using s by simp
    next
      case False
      then have "nscal (heap d' x) ?k = getDefaultValue p"
        using ok Some by (simp add: slot_settled_def rd)
      then have "same_store d' (element_updateModdleProperties d' e x
                   [(?k, PScalar (getDefaultValue p))])"
        by (rule upd_scalar_same_store)
      then have "same_store d (element_updateModdleProperties d' e x
                   [(?k, PScalar (getDefaultValue p))])"
        using s same_store_trans by blast
      then show ?thesis using False by simp
    qed
    show ?thesis
    proof (cases "is_a d x ''zeebe:Input''")
      case True
      then show ?thesis
        using st remove_arr_distinct [OF dis(1), of x] dis
        by (auto simp: updateZeebeInputOutputParameterProperties_each_def Let_def rd Some
              retained_def)
    next
      case False
      then show ?thesis
        using st remove_arr_distinct [OF dis(2), of x] dis
        by (auto simp: updateZeebeInputOutputParameterProperties_each_def Let_def rd Some
              retained_def)
    qed
  qed
qed

lemma io_foldl_settled:
  assumes "\<forall>p\<in>set ps. case findBusinessObject d ee p of
                         None \<Rightarrow> \<not> shouldUpdate (getDefaultValue p) p
                       | Some x \<Rightarrow> slot_settled d x t p
                                     (if is_a d x ''zeebe:Input'' then ''source'' else ''target'')"
      and "same_store d d'" and "distinct oi" and "distinct oo"
  shows "same_store d (fst (foldl (updateZeebeInputOutputParameterProperties_each e (Some t) ee io)
                              (d', oi, oo) ps)) \<and>
         set (fst (snd (foldl (updateZeebeInputOutputParameterProperties_each e (Some t) ee io)
                          (d', oi, oo) ps)))
           \<subseteq> set oi - {x. \<exists>p\<in>set ps. findBusinessObject d ee p = Some x \<and>
                                          is_a d x ''zeebe:Input'' \<and> retained d x t p} \<and>
         set (snd (snd (foldl (updateZeebeInputOutputParameterProperties_each e (Some t) ee io)
                          (d', oi, oo) ps)))
           \<subseteq> set oo - {x. \<exists>p\<in>set ps. findBusinessObject d ee p = Some x \<and>
                                          \<not> is_a d x ''zeebe:Input'' \<and> retained d x t p}"
  using assms
proof (induction ps arbitrary: d' oi oo)
  case Nil
  then show ?case by simp
next
  case (Cons p ps)
  let ?F = "updateZeebeInputOutputParameterProperties_each e (Some t) ee io"
  let ?st = "?F (d', oi, oo) p"
  have step: "same_store d (fst ?st)" "distinct (fst (snd ?st))" "distinct (snd (snd ?st))"
    "set (fst (snd ?st)) \<subseteq> set oi - {x. findBusinessObject d ee p = Some x \<and>
                                          is_a d x ''zeebe:Input'' \<and> retained d x t p}"
    "set (snd (snd ?st)) \<subseteq> set oo - {x. findBusinessObject d ee p = Some x \<and>
                                          \<not> is_a d x ''zeebe:Input'' \<and> retained d x t p}"
    using io_each_settled [where d = d and d' = d' and oi = oi and oo = oo and ee = ee
            and p = p and t = t and e = e and io = io] Cons.prems by simp_all
  have ih: "same_store d (fst (foldl ?F (fst ?st, fst (snd ?st), snd (snd ?st)) ps)) \<and>
            set (fst (snd (foldl ?F (fst ?st, fst (snd ?st), snd (snd ?st)) ps)))
              \<subseteq> set (fst (snd ?st)) - {x. \<exists>p\<in>set ps. findBusinessObject d ee p = Some x \<and>
                                          is_a d x ''zeebe:Input'' \<and> retained d x t p} \<and>
            set (snd (snd (foldl ?F (fst ?st, fst (snd ?st), snd (snd ?st)) ps)))
              \<subseteq> set (snd (snd ?st)) - {x. \<exists>p\<in>set ps. findBusinessObject d ee p = Some x \<and>
                                          \<not> is_a d x ''zeebe:Input'' \<and> retained d x t p}"
    using Cons.IH [of "fst ?st" "fst (snd ?st)" "snd (snd ?st)"] Cons.prems(1) step by simp
  have "foldl ?F (d', oi, oo) (p # ps) = foldl ?F (fst ?st, fst (snd ?st), snd (snd ?st)) ps"
    by simp
  then show ?case using ih step(4,5) by auto
qed

lemma updateZeebeInputOutputParameterProperties_settled:
  assumes ee: "nref (heap d e) ''extensionElements'' = Some ee"
      and st: "settled_io t d ee" and s: "same_store d d'"
  shows "same_store d (updateZeebeInputOutputParameterProperties d' e (Some t) t)"
proof -
  have g: "getOrCreateExtensionElements d' e (getBusinessObject e) = (d', ee)"
    using ee same_store_readers(9) [OF s]
    by (simp add: getOrCreate_present getBusinessObject_def)
  have rd: "findExtension d' = findExtension d" "heap d' = heap d"
    using same_store_readers [OF s] by simp_all
  show ?thesis
  proof (cases "findExtension d ee ''zeebe:IoMapping''")
    case None
    then show ?thesis
      unfolding io_unfold [OF g] using st s by (simp add: rd settled_io_def)
  next
    case (Some io)
    let ?oi = "nlist (heap d io) ''inputParameters''"
    let ?oo = "nlist (heap d io) ''outputParameters''"
    let ?st = "foldl (updateZeebeInputOutputParameterProperties_each e (Some t) ee io)
                 (d', ?oi, ?oo) (io_properties t)"
    have ne: "io_properties t \<noteq> []" and dis: "distinct ?oi" "distinct ?oo"
      and ok: "\<forall>p\<in>set (io_properties t). case findBusinessObject d ee p of
                 None \<Rightarrow> \<not> shouldUpdate (getDefaultValue p) p
               | Some x \<Rightarrow> slot_settled d x t p
                             (if is_a d x ''zeebe:Input'' then ''source'' else ''target'')"
      and owni: "\<forall>i\<in>set ?oi. \<exists>p\<in>set (io_properties t).
                  findBusinessObject d ee p = Some i \<and> is_a d i ''zeebe:Input'' \<and> retained d i t p"
      and owno: "\<forall>out\<in>set ?oo. \<exists>p\<in>set (io_properties t).
                  findBusinessObject d ee p = Some out \<and> \<not> is_a d out ''zeebe:Input'' \<and>
                  retained d out t p"
      using st Some by (auto simp: settled_io_def)
    have f: "same_store d (fst ?st)"
      and ri: "set (fst (snd ?st)) \<subseteq> set ?oi - {x. \<exists>p\<in>set (io_properties t).
                 findBusinessObject d ee p = Some x \<and> is_a d x ''zeebe:Input'' \<and> retained d x t p}"
      and ro: "set (snd (snd ?st)) \<subseteq> set ?oo - {x. \<exists>p\<in>set (io_properties t).
                 findBusinessObject d ee p = Some x \<and> \<not> is_a d x ''zeebe:Input'' \<and>
                 retained d x t p}"
      using io_foldl_settled [OF ok s dis, of e io] by simp_all
    have "set (fst (snd ?st)) = {}" by (rule owned_empty [OF ri owni])
    moreover have "set (snd (snd ?st)) = {}" by (rule owned_empty [OF ro owno])
    ultimately have "fst (snd ?st) = []" "snd (snd ?st) = []" by simp_all
    then show ?thesis
      unfolding io_unfold [OF g]
      using ne f by (simp add: rd Some io_loop_def io_cleanup_def)
  qed
qed

subsection \<open>Message and subscription\<close>

lemma inert_obj_set:
  "inert n props \<Longrightarrow> nscal n k = x \<Longrightarrow> inert n (obj_set props k (PScalar x))"
  by (induction props) (auto simp: inert_def)

lemma inert_foldl:
  "inert n props \<Longrightarrow> foldl set_prop n props = n"
proof (induction props)
  case Nil
  then show ?case by simp
next
  case (Cons kv props)
  obtain k v where kv: "kv = (k, v)" by (cases kv)
  have "set_prop n kv = n" using Cons.prems by (simp add: inert_def kv fun_upd_idem)
  then show ?case using Cons by (simp add: inert_def)
qed

lemma updateMessageProperties_each_settled:
  assumes s: "same_store d d'" and ok: "slot_settled d m t p (key_of (bname (pbinding p)))"
  shows "same_store d (updateMessageProperties_each e (Some t) m d' p)"
proof -
  have heap: "heap d' = heap d" and keep: "shouldKeepValue d' = shouldKeepValue d"
    using same_store_readers [OF s] by simp_all
  show ?thesis
  proof (cases "shouldKeepValue d (Some m) (findOldProperty (Some t) p) p")
    case True
    then show ?thesis using s by (simp add: updateMessageProperties_each_def keep)
  next
    case False
    then have "nscal (heap d' m) (key_of (bname (pbinding p))) = getDefaultValue p"
      using ok by (simp add: slot_settled_def heap)
    then have "same_store d' (updateMessageProperties_each e (Some t) m d' p)"
      using False
      by (simp add: updateMessageProperties_each_def keep upd_scalar_same_store)
    then show ?thesis using s same_store_trans by blast
  qed
qed

lemma updateMessageProperties_settled:
  assumes st: "settled_message t d e" and s: "same_store d d'"
  shows "\<exists>d''. updateMessageProperties d' e (Some t) t = Some d'' \<and> same_store d d''"
proof -
  have rm: "filter (\<lambda>op. btype (pbinding op) = MESSAGE_PROPERTY_TYPE \<and>
                     find (\<lambda>np. bname (pbinding np) = bname (pbinding op))
                       (filter (\<lambda>np. btype (pbinding np) = MESSAGE_PROPERTY_TYPE)
                          (tproperties t)) = None)
              (tproperties t) = []"
    by (rule no_removed_properties)
  have rd: "getMessage d' = getMessage d" using same_store_readers [OF s] by simp
  have d1: "(case getMessage d e of None \<Rightarrow> d'
             | Some message \<Rightarrow> foldl (\<lambda>dd rp. element_updateModdleProperties dd e message
                 [(key_of (bname (pbinding rp)), PScalar JUndefined)]) d' []) = d'"
    by (simp split: option.splits)
  show ?thesis
  proof (cases "msg_properties t = []")
    case True
    then show ?thesis
      using s unfolding updateMessageProperties_def Let_def
      by (simp add: msg_properties_def rm rd split: option.splits)
  next
    case False
    then obtain m where m: "getMessage d e = Some m"
      and ok: "\<forall>p\<in>set (msg_properties t). slot_settled d m t p (key_of (bname (pbinding p)))"
      using st by (auto simp: settled_message_def split: option.splits)
    have "same_store d (foldl (updateMessageProperties_each e (Some t) m) d' (msg_properties t))"
      by (rule foldl_same_store [OF _ s]) (use ok in \<open>simp add: updateMessageProperties_each_settled\<close>)
    moreover have "filter (\<lambda>np. btype (pbinding np) = MESSAGE_PROPERTY_TYPE) (tproperties t) \<noteq> []"
      using False by (simp add: msg_properties_def)
    ultimately show ?thesis
      unfolding updateMessageProperties_def Let_def
      by (simp add: rm getOrCreateMessage_def rd m msg_properties_def)
  qed
qed

lemma propertiesToSet_inert:
  assumes "\<forall>p\<in>set ps. slot_settled d sub t p (key_of (bname (pbinding p)))"
      and "inert (heap d sub) acc"
  shows "inert (heap d sub)
           (foldl (\<lambda>props newProperty.
                     if shouldKeepValue d (Some sub) (findOldProperty (Some t) newProperty)
                          newProperty
                     then props
                     else obj_set props (key_of (bname (pbinding newProperty)))
                            (PScalar (getDefaultValue newProperty)))
              acc ps)"
  using assms
proof (induction ps arbitrary: acc)
  case Nil
  then show ?case by simp
next
  case (Cons p ps)
  have "inert (heap d sub)
          (if shouldKeepValue d (Some sub) (findOldProperty (Some t) p) p then acc
           else obj_set acc (key_of (bname (pbinding p))) (PScalar (getDefaultValue p)))"
    using Cons.prems by (auto simp: slot_settled_def intro: inert_obj_set)
  then show ?case using Cons.IH Cons.prems(1) by simp
qed

lemma updateMessageZeebeSubscriptionProperties_settled:
  assumes st: "settled_message t d e" and s: "same_store d d'"
  shows "\<exists>d''. updateMessageZeebeSubscriptionProperties d' e (Some t) t = Some d'' \<and>
               same_store d d''"
proof -
  have rm: "filter (\<lambda>op. btype (pbinding op) = MESSAGE_ZEEBE_SUBSCRIPTION_PROPERTY_TYPE \<and>
                     find (\<lambda>np. bname (pbinding np) = bname (pbinding op))
                       (filter (\<lambda>np. btype (pbinding np) = MESSAGE_ZEEBE_SUBSCRIPTION_PROPERTY_TYPE)
                          (tproperties t)) = None)
              (tproperties t) = []"
    by (rule no_removed_properties)
  have rd: "getMessage d' = getMessage d" "heap d' = heap d" "findExtension d' = findExtension d"
    "shouldKeepValue d' = shouldKeepValue d"
    using same_store_readers [OF s] by simp_all
  show ?thesis
  proof (cases "sub_properties t = []")
    case True
    then show ?thesis
      using s unfolding updateMessageZeebeSubscriptionProperties_def Let_def
      by (simp add: sub_properties_def rm)
  next
    case False
    then obtain m mee sub where m: "getMessage d e = Some m"
      and mee: "nref (heap d m) ''extensionElements'' = Some mee"
      and sub: "findExtension d mee ''zeebe:Subscription'' = Some sub"
      and ok: "\<forall>p\<in>set (sub_properties t). slot_settled d sub t p (key_of (bname (pbinding p)))"
      using st by (auto simp: settled_message_def split: option.splits)
    have g: "getOrCreateExtensionElements d' e m = (d', mee)"
      using mee by (simp add: getOrCreate_present rd)
    let ?props = "foldl (\<lambda>props newProperty.
                     if shouldKeepValue d (Some sub) (findOldProperty (Some t) newProperty)
                          newProperty
                     then props
                     else obj_set props (key_of (bname (pbinding newProperty)))
                            (PScalar (getDefaultValue newProperty)))
              [] (sub_properties t)"
    have "inert (heap d sub) ?props"
      by (rule propertiesToSet_inert [OF ok]) (simp add: inert_def)
    then have "foldl set_prop (heap d' sub) ?props = heap d' sub"
      by (simp add: inert_foldl rd)
    then have 1: "same_store d' (element_updateModdleProperties d' e sub ?props)"
      by (rule upd_same_store)
    have 2: "same_store (element_updateModdleProperties d' e sub ?props)
               (element_updateModdleProperties (element_updateModdleProperties d' e sub ?props)
                  e sub [])"
      by (rule upd_same_store) simp
    have 3: "same_store d (element_updateModdleProperties
                (element_updateModdleProperties d' e sub ?props) e sub [])"
      using s 1 2 same_store_trans by blast
    have ne: "filter (\<lambda>np. btype (pbinding np) = MESSAGE_ZEEBE_SUBSCRIPTION_PROPERTY_TYPE)
                (tproperties t) \<noteq> []"
      using False by (simp add: sub_properties_def)
    show ?thesis
      using ne 3 unfolding updateMessageZeebeSubscriptionProperties_def Let_def
      by (simp add: rm getOrCreateMessage_def rd m g getSubscription_def sub
            sub_properties_def)
  qed
qed

lemma updateZeebeModelerTemplateOnReferencedElement_settled:
  assumes st: "settled_message t d e" and s: "same_store d d'"
  shows "updateZeebeModelerTemplateOnReferencedElement d' e (Some t) t = d'"
proof -
  have rd: "findMessage d' = findMessage d" "getTemplateId d' = getTemplateId d"
    using same_store_readers [OF s] by simp_all
  show ?thesis
    using st
    by (auto simp: updateZeebeModelerTemplateOnReferencedElement_def Let_def rd
          settled_message_def split: option.splits)
qed

lemma updateMessage_settled:
  assumes st: "settled_message t d e" and s: "same_store d d'"
      and idle: "\<not> hasMessageProperties t \<longrightarrow> removeMessage_idle c d e"
  shows "\<exists>d''. updateMessage c d' e (Some t) t = Some d'' \<and> same_store d d''"
proof -
  obtain d1 where 1: "updateMessageProperties d' e (Some t) t = Some d1" "same_store d d1"
    using updateMessageProperties_settled [OF st s] by blast
  obtain d2 where 2: "updateMessageZeebeSubscriptionProperties d1 e (Some t) t = Some d2"
    "same_store d d2"
    using updateMessageZeebeSubscriptionProperties_settled [OF st 1(2)] by blast
  have 3: "updateZeebeModelerTemplateOnReferencedElement d2 e (Some t) t = d2"
    by (rule updateZeebeModelerTemplateOnReferencedElement_settled [OF st 2(2)])
  show ?thesis
  proof (cases "hasMessageProperties t")
    case True
    then show ?thesis using 1 2 3 by (simp add: updateMessage_def)
  next
    case False
    then have "same_store d (removeMessage c d2 e)"
      using idle 2(2) by (simp add: removeMessage_idle_def same_store_def)
    then show ?thesis using False 1 2 3 by (simp add: updateMessage_def)
  qed
qed

subsection \<open>The whole handler on a settled document\<close>

lemma preExecute_settled:
  assumes "settled c t d e"
  shows "\<exists>d'. preExecute c d e (Some t) (Some t) = Some (d', e) \<and>
              heap d' = heap d \<and> fresh d' = fresh d"
proof -
  obtain ee where ee: "nref (heap d e) ''extensionElements'' = Some ee"
    and fam: "settled_td t d ee" "settled_io t d ee" "settled_headers t d ee"
      "settled_zp t d ee" "settled_ce t d ee"
    and st: "settled_stamps t d e" "settled_plain t d e" "settled_message t d e"
    and idle: "\<not> hasMessageProperties t \<longrightarrow> removeMessage_idle c d e"
    using assms by (auto simp: settled_def split: option.splits)
  define d2 where "d2 = updateZeebeModelerTemplateIcon (updateZeebeModelerTemplate d e (Some t))
                          e (Some t)"
  define d4 where "d4 = updateProperties d2 e (Some t) t"
  define d5 where "d5 = updateZeebeTaskDefinition d4 e (Some t) t"
  define d6 where "d6 = updateZeebeInputOutputParameterProperties d5 e (Some t) t"
  define d7 where "d7 = updateZeebeTaskHeaderProperties d6 e (Some t) t"
  define d8 where "d8 = updateZeebePropertyProperties d7 e (Some t) t"
  have s2: "same_store d d2" unfolding d2_def by (rule stamps_settled [OF st(1)])
  have s4: "same_store d d4" unfolding d4_def by (rule updateProperties_settled [OF st(2) s2])
  have s5: "same_store d d5"
    unfolding d5_def by (rule updateZeebeTaskDefinition_settled [OF ee fam(1) s4])
  have s6: "same_store d d6"
    unfolding d6_def by (rule updateZeebeInputOutputParameterProperties_settled [OF ee fam(2) s5])
  have s7: "same_store d d7"
    unfolding d7_def by (rule updateZeebeTaskHeaderProperties_settled [OF ee fam(3) s6])
  have s8: "same_store d d8"
    unfolding d8_def by (rule updateZeebePropertyProperties_settled [OF ee fam(4) s7])
  obtain d9 where 9: "updateMessage c d8 e (Some t) t = Some d9" "same_store d d9"
    using updateMessage_settled [OF st(3) s8 idle] by blast
  have s10: "same_store d (updateCalledElement d9 e (Some t) t)"
    by (rule updateCalledElement_settled [OF ee fam(5) 9(2)])
  have "preExecute c d e (Some t) (Some t) = Some (updateCalledElement d9 e (Some t) t, e)"
    using 9(1)
    by (simp add: preExecute_def Let_def d2_def [symmetric] d4_def [symmetric]
          d5_def [symmetric] d6_def [symmetric] d7_def [symmetric] d8_def [symmetric])
  then show ?thesis using s10 by (simp add: same_store_def)
qed

lemma ex_dup_first:
  "\<exists>d. preExecute ex_collab ex_task 0 None (Some ex_dup) = Some (d, 0) \<and>
       fresh d = 2 \<and>
       heap d = (\<lambda>_. empty_node [])
         (0 := (empty_node ''bpmn:ServiceTask'')
                 \<lparr>nscal := (\<lambda>_. JUndefined)
                    (''zeebe:modelerTemplate'' := JStr ''T'',
                     ''zeebe:modelerTemplateVersion'' := JNum 1,
                     ''zeebe:modelerTemplateIcon'' := JUndefined,
                     ''x'' := JStr ''a''),
                  nref := (\<lambda>_. None)(''extensionElements'' := Some 1)\<rparr>,
          1 := (empty_node ''bpmn:ExtensionElements'')\<lparr>nlist := (\<lambda>_. [])(''values'' := [])\<rparr>)"
proof -
  let ?T = "ex_dup"
  let ?n0 = "(empty_node ''bpmn:ServiceTask'')\<lparr>nscal := (\<lambda>_. JUndefined)
               (''zeebe:modelerTemplate'' := JStr ''T'',
                ''zeebe:modelerTemplateVersion'' := JNum 1,
                ''zeebe:modelerTemplateIcon'' := JUndefined)\<rparr>"
  let ?n4 = "(empty_node ''bpmn:ServiceTask'')\<lparr>nscal := (\<lambda>_. JUndefined)
               (''zeebe:modelerTemplate'' := JStr ''T'',
                ''zeebe:modelerTemplateVersion'' := JNum 1,
                ''zeebe:modelerTemplateIcon'' := JUndefined,
                ''x'' := JStr ''a'')\<rparr>"
  let ?h2 = "(\<lambda>_. empty_node [])(0 := ?n0)"
  let ?h4 = "(\<lambda>_. empty_node [])(0 := ?n4)"
  let ?h5 = "(\<lambda>_. empty_node [])
               (0 := ?n4\<lparr>nref := (\<lambda>_. None)(''extensionElements'' := Some 1)\<rparr>,
                1 := (empty_node ''bpmn:ExtensionElements'')\<lparr>nlist := (\<lambda>_. [])(''values'' := [])\<rparr>)"
  define d2 where "d2 = updateZeebeModelerTemplateIcon
                          (updateZeebeModelerTemplate ex_task 0 (Some ?T)) 0 (Some ?T)"
  have h2: "heap d2 = ?h2" "fresh d2 = 1"
    by (simp_all add: d2_def updateZeebeModelerTemplate_def updateZeebeModelerTemplateIcon_def
          ex_defs getBusinessObject_def)
  have t: "updateElementType ex_collab d2 0 None ?T = (d2, 0)"
    by (simp add: updateElementType_def ex_defs)
  define d4 where "d4 = updateProperties d2 0 None ?T"
  have h4: "heap d4 = ?h4" "fresh d4 = 1"
    by (simp_all add: d4_def updateProperties_def updateProperties_each_def ex_defs Let_def
          h2 shouldKeepValue_def getPropertyValue_def findOldProperty_def getDefaultValue_def
          getBusinessObject_def)
  define d5 where "d5 = updateZeebeTaskDefinition d4 0 None ?T"
  have h5: "heap d5 = ?h5" "fresh d5 = 2"
    by (simp_all add: d5_def updateZeebeTaskDefinition_def ex_defs kind_defs Let_def
          getOrCreateExtensionElements_def getBusinessObject_def h4 bpmnFactory_create_def
          findExtension_def is_a_def fun_upd_twist)
  define d6 where "d6 = updateZeebeInputOutputParameterProperties d5 0 None ?T"
  have h6: "heap d6 = ?h5" "fresh d6 = 2"
    by (simp_all add: d6_def updateZeebeInputOutputParameterProperties_def ex_defs
          Let_def getOrCreateExtensionElements_def getBusinessObject_def h5
          findExtension_def is_a_def)
  define d7 where "d7 = updateZeebeTaskHeaderProperties d6 0 None ?T"
  have h7: "heap d7 = ?h5" "fresh d7 = 2"
    by (simp_all add: d7_def updateZeebeTaskHeaderProperties_def ex_defs
          Let_def getOrCreateExtensionElements_def getBusinessObject_def h6
          findExtension_def is_a_def)
  define d8 where "d8 = updateZeebePropertyProperties d7 0 None ?T"
  have h8: "heap d8 = ?h5" "fresh d8 = 2"
    by (simp_all add: d8_def updateZeebePropertyProperties_def ex_defs
          Let_def getOrCreateExtensionElements_def getBusinessObject_def h7
          findExtension_def is_a_def)
  have m: "updateMessage ex_collab d8 0 None ?T = Some d8"
    by (simp add: updateMessage_def updateMessageProperties_def
          updateMessageZeebeSubscriptionProperties_def
          updateZeebeModelerTemplateOnReferencedElement_def hasMessageProperties_def
          findMessage_def getMessage_def ex_defs kind_defs Let_def
          getBusinessObject_def h8 is_a_def)
  define d10 where "d10 = updateCalledElement d8 0 None ?T"
  have h10: "heap d10 = ?h5" "fresh d10 = 2"
    by (simp_all add: d10_def updateCalledElement_def ex_defs kind_defs
          Let_def getOrCreateExtensionElements_def getBusinessObject_def h8
          findExtension_def is_a_def)
  have "preExecute ex_collab ex_task 0 None (Some ?T) = Some (d10, 0)"
    unfolding preExecute_def Let_def
    by (simp add: d2_def [symmetric] t d4_def [symmetric] d5_def [symmetric]
          d6_def [symmetric] d7_def [symmetric] d8_def [symmetric] m d10_def [symmetric])
  then show ?thesis using h10 by blast
qed

lemma ex_dup_second:
  assumes h1: "heap d1 = (\<lambda>_. empty_node [])
         (0 := (empty_node ''bpmn:ServiceTask'')
                 \<lparr>nscal := (\<lambda>_. JUndefined)
                    (''zeebe:modelerTemplate'' := JStr ''T'',
                     ''zeebe:modelerTemplateVersion'' := JNum 1,
                     ''zeebe:modelerTemplateIcon'' := JUndefined,
                     ''x'' := JStr ''a''),
                  nref := (\<lambda>_. None)(''extensionElements'' := Some 1)\<rparr>,
          1 := (empty_node ''bpmn:ExtensionElements'')\<lparr>nlist := (\<lambda>_. [])(''values'' := [])\<rparr>)"
      and f1: "fresh d1 = 2"
  shows "\<exists>d. preExecute ex_collab d1 0 (Some ex_dup) (Some ex_dup) = Some (d, 0) \<and>
             nscal (heap d 0) ''x'' = JStr ''b''"
proof -
  let ?T = "ex_dup"
  let ?n4 = "(empty_node ''bpmn:ServiceTask'')\<lparr>nscal := (\<lambda>_. JUndefined)
               (''zeebe:modelerTemplate'' := JStr ''T'',
                ''zeebe:modelerTemplateVersion'' := JNum 1,
                ''zeebe:modelerTemplateIcon'' := JUndefined,
                ''x'' := JStr ''b''),
               nref := (\<lambda>_. None)(''extensionElements'' := Some 1)\<rparr>"
  let ?h4 = "(\<lambda>_. empty_node [])
               (0 := ?n4,
                1 := (empty_node ''bpmn:ExtensionElements'')\<lparr>nlist := (\<lambda>_. [])(''values'' := [])\<rparr>)"
  define d2 where "d2 = updateZeebeModelerTemplateIcon
                          (updateZeebeModelerTemplate d1 0 (Some ?T)) 0 (Some ?T)"
  have h2: "heap d2 = heap d1" "fresh d2 = 2"
    by (simp_all add: d2_def updateZeebeModelerTemplate_def updateZeebeModelerTemplateIcon_def
          ex_defs getBusinessObject_def h1 f1 fun_upd_twist)
  define d4 where "d4 = updateProperties d2 0 (Some ?T) ?T"
  have h4: "heap d4 = ?h4" "fresh d4 = 2"
    by (simp_all add: d4_def updateProperties_def updateProperties_each_def ex_defs Let_def
          h2 h1 shouldKeepValue_def getPropertyValue_def findOldProperty_def getDefaultValue_def
          propertyChanged_def getBusinessObject_def fun_upd_twist)
  define d5 where "d5 = updateZeebeTaskDefinition d4 0 (Some ?T) ?T"
  have h5: "heap d5 = ?h4" "fresh d5 = 2"
    by (simp_all add: d5_def updateZeebeTaskDefinition_def ex_defs kind_defs Let_def
          getOrCreateExtensionElements_def getBusinessObject_def h4
          findExtension_def is_a_def)
  define d6 where "d6 = updateZeebeInputOutputParameterProperties d5 0 (Some ?T) ?T"
  have h6: "heap d6 = ?h4" "fresh d6 = 2"
    by (simp_all add: d6_def updateZeebeInputOutputParameterProperties_def ex_defs
          Let_def getOrCreateExtensionElements_def getBusinessObject_def h5
          findExtension_def is_a_def)
  define d7 where "d7 = updateZeebeTaskHeaderProperties d6 0 (Some ?T) ?T"
  have h7: "heap d7 = ?h4" "fresh d7 = 2"
    by (simp_all add: d7_def updateZeebeTaskHeaderProperties_def ex_defs
          Let_def getOrCreateExtensionElements_def getBusinessObject_def h6
          findExtension_def is_a_def)
  define d8 where "d8 = updateZeebePropertyProperties d7 0 (Some ?T) ?T"
  have h8: "heap d8 = ?h4" "fresh d8 = 2"
    by (simp_all add: d8_def updateZeebePropertyProperties_def ex_defs
          Let_def getOrCreateExtensionElements_def getBusinessObject_def h7
          findExtension_def is_a_def)
  have m: "updateMessage ex_collab d8 0 (Some ?T) ?T = Some d8"
    by (simp add: updateMessage_def updateMessageProperties_def
          updateMessageZeebeSubscriptionProperties_def
          updateZeebeModelerTemplateOnReferencedElement_def hasMessageProperties_def
          findMessage_def getMessage_def ex_defs kind_defs Let_def
          getBusinessObject_def h8 is_a_def)
  define d10 where "d10 = updateCalledElement d8 0 (Some ?T) ?T"
  have h10: "heap d10 = ?h4" "fresh d10 = 2"
    by (simp_all add: d10_def updateCalledElement_def ex_defs kind_defs
          Let_def getOrCreateExtensionElements_def getBusinessObject_def h8
          findExtension_def is_a_def)
  have "preExecute ex_collab d1 0 (Some ?T) (Some ?T) = Some (d10, 0)"
    unfolding preExecute_def Let_def
    by (simp add: d2_def [symmetric] d4_def [symmetric] d5_def [symmetric]
          d6_def [symmetric] d7_def [symmetric] d8_def [symmetric] m d10_def [symmetric])
  then show ?thesis using h10 by simp
qed

lemma ex_applied_settled:
  "settled ex_collab (ex_template [ex_plain (JStr ''a'')]) ex_applied 0"
  by (simp add: settled_def settled_stamps_def settled_plain_def settled_td_def settled_io_def
        settled_headers_def settled_zp_def settled_ce_def settled_message_def
        removeMessage_idle_def slot_settled_def plain_properties_def td_properties_def
        io_properties_def header_properties_def zp_properties_def ce_properties_def
        msg_properties_def sub_properties_def hasMessageProperties_def
        ex_applied_def ex_defs kind_defs findExtension_def findMessage_def is_a_def
        getBusinessObject_def getDefaultValue_def)

section \<open>The plain-property reconciler\<close>


subsection \<open>The slot read by the value policy\<close>




subsection \<open>The plain-property reconciler on one field\<close>










subsection \<open>The handler on the task-definition and called-element examples\<close>



section \<open>Well-formed documents\<close>

subsection \<open>Basic facts\<close>

lemma wf_docD:
  assumes "wf_doc d e"
  shows "e < fresh d" "ntype (heap d e) \<notin> set reserved" "n < fresh d \<Longrightarrow> typed_node d n"
  using assms by (simp_all add: wf_doc_def)

lemma typed_is_a:
  assumes "typed_node d n" and "t \<in> set reserved"
  shows "is_a d n t \<longleftrightarrow> ntype (heap d n) = t"
  using assms by (auto simp: typed_node_def is_a_def)

lemma typed_ref:
  assumes "typed_node d n" and "nref (heap d n) k = Some x"
  shows "x < fresh d" "ref_ok (\<lambda>v. ntype (heap d v)) k x"
  using assms by (auto simp: typed_node_def)

lemma typed_list:
  assumes "typed_node d n"
  shows "x \<in> set (nlist (heap d n) k) \<Longrightarrow> x < fresh d"
    and "list_ok (\<lambda>v. ntype (heap d v)) (ntype (heap d n)) k (nlist (heap d n) k)"
  using assms by (auto simp: typed_node_def)

lemma scalars_foldl:
  "scalars props \<Longrightarrow>
   ntype (foldl set_prop nd props) = ntype nd \<and> nsupers (foldl set_prop nd props) = nsupers nd \<and>
   nref (foldl set_prop nd props) = nref nd \<and> nlist (foldl set_prop nd props) = nlist nd"
proof (induction props arbitrary: nd)
  case Nil
  then show ?case by simp
next
  case (Cons kv props)
  obtain k v where kv: "kv = (k, v)" by (cases kv)
  from Cons.prems obtain x where v: "v = PScalar x" and rest: "scalars props"
    by (cases v) (auto simp: scalars_def kv)
  show ?case using Cons.IH [OF rest, of "set_prop nd kv"] by (simp add: kv v)
qed

lemma scalars_simps [simp]:
  "scalars []" "scalars ((k, PScalar v) # props) = scalars props"
  by (simp_all add: scalars_def)

lemma scalars_obj_set: "scalars props \<Longrightarrow> scalars (obj_set props k (PScalar v))"
  by (induction props) (auto simp: scalars_def)

text \<open>Well-formedness reads the types, references and lists of the nodes, never a scalar.\<close>

lemma typed_node_shape:
  assumes "fresh d' = fresh d"
      and "\<And>n. ntype (heap d' n) = ntype (heap d n)"
      and "\<And>n. nsupers (heap d' n) = nsupers (heap d n)"
      and "\<And>n. nref (heap d' n) = nref (heap d n)"
      and "\<And>n. nlist (heap d' n) = nlist (heap d n)"
  shows "typed_node d' n = typed_node d n"
  using assms by (simp add: typed_node_def)

lemma wf_doc_shape:
  assumes "fresh d' = fresh d"
      and "\<And>n. ntype (heap d' n) = ntype (heap d n)"
      and "\<And>n. nsupers (heap d' n) = nsupers (heap d n)"
      and "\<And>n. nref (heap d' n) = nref (heap d n)"
      and "\<And>n. nlist (heap d' n) = nlist (heap d n)"
  shows "wf_doc d' e = wf_doc d e"
  using assms typed_node_shape [of d' d] by (simp add: wf_doc_def)

lemma wf_upd_scalars:
  assumes "scalars props"
  shows "wf_doc (element_updateModdleProperties d el n props) e = wf_doc d e"
  using scalars_foldl [OF assms, of "heap d n"]
  by (intro wf_doc_shape) (simp_all add: element_updateModdleProperties_def)

lemma touches_refl [simp]: "touches K d d"
  by (simp add: touches_def)

lemma touchesD:
  assumes "touches K d d'"
  shows "fresh d \<le> fresh d'"
    and "n < fresh d \<Longrightarrow> ntype (heap d' n) = ntype (heap d n)"
    and "n < fresh d \<Longrightarrow> nsupers (heap d' n) = nsupers (heap d n)"
    and "n < fresh d \<Longrightarrow> nref (heap d' n) k = nref (heap d n) k \<or>
           (k = ''messageRef'' \<and> ''bpmn:Message'' \<in> K) \<or>
           (k = ''extensionElements'' \<and> nref (heap d n) k = None)"
    and "n < fresh d \<Longrightarrow> ntype (heap d n) \<notin> K \<Longrightarrow> nscal (heap d' n) = nscal (heap d n)"
    and "n < fresh d \<Longrightarrow> ntype (heap d n) \<notin> K \<Longrightarrow>
           (ntype (heap d n) = ''bpmn:ExtensionElements'' \<and> k = ''values'') \<or>
           nlist (heap d' n) k = nlist (heap d n) k"
    and "n < fresh d \<Longrightarrow> ntype (heap d n) = ''bpmn:ExtensionElements'' \<Longrightarrow>
           filter (\<lambda>v. ntype (heap d' v) \<notin> K) (nlist (heap d' n) ''values'') =
           filter (\<lambda>v. ntype (heap d v) \<notin> K) (nlist (heap d n) ''values'')"
  using assms by (simp_all add: touches_def)

lemma touches_trans:
  assumes "touches K d1 d2" and "touches K d2 d3"
  shows "touches K d1 d3"
  unfolding touches_def
proof (intro conjI allI impI)
  show "fresh d1 \<le> fresh d3" using touchesD(1) [OF assms(1)] touchesD(1) [OF assms(2)] by simp
next
  fix n assume n: "n < fresh d1"
  then have n2: "n < fresh d2" using touchesD(1) [OF assms(1)] by simp
  note a = touchesD [OF assms(1)] and b = touchesD [OF assms(2)]
  show ty: "ntype (heap d3 n) = ntype (heap d1 n)" using a(2) [OF n] b(2) [OF n2] by simp
  show "nsupers (heap d3 n) = nsupers (heap d1 n)" using a(3) [OF n] b(3) [OF n2] by simp
  show "nscal (heap d3 n) = nscal (heap d1 n)" if "ntype (heap d1 n) \<notin> K"
    using a(5) [OF n that] b(5) [OF n2] a(2) [OF n] that by simp
  show "filter (\<lambda>v. ntype (heap d3 v) \<notin> K) (nlist (heap d3 n) ''values'') =
        filter (\<lambda>v. ntype (heap d1 v) \<notin> K) (nlist (heap d1 n) ''values'')"
    if "ntype (heap d1 n) = ''bpmn:ExtensionElements''"
    using a(7) [OF n that] b(7) [OF n2] a(2) [OF n] that by simp
  fix k
  show "nref (heap d3 n) k = nref (heap d1 n) k \<or>
        k = ''messageRef'' \<and> ''bpmn:Message'' \<in> K \<or>
        k = ''extensionElements'' \<and> nref (heap d1 n) k = None"
    using a(4) [OF n, of k] b(4) [OF n2, of k] by metis
  show "ntype (heap d1 n) = ''bpmn:ExtensionElements'' \<and> k = ''values'' \<or>
        nlist (heap d3 n) k = nlist (heap d1 n) k" if "ntype (heap d1 n) \<notin> K"
    using a(6) [OF n that, of k] b(6) [OF n2, of k] a(2) [OF n] that by auto
qed

subsection \<open>The primitive edits keep a document well-formed\<close>

lemma set_props_type:
  "ntype (foldl set_prop nd props) = ntype nd \<and> nsupers (foldl set_prop nd props) = nsupers nd"
proof (induction props arbitrary: nd)
  case Nil
  then show ?case by simp
next
  case (Cons kv props)
  obtain k v where kv: "kv = (k, v)" by (cases kv)
  have "ntype (set_prop nd kv) = ntype nd \<and> nsupers (set_prop nd kv) = nsupers nd"
    by (cases v) (simp_all add: kv)
  then show ?case using Cons.IH [of "set_prop nd kv"] by simp
qed

lemma upd_types:
  "(\<lambda>v. ntype (heap (element_updateModdleProperties d el n props) v)) = (\<lambda>v. ntype (heap d v))"
  "(\<lambda>v. nsupers (heap (element_updateModdleProperties d el n props) v)) =
   (\<lambda>v. nsupers (heap d v))"
  using set_props_type [of "heap d n" props]
  by (auto simp: element_updateModdleProperties_def)

lemma upd_type:
  "ntype (heap (element_updateModdleProperties d el n props) m) = ntype (heap d m)"
  "nsupers (heap (element_updateModdleProperties d el n props) m) = nsupers (heap d m)"
  using set_props_type [of "heap d n" props]
  by (auto simp: element_updateModdleProperties_def)

lemma create_heap_lt [simp]:
  "m < fresh d \<Longrightarrow> heap (fst (bpmnFactory_create d t attrs)) m = heap d m"
  by simp

lemma create_node:
  assumes "scalars attrs \<or> attrs = [(''values'', PList [])]"
  shows "ntype (heap (fst (bpmnFactory_create d t attrs)) (fresh d)) = t"
    and "nsupers (heap (fst (bpmnFactory_create d t attrs)) (fresh d)) = []"
    and "nref (heap (fst (bpmnFactory_create d t attrs)) (fresh d)) = (\<lambda>_. None)"
    and "nlist (heap (fst (bpmnFactory_create d t attrs)) (fresh d)) = (\<lambda>_. [])"
  using assms scalars_foldl [of attrs "empty_node t"]
  by (auto simp: bpmnFactory_create_def empty_node_def)

lemma list_ok_Nil [simp]: "list_ok ty t k []"
  by (simp add: list_ok_def)

lemma list_ok_cong:
  assumes "\<And>x. x \<in> set rs \<Longrightarrow> ty' x = ty x"
  shows "list_ok ty' t k rs = list_ok ty t k rs"
proof -
  have "filter (\<lambda>v. ty' v = s) rs = filter (\<lambda>v. ty v = s) rs" for s
    using assms by (intro filter_cong) auto
  then show ?thesis using assms by (simp add: list_ok_def)
qed

lemma typed_node_frame:
  assumes t: "typed_node d n" and n: "n < fresh d" and f: "fresh d \<le> fresh d'"
      and ty: "\<And>m. m < fresh d \<Longrightarrow> ntype (heap d' m) = ntype (heap d m)"
      and same: "nsupers (heap d' n) = nsupers (heap d n)" "nref (heap d' n) = nref (heap d n)"
        "nlist (heap d' n) = nlist (heap d n)"
  shows "typed_node d' n"
proof -
  have r: "x < fresh d' \<and> ref_ok (\<lambda>v. ntype (heap d' v)) k x"
    if "nref (heap d n) k = Some x" for k x
    using typed_ref [OF t that] f ty by (auto simp: ref_ok_def)
  have l: "(\<forall>x\<in>set (nlist (heap d n) k). x < fresh d') \<and>
           list_ok (\<lambda>v. ntype (heap d' v)) (ntype (heap d n)) k (nlist (heap d n) k)" for k
  proof -
    have b: "\<forall>x\<in>set (nlist (heap d n) k). x < fresh d" using typed_list(1) [OF t] by blast
    have "list_ok (\<lambda>v. ntype (heap d' v)) (ntype (heap d n)) k (nlist (heap d n) k) =
          list_ok (\<lambda>v. ntype (heap d v)) (ntype (heap d n)) k (nlist (heap d n) k)"
      by (rule list_ok_cong) (use b ty in auto)
    then show ?thesis using typed_list(2) [OF t] b f by auto
  qed
  show ?thesis
    unfolding typed_node_def same ty [OF n]
    using t r l by (auto simp: typed_node_def)
qed

lemma wf_create:
  assumes wf: "wf_doc d e" and a: "scalars attrs \<or> attrs = [(''values'', PList [])]"
  shows "wf_doc (fst (bpmnFactory_create d t attrs)) e"
proof -
  let ?d = "fst (bpmnFactory_create d t attrs)"
  have old: "heap ?d m = heap d m" if "m < fresh d" for m using that by simp
  have "typed_node ?d n" if "n < fresh ?d" for n
  proof (cases "n = fresh d")
    case True
    show ?thesis unfolding True typed_node_def by (simp add: create_node [OF a])
  next
    case False
    then have n: "n < fresh d" using that by simp
    show ?thesis
      by (rule typed_node_frame [OF wf_docD(3) [OF wf n] n]) (simp_all add: old n)
  qed
  then show ?thesis using wf by (simp add: wf_doc_def)
qed

lemma touches_create:
  assumes wf: "wf_doc d e"
  shows "touches K d (fst (bpmnFactory_create d t attrs))"
proof -
  have "filter (\<lambda>v. ntype (heap (fst (bpmnFactory_create d t attrs)) v) \<notin> K)
          (nlist (heap d n) ''values'') =
        filter (\<lambda>v. ntype (heap d v) \<notin> K) (nlist (heap d n) ''values'')" if "n < fresh d" for n
    using typed_list(1) [OF wf_docD(3) [OF wf that]]
    by (intro filter_cong) auto
  then show ?thesis by (simp add: touches_def)
qed

lemma wf_upd_list:
  assumes wf: "wf_doc d e" and n: "n < fresh d"
      and b: "\<forall>x\<in>set rs. x < fresh d"
      and ok: "list_ok (\<lambda>v. ntype (heap d v)) (ntype (heap d n)) k rs"
  shows "wf_doc (element_updateModdleProperties d el n [(k, PList rs)]) e"
proof -
  let ?d = "element_updateModdleProperties d el n [(k, PList rs)]"
  have ty: "ntype (heap ?d m) = ntype (heap d m)" for m by (rule upd_type)
  have "typed_node ?d m" if m: "m < fresh ?d" for m
  proof (cases "m = n")
    case False
    have m': "m < fresh d" using m by simp
    show ?thesis
      by (rule typed_node_frame [OF wf_docD(3) [OF wf m'] m']) (simp_all add: ty False)
  next
    case True
    note t = wf_docD(3) [OF wf n]
    have same: "nsupers (heap ?d n) = nsupers (heap d n)" "nref (heap ?d n) = nref (heap d n)"
      by (simp_all add: element_updateModdleProperties_def)
    have l: "(\<forall>x\<in>set (nlist (heap ?d n) k'). x < fresh d) \<and>
             list_ok (\<lambda>v. ntype (heap d v)) (ntype (heap d n)) k' (nlist (heap ?d n) k')" for k'
      using typed_list(1) [OF t, of _ k'] typed_list(2) [OF t, of k'] b ok
      by (cases "k' = k") (auto simp: element_updateModdleProperties_def)
    show ?thesis
      unfolding True typed_node_def upd_types same ty
      using t l by (auto simp: typed_node_def)
  qed
  then show ?thesis unfolding wf_doc_def ty using wf by (simp add: wf_doc_def)
qed

lemma wf_upd_ref:
  assumes wf: "wf_doc d e" and n: "n < fresh d" and x: "x < fresh d"
      and ok: "ref_ok (\<lambda>v. ntype (heap d v)) k x"
  shows "wf_doc (element_updateModdleProperties d el n [(k, PRef (Some x))]) e"
proof -
  let ?d = "element_updateModdleProperties d el n [(k, PRef (Some x))]"
  have ty: "ntype (heap ?d m) = ntype (heap d m)" for m by (rule upd_type)
  have "typed_node ?d m" if m: "m < fresh ?d" for m
  proof (cases "m = n")
    case False
    have m': "m < fresh d" using m by simp
    show ?thesis
      by (rule typed_node_frame [OF wf_docD(3) [OF wf m'] m']) (simp_all add: ty False)
  next
    case True
    note t = wf_docD(3) [OF wf n]
    have r: "x' < fresh d \<and> ref_ok (\<lambda>v. ntype (heap d v)) k' x'"
      if "nref (heap ?d n) k' = Some x'" for k' x'
      using that typed_ref [OF t, of k' x'] x ok
      by (cases "k' = k") (auto simp: element_updateModdleProperties_def)
    have same: "nsupers (heap ?d n) = nsupers (heap d n)" "nlist (heap ?d n) = nlist (heap d n)"
      by (simp_all add: element_updateModdleProperties_def)
    show ?thesis
      unfolding True typed_node_def upd_types same ty
      using t r by (auto simp: typed_node_def)
  qed
  then show ?thesis unfolding wf_doc_def ty using wf by (simp add: wf_doc_def)
qed

subsection \<open>What the primitive edits touch\<close>

lemma touches_upd_scalars:
  assumes "scalars props" and "ntype (heap d n) \<in> K"
  shows "touches K d (element_updateModdleProperties d el n props)"
  unfolding touches_def upd_types upd_type
  using scalars_foldl [OF assms(1), of "heap d n"] assms(2)
  by (auto simp: element_updateModdleProperties_def)

lemma touches_upd_holder:
  assumes "ntype (heap d n) \<in> K" and "ntype (heap d n) \<noteq> ''bpmn:ExtensionElements''"
  shows "touches K d (element_updateModdleProperties d el n [(k, PList rs)])"
  unfolding touches_def upd_types upd_type
  using assms by (auto simp: element_updateModdleProperties_def)

lemma touches_upd_container:
  assumes "ntype (heap d n) = ''bpmn:ExtensionElements''"
      and "filter (\<lambda>v. ntype (heap d v) \<notin> K) rs =
           filter (\<lambda>v. ntype (heap d v) \<notin> K) (nlist (heap d n) ''values'')"
  shows "touches K d (element_updateModdleProperties d el n [(''values'', PList rs)])"
  unfolding touches_def upd_types upd_type
  using assms by (auto simp: element_updateModdleProperties_def)

lemma touches_upd_container_ref:
  assumes "nref (heap d n) ''extensionElements'' = None"
  shows "touches K d (element_updateModdleProperties d el n [(''extensionElements'', PRef r)])"
  unfolding touches_def upd_types upd_type
  using assms by (auto simp: element_updateModdleProperties_def)

lemma touches_upd_message_ref:
  assumes "''bpmn:Message'' \<in> K"
  shows "touches K d (element_updateModdleProperties d el n [(''messageRef'', PRef r)])"
  unfolding touches_def upd_types upd_type
  using assms by (auto simp: element_updateModdleProperties_def)

subsection \<open>Containers and holders of a well-formed document\<close>

lemma reserved_simps [simp]:
  "''bpmn:ExtensionElements'' \<in> set reserved" "''bpmn:Message'' \<in> set reserved"
  "''zeebe:TaskDefinition'' \<in> set reserved" "''zeebe:IoMapping'' \<in> set reserved"
  "''zeebe:Input'' \<in> set reserved" "''zeebe:Output'' \<in> set reserved"
  "''zeebe:TaskHeaders'' \<in> set reserved" "''zeebe:Header'' \<in> set reserved"
  "''zeebe:Properties'' \<in> set reserved" "''zeebe:Property'' \<in> set reserved"
  "''zeebe:CalledElement'' \<in> set reserved" "''zeebe:Subscription'' \<in> set reserved"
  by (simp_all add: reserved_def)

lemma js_of_inj [simp]: "js_of a = js_of b \<longleftrightarrow> a = b"
  by (cases a; cases b) auto

lemma container_facts:
  assumes wf: "wf_doc d e" and n: "n < fresh d"
      and ee: "nref (heap d n) ''extensionElements'' = Some ee"
  shows "ee < fresh d" "ntype (heap d ee) = ''bpmn:ExtensionElements''" "typed_node d ee"
    "is_a d ee ''bpmn:ExtensionElements''" "ee \<noteq> e"
proof -
  note t = wf_docD(3) [OF wf n]
  show 1: "ee < fresh d" using typed_ref(1) [OF t ee] .
  show 2: "ntype (heap d ee) = ''bpmn:ExtensionElements''"
    using typed_ref(2) [OF t ee] by (simp add: ref_ok_def)
  show "typed_node d ee" using wf_docD(3) [OF wf 1] .
  show "is_a d ee ''bpmn:ExtensionElements''" using 2 by (simp add: is_a_def)
  show "ee \<noteq> e" using 2 wf_docD(2) [OF wf] by auto
qed

lemma findExtension_container:
  "is_a d ee ''bpmn:ExtensionElements'' \<Longrightarrow>
   findExtension d ee t = find (\<lambda>v. is_a d v t) (nlist (heap d ee) ''values'')"
  by (simp add: findExtension_def)

lemma findExtension_facts:
  assumes wf: "wf_doc d e" and ee: "ee < fresh d"
      and ty: "ntype (heap d ee) = ''bpmn:ExtensionElements''"
      and t: "t \<in> set reserved" and f: "findExtension d ee t = Some h"
  shows "h < fresh d" "ntype (heap d h) = t" "h \<in> set (nlist (heap d ee) ''values'')"
    "typed_node d h"
proof -
  have c: "is_a d ee ''bpmn:ExtensionElements''" using ty by (simp add: is_a_def)
  have "is_a d h t \<and> h \<in> set (nlist (heap d ee) ''values'')"
    using f find_SomeD unfolding findExtension_container [OF c] by fast
  then have a: "is_a d h t" and m: "h \<in> set (nlist (heap d ee) ''values'')" by simp_all
  show 1: "h < fresh d" using typed_list(1) [OF wf_docD(3) [OF wf ee] m] .
  show 2: "typed_node d h" using wf_docD(3) [OF wf 1] .
  show "ntype (heap d h) = t" using typed_is_a [OF 2 t] a by simp
  show "h \<in> set (nlist (heap d ee) ''values'')" using m .
qed

lemma find_filter_singleton: "filter P xs = [x] \<Longrightarrow> find P xs = Some x"
proof (induction xs)
  case Nil
  then show ?case by simp
next
  case (Cons y ys)
  then show ?case by (cases "P y") auto
qed

lemma find_filter_keep:
  "find P xs = Some x \<Longrightarrow> Q x \<Longrightarrow> find P (filter Q xs) = Some x"
  by (induction xs) (auto split: if_splits)

lemma find_filter_none:
  "find P xs = None \<Longrightarrow> find P (filter Q xs) = None"
  by (induction xs) (auto split: if_splits)

lemma find_append_new:
  "find P (xs @ [y]) = (case find P xs of Some x \<Rightarrow> Some x | None \<Rightarrow> if P y then Some y else None)"
  by (induction xs) auto

lemma find_impl_filter:
  "(\<And>x. x \<in> set xs \<Longrightarrow> P x \<Longrightarrow> Q x) \<Longrightarrow> find P (filter Q xs) = find P xs"
  by (induction xs) auto

subsection \<open>Entries of the mapping holder\<close>

lemma io_entries:
  assumes wf: "wf_doc d e" and io: "io < fresh d" and ty: "ntype (heap d io) = ''zeebe:IoMapping''"
  shows "distinct (nlist (heap d io) ''inputParameters'')"
    and "distinct (nlist (heap d io) ''outputParameters'')"
    and "x \<in> set (nlist (heap d io) ''inputParameters'') \<Longrightarrow>
           x < fresh d \<and> ntype (heap d x) = ''zeebe:Input'' \<and> is_a d x ''zeebe:Input''"
    and "x \<in> set (nlist (heap d io) ''outputParameters'') \<Longrightarrow>
           x < fresh d \<and> ntype (heap d x) = ''zeebe:Output'' \<and> \<not> is_a d x ''zeebe:Input''"
proof -
  note t = wf_docD(3) [OF wf io]
  have i: "list_ok (\<lambda>v. ntype (heap d v)) ''zeebe:IoMapping'' ''inputParameters''
             (nlist (heap d io) ''inputParameters'')"
    and o: "list_ok (\<lambda>v. ntype (heap d v)) ''zeebe:IoMapping'' ''outputParameters''
             (nlist (heap d io) ''outputParameters'')"
    using typed_list(2) [OF t] ty by metis+
  show "distinct (nlist (heap d io) ''inputParameters'')" using i by (simp add: list_ok_def)
  show "distinct (nlist (heap d io) ''outputParameters'')" using o by (simp add: list_ok_def)
  show "x < fresh d \<and> ntype (heap d x) = ''zeebe:Input'' \<and> is_a d x ''zeebe:Input''"
    if "x \<in> set (nlist (heap d io) ''inputParameters'')"
    using that typed_list(1) [OF t that] i by (auto simp: list_ok_def is_a_def)
  show "x < fresh d \<and> ntype (heap d x) = ''zeebe:Output'' \<and> \<not> is_a d x ''zeebe:Input''"
    if "x \<in> set (nlist (heap d io) ''outputParameters'')"
  proof -
    have b: "x < fresh d" using typed_list(1) [OF t that] .
    have ty: "ntype (heap d x) = ''zeebe:Output''" using that o by (auto simp: list_ok_def)
    have "\<not> is_a d x ''zeebe:Input''"
      using typed_is_a [OF wf_docD(3) [OF wf b], of "''zeebe:Input''"] ty by simp
    then show ?thesis using b ty by simp
  qed
qed

subsection \<open>Edits that leave the shape of the document alone\<close>

lemma is_a_upd [simp]: "is_a (element_updateModdleProperties d el n props) = is_a d"
  by (intro ext) (simp only: is_a_def upd_type)

lemma is_a_create [simp]:
  "m < fresh d \<Longrightarrow> is_a (fst (bpmnFactory_create d t attrs)) m = is_a d m"
  by (intro ext) (simp add: is_a_def)

lemma findExtension_frame:
  assumes "ntype (heap d ee) = ''bpmn:ExtensionElements''"
      and "heap d' ee = heap d ee"
      and "\<And>v. v \<in> set (nlist (heap d ee) ''values'') \<Longrightarrow> is_a d' v t = is_a d v t"
  shows "findExtension d' ee t = findExtension d ee t"
proof -
  have c: "is_a d ee ''bpmn:ExtensionElements''" "is_a d' ee ''bpmn:ExtensionElements''"
    using assms(1,2) by (simp_all add: is_a_def)
  show ?thesis
    unfolding findExtension_container [OF c(1)] findExtension_container [OF c(2)] assms(2)
    using assms(3) by (intro find_cong) auto
qed

lemma io_ctx_facts:
  assumes "io_ctx d e ee io"
  shows "wf_doc d e" "nref (heap d e) ''extensionElements'' = Some ee"
    "findExtension d ee ''zeebe:IoMapping'' = Some io"
    "e < fresh d" "ee < fresh d" "ntype (heap d ee) = ''bpmn:ExtensionElements''"
    "io < fresh d" "ntype (heap d io) = ''zeebe:IoMapping''" "io \<noteq> ee" "io \<noteq> e" "ee \<noteq> e"
proof -
  show wf: "wf_doc d e" and ee: "nref (heap d e) ''extensionElements'' = Some ee"
    and f: "findExtension d ee ''zeebe:IoMapping'' = Some io"
    using assms by (simp_all add: io_ctx_def)
  show e: "e < fresh d" using wf_docD(1) [OF wf] .
  note c = container_facts [OF wf e ee]
  show "ee < fresh d" "ntype (heap d ee) = ''bpmn:ExtensionElements''" "ee \<noteq> e"
    using c by simp_all
  note h = findExtension_facts [OF wf c(1) c(2) _ f]
  show "io < fresh d" "ntype (heap d io) = ''zeebe:IoMapping''" using h by simp_all
  show "io \<noteq> ee" using h(2) c(2) by auto
  show "io \<noteq> e" using h(2) wf_docD(2) [OF wf] by auto
qed

text \<open>The entry that a mapping property finds is an entry of the holder, of the right kind.\<close>

lemma io_found:
  assumes ctx: "io_ctx d e ee io" and f: "findBusinessObject d ee q = Some x"
  shows "btype (pbinding q) = ''zeebe:input'' \<Longrightarrow>
           x \<in> set (nlist (heap d io) ''inputParameters'') \<and>
           nscal (heap d x) ''target'' = js_of (bname (pbinding q)) \<and>
           find (\<lambda>i. nscal (heap d i) ''target'' = js_of (bname (pbinding q)))
             (nlist (heap d io) ''inputParameters'') = Some x \<and>
           x < fresh d \<and> ntype (heap d x) = ''zeebe:Input'' \<and> is_a d x ''zeebe:Input''"
    and "btype (pbinding q) = ''zeebe:output'' \<Longrightarrow>
           x \<in> set (nlist (heap d io) ''outputParameters'') \<and>
           nscal (heap d x) ''source'' = js_of (bsource (pbinding q)) \<and>
           find (\<lambda>i. nscal (heap d i) ''source'' = js_of (bsource (pbinding q)))
             (nlist (heap d io) ''outputParameters'') = Some x \<and>
           x < fresh d \<and> ntype (heap d x) = ''zeebe:Output'' \<and> \<not> is_a d x ''zeebe:Input''"
proof -
  note c = io_ctx_facts [OF ctx]
  note en = io_entries [OF c(1) c(7) c(8)]
  {
    assume k: "btype (pbinding q) = ''zeebe:input''"
    have fi: "find (\<lambda>i. nscal (heap d i) ''target'' = js_of (bname (pbinding q)))
               (nlist (heap d io) ''inputParameters'') = Some x"
      using f unfolding findBusinessObject_input [OF k] c(3) by simp
    then show "x \<in> set (nlist (heap d io) ''inputParameters'') \<and>
           nscal (heap d x) ''target'' = js_of (bname (pbinding q)) \<and>
           find (\<lambda>i. nscal (heap d i) ''target'' = js_of (bname (pbinding q)))
             (nlist (heap d io) ''inputParameters'') = Some x \<and>
           x < fresh d \<and> ntype (heap d x) = ''zeebe:Input'' \<and> is_a d x ''zeebe:Input''"
      using find_SomeD [OF fi] en(3) [of x] by simp
  next
    assume k: "btype (pbinding q) = ''zeebe:output''"
    have fi: "find (\<lambda>i. nscal (heap d i) ''source'' = js_of (bsource (pbinding q)))
               (nlist (heap d io) ''outputParameters'') = Some x"
      using f unfolding findBusinessObject_output [OF k] c(3) by simp
    then show "x \<in> set (nlist (heap d io) ''outputParameters'') \<and>
           nscal (heap d x) ''source'' = js_of (bsource (pbinding q)) \<and>
           find (\<lambda>i. nscal (heap d i) ''source'' = js_of (bsource (pbinding q)))
             (nlist (heap d io) ''outputParameters'') = Some x \<and>
           x < fresh d \<and> ntype (heap d x) = ''zeebe:Output'' \<and> \<not> is_a d x ''zeebe:Input''"
      using find_SomeD [OF fi] en(4) [of x] by simp
  }
qed

subsection \<open>The three cases of one step of the mapping loop\<close>

lemma io_each_found_case:
  assumes ctx: "io_ctx d e ee io"
      and k: "btype (pbinding q) = ''zeebe:input'' \<or> btype (pbinding q) = ''zeebe:output''"
      and f: "findBusinessObject d ee q = Some x"
  shows "updateZeebeInputOutputParameterProperties_each el old ee io (d, oi, oo) q =
           (if shouldKeepValue d (Some x) (findOldProperty old q) q then d
            else element_updateModdleProperties d el x [(io_slot q, PScalar (getDefaultValue q))],
            if shouldUpdate (getDefaultValue q) q \<or>
               shouldKeepValue d (Some x) (findOldProperty old q) q
            then (if btype (pbinding q) = ''zeebe:input'' then (remove_arr oi x, oo)
                  else (oi, remove_arr oo x))
            else (oi, oo))"
proof -
  have "is_a d x ''zeebe:Input'' \<longleftrightarrow> btype (pbinding q) = ''zeebe:input''"
    using io_found [OF ctx f] k by auto
  then show ?thesis
    using f by (simp add: updateZeebeInputOutputParameterProperties_each_def Let_def io_slot_def)
qed

lemma io_each_create_case:
  assumes ctx: "io_ctx d e ee io"
      and f: "findBusinessObject d ee q = None" and u: "shouldUpdate (getDefaultValue q) q"
  shows "updateZeebeInputOutputParameterProperties_each el old ee io (d, oi, oo) q =
           (element_updateModdleProperties (io_new d q) el io
              [(io_field q, PList (nlist (heap d io) (io_field q) @ [fresh d]))], oi, oo)"
proof -
  have io: "io < fresh d" using io_ctx_facts(7) [OF ctx] .
  show ?thesis
    using f u io
    by (simp add: updateZeebeInputOutputParameterProperties_each_def Let_def io_field_def
          io_new_def createInputParameter_def createOutputParameter_def split_beta)
qed

lemma io_each_skip_case:
  assumes f: "findBusinessObject d ee q = None" and u: "\<not> shouldUpdate (getDefaultValue q) q"
  shows "updateZeebeInputOutputParameterProperties_each el old ee io (d, oi, oo) q = (d, oi, oo)"
  using f u by (simp add: updateZeebeInputOutputParameterProperties_each_def Let_def)

subsection \<open>Appending a new node to a list\<close>

lemma wf_append_new:
  assumes wf: "wf_doc d e" and h: "h < fresh d"
      and a: "scalars attrs \<or> attrs = [(''values'', PList [])]"
      and ok: "list_ok (\<lambda>v. if v = fresh d then t else ntype (heap d v)) (ntype (heap d h)) f
                 (nlist (heap d h) f @ [fresh d])"
  shows "wf_doc (element_updateModdleProperties (fst (bpmnFactory_create d t attrs)) el h
                   [(f, PList (nlist (heap d h) f @ [fresh d]))]) e"
proof -
  let ?d1 = "fst (bpmnFactory_create d t attrs)"
  have wf1: "wf_doc ?d1 e" using wf_create [OF wf a] .
  have ty: "ntype (heap ?d1 v) = (if v = fresh d then t else ntype (heap d v))" for v
    using create_node(1) [OF a, of d t] by simp
  have b: "\<forall>x\<in>set (nlist (heap d h) f @ [fresh d]). x < fresh ?d1"
    using typed_list(1) [OF wf_docD(3) [OF wf h], of _ f] by (auto simp: less_Suc_eq)
  have "list_ok (\<lambda>v. ntype (heap ?d1 v)) (ntype (heap ?d1 h)) f (nlist (heap d h) f @ [fresh d])"
    using ok h unfolding ty by simp
  then show ?thesis
    using wf_upd_list [OF wf1 _ b, of h f el] h by simp
qed

lemma touches_append_new:
  assumes wf: "wf_doc d e" and h: "h < fresh d"
      and k: "ntype (heap d h) \<in> K" and ne: "ntype (heap d h) \<noteq> ''bpmn:ExtensionElements''"
  shows "touches K d (element_updateModdleProperties (fst (bpmnFactory_create d t attrs)) el h
                        [(f, PList rs)])"
proof -
  let ?d1 = "fst (bpmnFactory_create d t attrs)"
  have "touches K ?d1 (element_updateModdleProperties ?d1 el h [(f, PList rs)])"
    by (rule touches_upd_holder) (use h k ne in simp_all)
  then show ?thesis using touches_create [OF wf, of K t attrs] touches_trans by blast
qed

lemma findExtension_upd_other:
  assumes "ntype (heap d ee) = ''bpmn:ExtensionElements''" and "n \<noteq> ee"
  shows "findExtension (element_updateModdleProperties d el n props) ee t = findExtension d ee t"
  using assms by (intro findExtension_frame) simp_all

lemma findExtension_create:
  assumes wf: "wf_doc d e" and ee: "ee < fresh d"
      and ty: "ntype (heap d ee) = ''bpmn:ExtensionElements''"
  shows "findExtension (fst (bpmnFactory_create d t attrs)) ee t' = findExtension d ee t'"
proof (rule findExtension_frame [OF ty])
  show "heap (fst (bpmnFactory_create d t attrs)) ee = heap d ee" using ee by simp
  fix v assume "v \<in> set (nlist (heap d ee) ''values'')"
  then have "v < fresh d" using typed_list(1) [OF wf_docD(3) [OF wf ee]] by blast
  then show "is_a (fst (bpmnFactory_create d t attrs)) v t' = is_a d v t'" by simp
qed

subsection \<open>One step of the mapping loop keeps the holder in place\<close>

lemma io_new_eq:
  "io_new d q = fst (bpmnFactory_create d
     (if btype (pbinding q) = ''zeebe:input'' then ''zeebe:Input'' else ''zeebe:Output'')
     (if btype (pbinding q) = ''zeebe:input''
      then [(''source'', PScalar (getDefaultValue q)),
            (''target'', PScalar (js_of (bname (pbinding q))))]
      else [(''source'', PScalar (js_of (bsource (pbinding q)))),
            (''target'', PScalar (getDefaultValue q))]))"
  by (simp add: io_new_def createInputParameter_def createOutputParameter_def)

lemma io_step_ctx:
  assumes ctx: "io_ctx d e ee io"
      and k: "btype (pbinding q) = ''zeebe:input'' \<or> btype (pbinding q) = ''zeebe:output''"
  shows "io_ctx (fst (updateZeebeInputOutputParameterProperties_each el old ee io (d, oi, oo) q))
           e ee io"
    and "touches {''zeebe:IoMapping'', ''zeebe:Input'', ''zeebe:Output''} d
           (fst (updateZeebeInputOutputParameterProperties_each el old ee io (d, oi, oo) q))"
proof -
  let ?K = "{''zeebe:IoMapping'', ''zeebe:Input'', ''zeebe:Output''}"
  let ?r = "updateZeebeInputOutputParameterProperties_each el old ee io (d, oi, oo) q"
  note c = io_ctx_facts [OF ctx]
  have "io_ctx (fst ?r) e ee io \<and> touches ?K d (fst ?r)"
  proof (cases "findBusinessObject d ee q")
    case (Some x)
    let ?d = "element_updateModdleProperties d el x [(io_slot q, PScalar (getDefaultValue q))]"
    have x: "x < fresh d" "ntype (heap d x) \<in> ?K" "x \<noteq> ee" "x \<noteq> e"
      using io_found [OF ctx Some] k c(6) wf_docD(2) [OF c(1)] by auto
    have "wf_doc ?d e" using c(1) by (simp add: wf_upd_scalars)
    moreover have "nref (heap ?d e) ''extensionElements'' = Some ee" using c(2) x(4) by simp
    moreover have "findExtension ?d ee ''zeebe:IoMapping'' = Some io"
      using findExtension_upd_other [OF c(6) x(3)] c(3) by simp
    moreover have "touches ?K d ?d" by (rule touches_upd_scalars) (use x in simp_all)
    ultimately show ?thesis
      using ctx by (simp add: io_each_found_case [OF ctx k Some] io_ctx_def)
  next
    case None
    show ?thesis
    proof (cases "shouldUpdate (getDefaultValue q) q")
      case False
      then show ?thesis using ctx by (simp add: io_each_skip_case [OF None])
    next
      case True
      let ?t = "if btype (pbinding q) = ''zeebe:input'' then ''zeebe:Input'' else ''zeebe:Output''"
      let ?a = "if btype (pbinding q) = ''zeebe:input''
                then [(''source'', PScalar (getDefaultValue q)),
                      (''target'', PScalar (js_of (bname (pbinding q))))]
                else [(''source'', PScalar (js_of (bsource (pbinding q)))),
                      (''target'', PScalar (getDefaultValue q))]"
      let ?d1 = "fst (bpmnFactory_create d ?t ?a)"
      let ?d = "element_updateModdleProperties ?d1 el io
                  [(io_field q, PList (nlist (heap d io) (io_field q) @ [fresh d]))]"
      have r: "fst ?r = ?d"
        by (simp add: io_each_create_case [OF ctx None True] io_new_eq)
      have sc: "scalars ?a \<or> ?a = [(''values'', PList [])]" by simp
      note en = io_entries [OF c(1) c(7) c(8)]
      have ok: "list_ok (\<lambda>v. if v = fresh d then ?t else ntype (heap d v)) (ntype (heap d io))
                  (io_field q) (nlist (heap d io) (io_field q) @ [fresh d])"
        using en(1,2) en(3) en(4) k
        by (auto simp: list_ok_def io_field_def c(8))
      have wf: "wf_doc ?d e" by (rule wf_append_new [OF c(1) c(7) sc ok])
      have ref: "nref (heap ?d e) ''extensionElements'' = Some ee"
        using c(2) c(4) c(10) by simp
      have "findExtension ?d ee ''zeebe:IoMapping'' = findExtension ?d1 ee ''zeebe:IoMapping''"
        by (rule findExtension_upd_other) (use c in simp_all)
      then have fe: "findExtension ?d ee ''zeebe:IoMapping'' = Some io"
        using findExtension_create [OF c(1) c(5) c(6)] c(3) by simp
      have "touches ?K d ?d"
        by (rule touches_append_new [OF c(1) c(7)]) (simp_all add: c(8))
      then show ?thesis using wf ref fe by (simp add: r io_ctx_def)
    qed
  qed
  then show "io_ctx (fst ?r) e ee io" and "touches ?K d (fst ?r)" by simp_all
qed

subsection \<open>One entry through the mapping reconciler\<close>

lemmas io_defs = io_keyf_def io_key_def io_type_def io_kind_def io_slot_def io_field_def

lemma io_find:
  assumes ctx: "io_ctx d e ee io" and k: "io_kind q"
  shows "findBusinessObject d ee q =
           find (\<lambda>i. nscal (heap d i) (io_keyf q) = io_key q) (nlist (heap d io) (io_field q))"
  using k io_ctx_facts(3) [OF ctx]
  by (auto simp: io_defs findBusinessObject_input findBusinessObject_output)

lemma io_list:
  assumes ctx: "io_ctx d e ee io" and k: "io_kind q"
      and x: "x \<in> set (nlist (heap d io) (io_field q))"
  shows "x < fresh d" "ntype (heap d x) = io_type q" "x \<noteq> io" "x \<noteq> ee" "x \<noteq> e"
proof -
  note c = io_ctx_facts [OF ctx]
  note en = io_entries [OF c(1) c(7) c(8)]
  show 1: "x < fresh d" and 2: "ntype (heap d x) = io_type q"
    using en(3) [of x] en(4) [of x] x k by (auto simp: io_defs)
  show "x \<noteq> io" "x \<noteq> ee" "x \<noteq> e"
    using 2 c(6,8) wf_docD(2) [OF c(1)] k by (auto simp: io_defs)
qed

lemma io_list_distinct:
  assumes ctx: "io_ctx d e ee io" and k: "io_kind q"
  shows "distinct (nlist (heap d io) (io_field q))"
  using io_entries(1,2) [OF io_ctx_facts(1) [OF ctx] io_ctx_facts(7) [OF ctx]
          io_ctx_facts(8) [OF ctx]] k
  by (auto simp: io_defs)

lemma tracks_facts:
  assumes ctx: "io_ctx d e ee io" and k: "io_kind p" and tr: "tracks d io p x"
  shows "x \<in> set (nlist (heap d io) (io_field p))"
    "nscal (heap d x) (io_keyf p) = io_key p" "x < fresh d" "ntype (heap d x) = io_type p"
    "findBusinessObject d ee p = Some x"
proof -
  have "x \<in> set (filter (\<lambda>i. nscal (heap d i) (io_keyf p) = io_key p)
                  (nlist (heap d io) (io_field p)))"
    using tr by (simp add: tracks_def)
  then show 1: "x \<in> set (nlist (heap d io) (io_field p))"
    and "nscal (heap d x) (io_keyf p) = io_key p" by simp_all
  show "x < fresh d" "ntype (heap d x) = io_type p" using io_list [OF ctx k 1] by simp_all
  show "findBusinessObject d ee p = Some x"
    unfolding io_find [OF ctx k] using tr by (intro find_filter_singleton) (simp add: tracks_def)
qed

lemma tracks_cong:
  assumes "nlist (heap d' io) (io_field p) = nlist (heap d io) (io_field p)"
      and "\<And>i. i \<in> set (nlist (heap d io) (io_field p)) \<Longrightarrow>
                nscal (heap d' i) (io_keyf p) = nscal (heap d i) (io_keyf p)"
  shows "tracks d' io p x = tracks d io p x"
proof -
  have "filter (\<lambda>i. nscal (heap d' i) (io_keyf p) = io_key p) (nlist (heap d io) (io_field p)) =
        filter (\<lambda>i. nscal (heap d i) (io_keyf p) = io_key p) (nlist (heap d io) (io_field p))"
    using assms(2) by (intro filter_cong) auto
  then show ?thesis by (simp add: tracks_def assms(1))
qed

lemma remove_arr_subset: "set (remove_arr xs x) \<subseteq> set xs"
  using set_remove1_subset [of x xs] by (auto simp: remove_arr_eq dest: in_set_butlastD)

lemma remove_arr_distinct': "distinct xs \<Longrightarrow> distinct (remove_arr xs x)"
  by (simp add: remove_arr_eq distinct_butlast)

lemma io_step_other:
  assumes ctx: "io_ctx d e ee io" and kq: "io_kind q" and kp: "io_kind p"
      and other: "\<not> (btype (pbinding q) = btype (pbinding p) \<and> io_key q = io_key p)"
      and tr: "tracks d io p x"
  shows "tracks (fst (updateZeebeInputOutputParameterProperties_each el old ee io (d, oi, oo) q))
           io p x"
    and "nscal (heap (fst (updateZeebeInputOutputParameterProperties_each el old ee io
                             (d, oi, oo) q)) x) = nscal (heap d x)"
    and "set (io_olds p (updateZeebeInputOutputParameterProperties_each el old ee io
                          (d, oi, oo) q)) \<subseteq> set (io_olds p (d, oi, oo))"
    and "distinct (io_olds p (d, oi, oo)) \<Longrightarrow>
         distinct (io_olds p (updateZeebeInputOutputParameterProperties_each el old ee io
                               (d, oi, oo) q))"
proof -
  let ?r = "updateZeebeInputOutputParameterProperties_each el old ee io (d, oi, oo) q"
  note c = io_ctx_facts [OF ctx]
  note t = tracks_facts [OF ctx kp tr]
  have kq': "btype (pbinding q) = ''zeebe:input'' \<or> btype (pbinding q) = ''zeebe:output''"
    using kq by (simp add: io_kind_def)
  have "tracks (fst ?r) io p x \<and> nscal (heap (fst ?r) x) = nscal (heap d x) \<and>
        set (io_olds p ?r) \<subseteq> set (io_olds p (d, oi, oo)) \<and>
        (distinct (io_olds p (d, oi, oo)) \<longrightarrow> distinct (io_olds p ?r))"
  proof (cases "findBusinessObject d ee q")
    case (Some y)
    let ?d = "element_updateModdleProperties d el y [(io_slot q, PScalar (getDefaultValue q))]"
    have fy: "find (\<lambda>i. nscal (heap d i) (io_keyf q) = io_key q) (nlist (heap d io) (io_field q))
                = Some y"
      using Some unfolding io_find [OF ctx kq] .
    have y: "y \<in> set (nlist (heap d io) (io_field q))" "nscal (heap d y) (io_keyf q) = io_key q"
      using find_SomeD [OF fy] by simp_all
    note ty = io_list [OF ctx kq y(1)]
    have kf: "nscal (heap ?d i) (io_keyf p) = nscal (heap d i) (io_keyf p)"
      if "i \<in> set (nlist (heap d io) (io_field p))" for i
    proof (cases "btype (pbinding q) = btype (pbinding p)")
      case True
      then have "io_slot q \<noteq> io_keyf p" using kq kp by (auto simp: io_defs)
      then show ?thesis by (simp add: element_updateModdleProperties_def)
    next
      case False
      then have "ntype (heap d y) \<noteq> ntype (heap d i)"
        using ty(2) io_list(2) [OF ctx kp that] kq kp by (auto simp: io_defs)
      then have "i \<noteq> y" by auto
      then show ?thesis by simp
    qed
    have yx: "y \<noteq> x"
    proof
      assume "y = x"
      then have "io_type q = io_type p" using ty(2) t(4) by simp
      then have same: "btype (pbinding q) = btype (pbinding p)"
        using kq kp by (auto simp: io_defs split: if_splits)
      then have "io_key q = io_key p" using y(2) t(2) \<open>y = x\<close> by (simp add: io_keyf_def)
      then show False using other same by simp
    qed
    have "tracks ?d io p x" using tr tracks_cong [of ?d io p d x] kf by simp
    moreover have "nscal (heap ?d x) = nscal (heap d x)" using yx by simp
    ultimately show ?thesis
      using tr remove_arr_subset [of oi y] remove_arr_subset [of oo y]
            remove_arr_distinct' [of oi y] remove_arr_distinct' [of oo y]
      by (auto simp: io_each_found_case [OF ctx kq' Some] io_olds_def)
  next
    case None
    show ?thesis
    proof (cases "shouldUpdate (getDefaultValue q) q")
      case False
      then show ?thesis using tr by (simp add: io_each_skip_case [OF None])
    next
      case True
      let ?d = "element_updateModdleProperties (io_new d q) el io
                  [(io_field q, PList (nlist (heap d io) (io_field q) @ [fresh d]))]"
      have r: "?r = (?d, oi, oo)" by (rule io_each_create_case [OF ctx None True])
      have old: "nscal (heap ?d i) = nscal (heap d i)" if "i < fresh d" for i
        using that by (simp add: io_new_eq)
      have oldl: "nscal (heap ?d i) = nscal (heap d i)"
        if "i \<in> set (nlist (heap d io) (io_field p))" for i
        using old io_list(1) [OF ctx kp that] by simp
      have cong: "filter (\<lambda>i. nscal (heap ?d i) (io_keyf p) = io_key p)
                    (nlist (heap d io) (io_field p)) =
                  filter (\<lambda>i. nscal (heap d i) (io_keyf p) = io_key p)
                    (nlist (heap d io) (io_field p))"
        using oldl by (intro filter_cong) auto
      have "tracks ?d io p x"
      proof (cases "btype (pbinding q) = btype (pbinding p)")
        case True
        then have fld: "io_field q = io_field p" and kf: "io_keyf q = io_keyf p"
          by (simp_all add: io_defs)
        have l: "nlist (heap ?d io) (io_field p) = nlist (heap d io) (io_field p) @ [fresh d]"
          by (simp add: fld)
        have "nscal (heap ?d (fresh d)) (io_keyf q) = io_key q"
          using c(7) kq
          by (auto simp: io_new_eq bpmnFactory_create_def empty_node_def io_defs)
        then have "nscal (heap ?d (fresh d)) (io_keyf p) \<noteq> io_key p"
          using other True kf by simp
        then show ?thesis using tr cong unfolding tracks_def l by simp
      next
        case False
        then have "io_field q \<noteq> io_field p" using kq kp by (auto simp: io_defs)
        then have l: "nlist (heap ?d io) (io_field p) = nlist (heap d io) (io_field p)"
          using c(7) by (simp add: io_new_eq)
        show ?thesis using tr cong unfolding tracks_def l by simp
      qed
      then show ?thesis using old [OF t(3)] by (simp add: r io_olds_def)
    qed
  qed
  then show "tracks (fst ?r) io p x" and "nscal (heap (fst ?r) x) = nscal (heap d x)"
    and "set (io_olds p ?r) \<subseteq> set (io_olds p (d, oi, oo))"
    and "distinct (io_olds p (d, oi, oo)) \<Longrightarrow> distinct (io_olds p ?r)"
    by simp_all
qed

lemma io_foldl_other:
  assumes "io_ctx d e ee io" and "io_kind p"
      and "\<forall>q\<in>set qs. io_kind q \<and>
             \<not> (btype (pbinding q) = btype (pbinding p) \<and> io_key q = io_key p)"
      and "tracks d io p x"
  shows "io_ctx (fst (foldl (updateZeebeInputOutputParameterProperties_each el old ee io)
                        (d, oi, oo) qs)) e ee io \<and>
         tracks (fst (foldl (updateZeebeInputOutputParameterProperties_each el old ee io)
                        (d, oi, oo) qs)) io p x \<and>
         nscal (heap (fst (foldl (updateZeebeInputOutputParameterProperties_each el old ee io)
                             (d, oi, oo) qs)) x) = nscal (heap d x) \<and>
         set (io_olds p (foldl (updateZeebeInputOutputParameterProperties_each el old ee io)
                          (d, oi, oo) qs)) \<subseteq> set (io_olds p (d, oi, oo)) \<and>
         (distinct (io_olds p (d, oi, oo)) \<longrightarrow>
          distinct (io_olds p (foldl (updateZeebeInputOutputParameterProperties_each el old ee io)
                                (d, oi, oo) qs)))"
  using assms
proof (induction qs arbitrary: d oi oo)
  case Nil
  then show ?case by simp
next
  case (Cons q qs)
  let ?F = "updateZeebeInputOutputParameterProperties_each el old ee io"
  let ?r = "?F (d, oi, oo) q"
  have kq: "io_kind q"
    and other: "\<not> (btype (pbinding q) = btype (pbinding p) \<and> io_key q = io_key p)"
    using Cons.prems(3) by simp_all
  have kq': "btype (pbinding q) = ''zeebe:input'' \<or> btype (pbinding q) = ''zeebe:output''"
    using kq by (simp add: io_kind_def)
  note s = io_step_other [OF Cons.prems(1) kq Cons.prems(2) other Cons.prems(4),
             where el = el and old = old and oi = oi and oo = oo]
  note c = io_step_ctx(1) [OF Cons.prems(1) kq', where el = el and old = old and oi = oi
             and oo = oo]
  have rest: "\<forall>q\<in>set qs. io_kind q \<and>
                \<not> (btype (pbinding q) = btype (pbinding p) \<and> io_key q = io_key p)"
    using Cons.prems(3) by simp
  have col: "(fst ?r, fst (snd ?r), snd (snd ?r)) = ?r" by simp
  note ih = Cons.IH [OF c Cons.prems(2) rest s(1), of "fst (snd ?r)" "snd (snd ?r)",
              unfolded col]
  have "foldl ?F (d, oi, oo) (q # qs) = foldl ?F ?r qs" by simp
  then show ?case using ih s(2,3,4) by auto
qed

lemma io_step_this:
  assumes ctx: "io_ctx d e ee io" and kp: "io_kind p"
      and tr: "tracks d io p x" and dis: "distinct (io_olds p (d, oi, oo))"
  shows "tracks (fst (updateZeebeInputOutputParameterProperties_each el old ee io (d, oi, oo) p))
           io p x"
    and "nscal (heap (fst (updateZeebeInputOutputParameterProperties_each el old ee io
                             (d, oi, oo) p)) x) (io_slot p) =
           (if shouldKeepValue d (Some x) (findOldProperty old p) p
            then nscal (heap d x) (io_slot p) else getDefaultValue p)"
    and "shouldUpdate (getDefaultValue p) p \<or>
         shouldKeepValue d (Some x) (findOldProperty old p) p \<Longrightarrow>
         x \<notin> set (io_olds p (updateZeebeInputOutputParameterProperties_each el old ee io
                               (d, oi, oo) p))"
    and "distinct (io_olds p (updateZeebeInputOutputParameterProperties_each el old ee io
                               (d, oi, oo) p))"
proof -
  let ?r = "updateZeebeInputOutputParameterProperties_each el old ee io (d, oi, oo) p"
  let ?d = "element_updateModdleProperties d el x [(io_slot p, PScalar (getDefaultValue p))]"
  note t = tracks_facts [OF ctx kp tr]
  have k: "btype (pbinding p) = ''zeebe:input'' \<or> btype (pbinding p) = ''zeebe:output''"
    using kp by (simp add: io_kind_def)
  note r = io_each_found_case [OF ctx k t(5), where el = el and old = old and oi = oi and oo = oo]
  have "io_slot p \<noteq> io_keyf p" by (simp add: io_defs)
  then have "tracks ?d io p x"
    using tr tracks_cong [of ?d io p d x]
    by (simp add: element_updateModdleProperties_def)
  then show "tracks (fst ?r) io p x" using tr by (simp add: r)
  show "nscal (heap (fst ?r) x) (io_slot p) =
           (if shouldKeepValue d (Some x) (findOldProperty old p) p
            then nscal (heap d x) (io_slot p) else getDefaultValue p)"
    by (simp add: r heap_upd_scal)
  show "x \<notin> set (io_olds p ?r)"
    if "shouldUpdate (getDefaultValue p) p \<or> shouldKeepValue d (Some x) (findOldProperty old p) p"
    using that dis remove_arr_distinct [of oi x] remove_arr_distinct [of oo x]
    by (auto simp: r io_olds_def)
  show "distinct (io_olds p ?r)"
    using dis remove_arr_distinct' [of oi x] remove_arr_distinct' [of oo x]
    by (auto simp: r io_olds_def)
qed

lemma getPropertyValue_scal:
  "nscal (heap d' n) = nscal (heap d n) \<Longrightarrow>
   getPropertyValue d' (Some n) p = getPropertyValue d (Some n) p"
  by (simp add: getPropertyValue_def Let_def)

lemma shouldKeepValue_scal:
  assumes "nscal (heap d' n) = nscal (heap d n)"
  shows "shouldKeepValue d' (Some n) old p = shouldKeepValue d (Some n) old p"
  unfolding shouldKeepValue_def propertyChanged_def getPropertyValue_scal [OF assms] ..

lemma list_cleanup_effect:
  "nlist (heap (list_cleanup el h f (d, olds)) h) f =
     filter (\<lambda>i. i \<notin> set olds) (nlist (heap d h) f)"
  "f' \<noteq> f \<Longrightarrow> nlist (heap (list_cleanup el h f (d, olds)) h) f' = nlist (heap d h) f'"
  "n \<noteq> h \<Longrightarrow> heap (list_cleanup el h f (d, olds)) n = heap d n"
  "nscal (heap (list_cleanup el h f (d, olds)) n) = nscal (heap d n)"
  "nref (heap (list_cleanup el h f (d, olds)) n) = nref (heap d n)"
  "ntype (heap (list_cleanup el h f (d, olds)) n) = ntype (heap d n)"
  "fresh (list_cleanup el h f (d, olds)) = fresh d"
  by (auto simp: list_cleanup_def withoutF_def element_updateModdleProperties_def)

lemma list_cleanup_is_a [simp]: "is_a (list_cleanup el h f (d, olds)) = is_a d"
  by (simp add: list_cleanup_def)

lemma list_cleanup_findExtension:
  assumes "ntype (heap d ee) = ''bpmn:ExtensionElements''" and "h \<noteq> ee"
  shows "findExtension (list_cleanup el h f (d, olds)) ee t = findExtension d ee t"
  using assms by (intro findExtension_frame) (simp_all add: list_cleanup_effect(3))

lemma io_cleanup_eq:
  "io_cleanup el io (d, oi, oo) =
     list_cleanup el io ''outputParameters''
       (list_cleanup el io ''inputParameters'' (d, oi), oo)"
  by (simp add: io_cleanup_def list_cleanup_def Let_def)

lemma io_cleanup_effect:
  assumes ctx: "io_ctx d e ee io" and kp: "io_kind p"
  shows "nlist (heap (io_cleanup el io (d, oi, oo)) io) (io_field p) =
           filter (\<lambda>i. i \<notin> set (io_olds p (d, oi, oo))) (nlist (heap d io) (io_field p))"
    and "nscal (heap (io_cleanup el io (d, oi, oo)) n) = nscal (heap d n)"
    and "findExtension (io_cleanup el io (d, oi, oo)) ee t = findExtension d ee t"
proof -
  note c = io_ctx_facts [OF ctx]
  show "nlist (heap (io_cleanup el io (d, oi, oo)) io) (io_field p) =
           filter (\<lambda>i. i \<notin> set (io_olds p (d, oi, oo))) (nlist (heap d io) (io_field p))"
    using kp unfolding io_cleanup_eq
    by (auto simp: io_olds_def io_defs list_cleanup_effect)
  show "nscal (heap (io_cleanup el io (d, oi, oo)) n) = nscal (heap d n)"
    unfolding io_cleanup_eq by (simp add: list_cleanup_effect)
  have "findExtension (io_cleanup el io (d, oi, oo)) ee t =
        findExtension (list_cleanup el io ''inputParameters'' (d, oi)) ee t"
    unfolding io_cleanup_eq
    by (rule list_cleanup_findExtension) (simp_all add: list_cleanup_effect c)
  then show "findExtension (io_cleanup el io (d, oi, oo)) ee t = findExtension d ee t"
    using list_cleanup_findExtension [OF c(6) c(9)] by simp
qed

lemma filter_split_other:
  assumes "filter P xs = [p]"
  shows "\<exists>ys zs. xs = ys @ p # zs \<and> (\<forall>y\<in>set ys. \<not> P y) \<and> (\<forall>z\<in>set zs. \<not> P z)"
  using assms
proof (induction xs)
  case Nil
  then show ?case by simp
next
  case (Cons x xs)
  show ?case
  proof (cases "P x")
    case True
    then have x: "x = p" and rest: "filter P xs = []" using Cons.prems by simp_all
    have "\<forall>z\<in>set xs. \<not> P z" using rest by (simp add: filter_empty_conv)
    then show ?thesis using x by (intro exI [of _ "[]"] exI [of _ xs]) simp
  next
    case False
    then obtain ys zs where "xs = ys @ p # zs" "\<forall>y\<in>set ys. \<not> P y" "\<forall>z\<in>set zs. \<not> P z"
      using Cons by auto
    then show ?thesis using False by (intro exI [of _ "x # ys"] exI [of _ zs]) simp
  qed
qed

text \<open>
  The entry of a mapping property through the whole reconciler: when the property is the
  only one of the new template with its identity key, the holder has exactly one entry
  with this key, and the entry is kept out of the cleanup, then after the reconciler the
  holder still has exactly this entry with the key, and the tracked slot of the entry
  holds the value that the loop body of the property decided on.
\<close>

lemma io_reconciler_entry:
  assumes wf: "wf_doc d e"
      and ee: "nref (heap d e) ''extensionElements'' = Some ee"
      and io: "findExtension d ee ''zeebe:IoMapping'' = Some io"
      and kp: "io_kind p"
      and one: "filter (\<lambda>q. btype (pbinding q) = btype (pbinding p) \<and> io_key q = io_key p)
                  (tproperties nt) = [p]"
      and tr: "tracks d io p x"
      and ret: "shouldUpdate (getDefaultValue p) p \<or>
                shouldKeepValue d (Some x) (findOldProperty old p) p"
  shows "findExtension (updateZeebeInputOutputParameterProperties d e old nt) ee
           ''zeebe:IoMapping'' = Some io"
    and "tracks (updateZeebeInputOutputParameterProperties d e old nt) io p x"
    and "nscal (heap (updateZeebeInputOutputParameterProperties d e old nt) x) (io_slot p) =
           (if shouldKeepValue d (Some x) (findOldProperty old p) p
            then nscal (heap d x) (io_slot p) else getDefaultValue p)"
proof -
  let ?F = "updateZeebeInputOutputParameterProperties_each e old ee io"
  let ?P = "\<lambda>q. btype (pbinding q) = btype (pbinding p) \<and> io_key q = io_key p"
  let ?oi = "nlist (heap d io) ''inputParameters''"
  let ?oo = "nlist (heap d io) ''outputParameters''"
  have ctx: "io_ctx d e ee io" using wf ee io by (simp add: io_ctx_def)
  have "filter ?P (io_properties nt) = [p]"
  proof -
    have "filter ?P (io_properties nt) = filter (\<lambda>q. io_kind q \<and> ?P q) (tproperties nt)"
      by (simp add: io_properties_def io_kind_def conj_commute)
    also have "\<dots> = filter ?P (tproperties nt)"
      using kp by (intro filter_cong) (auto simp: io_kind_def)
    finally show ?thesis using one by simp
  qed
  then obtain ys zs where split: "io_properties nt = ys @ p # zs"
    and ys: "\<forall>y\<in>set ys. \<not> ?P y" and zs: "\<forall>z\<in>set zs. \<not> ?P z"
    using filter_split_other [of ?P "io_properties nt" p] by blast
  have kinds: "\<forall>q\<in>set (io_properties nt). io_kind q"
    by (simp add: io_properties_def io_kind_def)
  have ys': "\<forall>q\<in>set ys. io_kind q \<and> \<not> ?P q" and zs': "\<forall>q\<in>set zs. io_kind q \<and> \<not> ?P q"
    using ys zs kinds split by auto
  have dis0: "distinct (io_olds p (d, ?oi, ?oo))"
    using io_entries(1,2) [OF wf io_ctx_facts(7) [OF ctx] io_ctx_facts(8) [OF ctx]]
    by (simp add: io_olds_def)
  define s1 where "s1 = foldl ?F (d, ?oi, ?oo) ys"
  have 1: "io_ctx (fst s1) e ee io" "tracks (fst s1) io p x"
    "nscal (heap (fst s1) x) = nscal (heap d x)" "distinct (io_olds p s1)"
    using io_foldl_other [OF ctx kp ys' tr, of e old ?oi ?oo] dis0 by (simp_all add: s1_def)
  define s2 where "s2 = ?F s1 p"
  have col1: "(fst s1, fst (snd s1), snd (snd s1)) = s1" by simp
  have dis1: "distinct (io_olds p (fst s1, fst (snd s1), snd (snd s1)))" using 1(4) by simp
  have keep: "shouldKeepValue (fst s1) (Some x) (findOldProperty old p) p
                = shouldKeepValue d (Some x) (findOldProperty old p) p"
    using 1(3) by (rule shouldKeepValue_scal)
  note t = io_step_this [OF 1(1) kp 1(2) dis1, where el = e and old = old, unfolded col1 keep,
             folded s2_def]
  have kp': "btype (pbinding p) = ''zeebe:input'' \<or> btype (pbinding p) = ''zeebe:output''"
    using kp by (simp add: io_kind_def)
  have 2: "io_ctx (fst s2) e ee io"
    using io_step_ctx(1) [OF 1(1) kp', of e old "fst (snd s1)" "snd (snd s1)"]
    by (simp add: s2_def)
  have slot2: "nscal (heap (fst s2) x) (io_slot p) =
                 (if shouldKeepValue d (Some x) (findOldProperty old p) p
                  then nscal (heap d x) (io_slot p) else getDefaultValue p)"
    using t(2) 1(3) by simp
  define s3 where "s3 = foldl ?F s2 zs"
  have col2: "(fst s2, fst (snd s2), snd (snd s2)) = s2" by simp
  have 3: "io_ctx (fst s3) e ee io" "tracks (fst s3) io p x"
    "nscal (heap (fst s3) x) = nscal (heap (fst s2) x)"
    "set (io_olds p s3) \<subseteq> set (io_olds p s2)"
    using io_foldl_other [OF 2 kp zs' t(1), of e old "fst (snd s2)" "snd (snd s2)"]
    by (simp_all add: s3_def)
  have x3: "x \<notin> set (io_olds p s3)" using t(3) [OF ret] 3(4) by auto
  have fold: "foldl ?F (d, ?oi, ?oo) (io_properties nt) = s3"
    by (simp add: split s3_def s2_def s1_def)
  have g: "getOrCreateExtensionElements d e (getBusinessObject e) = (d, ee)"
    using ee by (simp add: getOrCreate_present getBusinessObject_def)
  have ne: "io_properties nt \<noteq> []" using split by simp
  have res: "updateZeebeInputOutputParameterProperties d e old nt = io_cleanup e io s3"
    unfolding io_unfold [OF g] using io ne by (simp add: io_loop_def fold)
  have col3: "(fst s3, fst (snd s3), snd (snd s3)) = s3" by simp
  note cl = io_cleanup_effect [OF 3(1) kp, of e "fst (snd s3)" "snd (snd s3)", unfolded col3]
  show "findExtension (updateZeebeInputOutputParameterProperties d e old nt) ee
           ''zeebe:IoMapping'' = Some io"
    unfolding res cl(3) using io_ctx_facts(3) [OF 3(1)] .
  show "nscal (heap (updateZeebeInputOutputParameterProperties d e old nt) x) (io_slot p) =
           (if shouldKeepValue d (Some x) (findOldProperty old p) p
            then nscal (heap d x) (io_slot p) else getDefaultValue p)"
    unfolding res cl(2) using 3(3) slot2 by simp
  have "filter (\<lambda>i. nscal (heap (fst s3) i) (io_keyf p) = io_key p)
          (filter (\<lambda>i. i \<notin> set (io_olds p s3)) (nlist (heap (fst s3) io) (io_field p))) =
        filter (\<lambda>i. i \<notin> set (io_olds p s3))
          (filter (\<lambda>i. nscal (heap (fst s3) i) (io_keyf p) = io_key p)
             (nlist (heap (fst s3) io) (io_field p)))"
    by (simp add: conj_commute)
  also have "\<dots> = [x]" using 3(2) x3 by (simp add: tracks_def)
  finally show "tracks (updateZeebeInputOutputParameterProperties d e old nt) io p x"
    unfolding res tracks_def cl(1) cl(2) .
qed

lemma ex_mappings_wf: "wf_doc ex_mappings 0"
  unfolding wf_doc_def
  by (simp add: ex_mappings_def eval_nat_numeral All_less_Suc typed_node_def list_ok_def ref_ok_def reserved_def
        singletons_def empty_node_def)

section \<open>The claims\<close>

text \<open>
  C10. The helper \<open>remove(array, item)\<close>: \<open>indexOf\<close> gives -1 for an absent item, which
  \<open>isUndefined\<close> does not reject, so \<open>splice(-1, 1)\<close> deletes the last element of a
  non-empty array; for an item that is present the first occurrence is deleted.
\<close>

theorem remove_arr_absent_or_present:
  "(array \<noteq> [] \<and> item \<notin> set array \<longrightarrow> remove_arr array item = butlast array) \<and>
   (item \<in> set array \<longrightarrow> remove_arr array item = remove1 item array)"
  by (simp add: remove_arr_def isUndefined_def Let_def indexOf_absent splice1_minus_one
        splice1_indexOf)

theorem remove_arr_witness:
  "[1, 2, 3 :: nat] \<noteq> [] \<and> (4 :: nat) \<notin> set [1, 2, 3] \<and>
   remove_arr [1, 2, 3 :: nat] 4 = [1, 2] \<and>
   (1 :: nat) \<in> set [1, 2, 1] \<and> remove_arr [1, 2, 1 :: nat] 1 = [2, 1]"
  using remove_arr_absent_or_present [of "[1, 2, 3 :: nat]" 4]
        remove_arr_absent_or_present [of "[1, 2, 1 :: nat]" 1]
  by simp







text \<open>
  C8. In a well-formed document with a mapping holder, an input-mapping property is
  matched, in the document and in the old template, by the target name of its binding,
  and its tracked value is the source of the entry; an output-mapping property is matched
  by the source of its binding and its tracked value is the target. When the property is
  the only one of the new template with its identity key, the holder has exactly one entry
  with this key, and the new default is non-empty or required or the value is kept, then
  the property finds this entry, and after the reconciler \<open>_updateZeebeInputOutputParameterProperties\<close> the holder is still in
  the container and still has exactly this one entry with the key, no second one, and
  the tracked slot of the entry holds the new default, or its former value if
  \<open>shouldKeepValue\<close> held.
\<close>

theorem mapping_identity_single_entry:
  assumes wf: "wf_doc d element"
      and ee: "nref (heap d element) ''extensionElements'' = Some ee"
      and io: "findExtension d ee ''zeebe:IoMapping'' = Some io"
  shows "(btype (pbinding p) = ''zeebe:input'' \<longrightarrow>
            findBusinessObject d ee p =
              find (\<lambda>i. nscal (heap d i) ''target'' = js_of (bname (pbinding p)))
                (nlist (heap d io) ''inputParameters'') \<and>
            findOldProperty old p =
              (case old of
                 None \<Rightarrow> None
               | Some ot \<Rightarrow> find (\<lambda>op. btype (pbinding op) = ''zeebe:input'' \<and>
                                       bname (pbinding op) = bname (pbinding p))
                              (tproperties ot)) \<and>
            getPropertyValue d (Some x) p = nscal (heap d x) ''source'') \<and>
         (btype (pbinding p) = ''zeebe:input'' \<and>
          filter (\<lambda>q. btype (pbinding q) = ''zeebe:input'' \<and>
                       bname (pbinding q) = bname (pbinding p)) (tproperties nt) = [p] \<and>
          filter (\<lambda>i. nscal (heap d i) ''target'' = js_of (bname (pbinding p)))
            (nlist (heap d io) ''inputParameters'') = [x] \<and>
          (shouldUpdate (getDefaultValue p) p \<or>
           shouldKeepValue d (Some x) (findOldProperty old p) p) \<longrightarrow>
            findBusinessObject d ee p = Some x \<and>
            findExtension (updateZeebeInputOutputParameterProperties d element old nt) ee
              ''zeebe:IoMapping'' = Some io \<and>
            filter (\<lambda>i. nscal (heap (updateZeebeInputOutputParameterProperties d element old nt) i)
                          ''target'' = js_of (bname (pbinding p)))
              (nlist (heap (updateZeebeInputOutputParameterProperties d element old nt) io)
                 ''inputParameters'') = [x] \<and>
            nscal (heap (updateZeebeInputOutputParameterProperties d element old nt) x) ''source''
              = (if shouldKeepValue d (Some x) (findOldProperty old p) p
                 then nscal (heap d x) ''source'' else getDefaultValue p)) \<and>
         (btype (pbinding p) = ''zeebe:output'' \<longrightarrow>
            findBusinessObject d ee p =
              find (\<lambda>i. nscal (heap d i) ''source'' = js_of (bsource (pbinding p)))
                (nlist (heap d io) ''outputParameters'') \<and>
            findOldProperty old p =
              (case old of
                 None \<Rightarrow> None
               | Some ot \<Rightarrow> find (\<lambda>op. btype (pbinding op) = ''zeebe:output'' \<and>
                                       bsource (pbinding op) = bsource (pbinding p))
                              (tproperties ot)) \<and>
            getPropertyValue d (Some x) p = nscal (heap d x) ''target'') \<and>
         (btype (pbinding p) = ''zeebe:output'' \<and>
          filter (\<lambda>q. btype (pbinding q) = ''zeebe:output'' \<and>
                       bsource (pbinding q) = bsource (pbinding p)) (tproperties nt) = [p] \<and>
          filter (\<lambda>i. nscal (heap d i) ''source'' = js_of (bsource (pbinding p)))
            (nlist (heap d io) ''outputParameters'') = [x] \<and>
          (shouldUpdate (getDefaultValue p) p \<or>
           shouldKeepValue d (Some x) (findOldProperty old p) p) \<longrightarrow>
            findBusinessObject d ee p = Some x \<and>
            findExtension (updateZeebeInputOutputParameterProperties d element old nt) ee
              ''zeebe:IoMapping'' = Some io \<and>
            filter (\<lambda>i. nscal (heap (updateZeebeInputOutputParameterProperties d element old nt) i)
                          ''source'' = js_of (bsource (pbinding p)))
              (nlist (heap (updateZeebeInputOutputParameterProperties d element old nt) io)
                 ''outputParameters'') = [x] \<and>
            nscal (heap (updateZeebeInputOutputParameterProperties d element old nt) x) ''target''
              = (if shouldKeepValue d (Some x) (findOldProperty old p) p
                 then nscal (heap d x) ''target'' else getDefaultValue p))"
proof (intro conjI impI)
  have ctx: "io_ctx d element ee io" using wf ee io by (simp add: io_ctx_def)
  {
    assume k: "btype (pbinding p) = ''zeebe:input''"
    show "findBusinessObject d ee p =
            find (\<lambda>i. nscal (heap d i) ''target'' = js_of (bname (pbinding p)))
              (nlist (heap d io) ''inputParameters'')"
      using k io by (simp add: findBusinessObject_input)
    show "findOldProperty old p =
            (case old of
               None \<Rightarrow> None
             | Some ot \<Rightarrow> find (\<lambda>op. btype (pbinding op) = ''zeebe:input'' \<and>
                                     bname (pbinding op) = bname (pbinding p))
                            (tproperties ot))"
      using k by (cases old) (simp_all add: findOldProperty_input)
    show "getPropertyValue d (Some x) p = nscal (heap d x) ''source''"
      using k by (rule getPropertyValue_input)
  }
  {
    assume a: "btype (pbinding p) = ''zeebe:input'' \<and>
          filter (\<lambda>q. btype (pbinding q) = ''zeebe:input'' \<and>
                       bname (pbinding q) = bname (pbinding p)) (tproperties nt) = [p] \<and>
          filter (\<lambda>i. nscal (heap d i) ''target'' = js_of (bname (pbinding p)))
            (nlist (heap d io) ''inputParameters'') = [x] \<and>
          (shouldUpdate (getDefaultValue p) p \<or>
           shouldKeepValue d (Some x) (findOldProperty old p) p)"
    then have k: "btype (pbinding p) = ''zeebe:input''" by simp
    have kp: "io_kind p" using k by (simp add: io_kind_def)
    have one: "filter (\<lambda>q. btype (pbinding q) = btype (pbinding p) \<and> io_key q = io_key p)
                 (tproperties nt) = [p]"
    proof -
      have "filter (\<lambda>q. btype (pbinding q) = btype (pbinding p) \<and> io_key q = io_key p)
              (tproperties nt) =
            filter (\<lambda>q. btype (pbinding q) = ''zeebe:input'' \<and>
                         bname (pbinding q) = bname (pbinding p)) (tproperties nt)"
        using k by (intro filter_cong) (auto simp: io_key_def)
      then show ?thesis using a by simp
    qed
    have tr: "tracks d io p x" using a k by (simp add: tracks_def io_defs)
    have ret: "shouldUpdate (getDefaultValue p) p \<or>
               shouldKeepValue d (Some x) (findOldProperty old p) p" using a by simp
    note r = io_reconciler_entry [OF wf ee io kp one tr ret]
    show "findBusinessObject d ee p = Some x" using tracks_facts(5) [OF ctx kp tr] .
    show "findExtension (updateZeebeInputOutputParameterProperties d element old nt) ee
            ''zeebe:IoMapping'' = Some io" using r(1) .
    show "filter (\<lambda>i. nscal (heap (updateZeebeInputOutputParameterProperties d element old nt) i)
                        ''target'' = js_of (bname (pbinding p)))
            (nlist (heap (updateZeebeInputOutputParameterProperties d element old nt) io)
               ''inputParameters'') = [x]"
      using r(2) k by (simp add: tracks_def io_defs)
    show "nscal (heap (updateZeebeInputOutputParameterProperties d element old nt) x) ''source''
            = (if shouldKeepValue d (Some x) (findOldProperty old p) p
               then nscal (heap d x) ''source'' else getDefaultValue p)"
      using r(3) k by (simp add: io_defs)
  }
  {
    assume k: "btype (pbinding p) = ''zeebe:output''"
    show "findBusinessObject d ee p =
            find (\<lambda>i. nscal (heap d i) ''source'' = js_of (bsource (pbinding p)))
              (nlist (heap d io) ''outputParameters'')"
      using k io by (simp add: findBusinessObject_output)
    show "findOldProperty old p =
            (case old of
               None \<Rightarrow> None
             | Some ot \<Rightarrow> find (\<lambda>op. btype (pbinding op) = ''zeebe:output'' \<and>
                                     bsource (pbinding op) = bsource (pbinding p))
                            (tproperties ot))"
      using k by (cases old) (simp_all add: findOldProperty_output)
    show "getPropertyValue d (Some x) p = nscal (heap d x) ''target''"
      using k by (rule getPropertyValue_output)
  }
  {
    assume a: "btype (pbinding p) = ''zeebe:output'' \<and>
          filter (\<lambda>q. btype (pbinding q) = ''zeebe:output'' \<and>
                       bsource (pbinding q) = bsource (pbinding p)) (tproperties nt) = [p] \<and>
          filter (\<lambda>i. nscal (heap d i) ''source'' = js_of (bsource (pbinding p)))
            (nlist (heap d io) ''outputParameters'') = [x] \<and>
          (shouldUpdate (getDefaultValue p) p \<or>
           shouldKeepValue d (Some x) (findOldProperty old p) p)"
    then have k: "btype (pbinding p) = ''zeebe:output''" by simp
    have kp: "io_kind p" using k by (simp add: io_kind_def)
    have one: "filter (\<lambda>q. btype (pbinding q) = btype (pbinding p) \<and> io_key q = io_key p)
                 (tproperties nt) = [p]"
    proof -
      have "filter (\<lambda>q. btype (pbinding q) = btype (pbinding p) \<and> io_key q = io_key p)
              (tproperties nt) =
            filter (\<lambda>q. btype (pbinding q) = ''zeebe:output'' \<and>
                         bsource (pbinding q) = bsource (pbinding p)) (tproperties nt)"
        using k by (intro filter_cong) (auto simp: io_key_def)
      then show ?thesis using a by simp
    qed
    have tr: "tracks d io p x" using a k by (simp add: tracks_def io_defs)
    have ret: "shouldUpdate (getDefaultValue p) p \<or>
               shouldKeepValue d (Some x) (findOldProperty old p) p" using a by simp
    note r = io_reconciler_entry [OF wf ee io kp one tr ret]
    show "findBusinessObject d ee p = Some x" using tracks_facts(5) [OF ctx kp tr] .
    show "findExtension (updateZeebeInputOutputParameterProperties d element old nt) ee
            ''zeebe:IoMapping'' = Some io" using r(1) .
    show "filter (\<lambda>i. nscal (heap (updateZeebeInputOutputParameterProperties d element old nt) i)
                        ''source'' = js_of (bsource (pbinding p)))
            (nlist (heap (updateZeebeInputOutputParameterProperties d element old nt) io)
               ''outputParameters'') = [x]"
      using r(2) k by (simp add: tracks_def io_defs)
    show "nscal (heap (updateZeebeInputOutputParameterProperties d element old nt) x) ''target''
            = (if shouldKeepValue d (Some x) (findOldProperty old p) p
               then nscal (heap d x) ''target'' else getDefaultValue p)"
      using r(3) k by (simp add: io_defs)
  }
qed

theorem mapping_identity_single_entry_witness:
  "wf_doc ex_mappings 0 \<and>
   nref (heap ex_mappings 0) ''extensionElements'' = Some 1 \<and>
   findExtension ex_mappings 1 ''zeebe:IoMapping'' = Some 2 \<and>
   findBusinessObject ex_mappings 1 (ex_input (JStr ''={{b}}'') False) = Some 3 \<and>
   findOldProperty (Some (ex_template [ex_input (JStr ''={{a}}'') False]))
     (ex_input (JStr ''={{b}}'') False) = Some (ex_input (JStr ''={{a}}'') False) \<and>
   filter (\<lambda>i. nscal (heap (updateZeebeInputOutputParameterProperties ex_mappings 0
                               (Some (ex_template [ex_input (JStr ''={{a}}'') False]))
                               (ex_template [ex_input (JStr ''={{b}}'') False])) i) ''target''
                 = JStr ''x'')
     (nlist (heap (updateZeebeInputOutputParameterProperties ex_mappings 0
                     (Some (ex_template [ex_input (JStr ''={{a}}'') False]))
                     (ex_template [ex_input (JStr ''={{b}}'') False])) 2) ''inputParameters'')
     = [3] \<and>
   nscal (heap (updateZeebeInputOutputParameterProperties ex_mappings 0
                  (Some (ex_template [ex_input (JStr ''={{a}}'') False]))
                  (ex_template [ex_input (JStr ''={{b}}'') False])) 3) ''source''
     = JStr ''={{b}}'' \<and>
   findBusinessObject ex_mappings 1 (ex_output (JStr ''z'')) = Some 4 \<and>
   filter (\<lambda>i. nscal (heap (updateZeebeInputOutputParameterProperties ex_mappings 0
                               (Some (ex_template [ex_output (JStr ''y'')]))
                               (ex_template [ex_output (JStr ''z'')])) i) ''source''
                 = JStr ''={{r}}'')
     (nlist (heap (updateZeebeInputOutputParameterProperties ex_mappings 0
                     (Some (ex_template [ex_output (JStr ''y'')]))
                     (ex_template [ex_output (JStr ''z'')])) 2) ''outputParameters'')
     = [4] \<and>
   nscal (heap (updateZeebeInputOutputParameterProperties ex_mappings 0
                  (Some (ex_template [ex_output (JStr ''y'')]))
                  (ex_template [ex_output (JStr ''z'')])) 4) ''target''
     = JStr ''z''"
proof -
  have ee: "nref (heap ex_mappings 0) ''extensionElements'' = Some 1"
    by (simp add: ex_mappings_def)
  have io: "findExtension ex_mappings 1 ''zeebe:IoMapping'' = Some 2"
    by (simp add: ex_mappings_def findExtension_def is_a_def empty_node_def)
  note i = mapping_identity_single_entry [OF ex_mappings_wf ee io,
             where p = "ex_input (JStr ''={{b}}'') False"
               and nt = "ex_template [ex_input (JStr ''={{b}}'') False]"
               and old = "Some (ex_template [ex_input (JStr ''={{a}}'') False])" and x = 3,
             THEN conjunct2, THEN conjunct1]
  note out = mapping_identity_single_entry [OF ex_mappings_wf ee io,
             where p = "ex_output (JStr ''z'')"
               and nt = "ex_template [ex_output (JStr ''z'')]"
               and old = "Some (ex_template [ex_output (JStr ''y'')])" and x = 4,
             THEN conjunct2, THEN conjunct2, THEN conjunct2]
  have fo: "findOldProperty (Some (ex_template [ex_input (JStr ''={{a}}'') False]))
              (ex_input (JStr ''={{b}}'') False) = Some (ex_input (JStr ''={{a}}'') False)"
    by (simp add: ex_defs findOldProperty_input)
  have ki: "shouldKeepValue ex_mappings (Some 3)
              (findOldProperty (Some (ex_template [ex_input (JStr ''={{a}}'') False]))
                 (ex_input (JStr ''={{b}}'') False))
              (ex_input (JStr ''={{b}}'') False) = False"
    by (simp add: ex_defs ex_mappings_def findOldProperty_input shouldKeepValue_def
          propertyChanged_def getPropertyValue_input)
  have ko: "shouldKeepValue ex_mappings (Some 4)
              (findOldProperty (Some (ex_template [ex_output (JStr ''y'')]))
                 (ex_output (JStr ''z'')))
              (ex_output (JStr ''z'')) = False"
    by (simp add: ex_defs ex_output_def ex_mappings_def findOldProperty_output
          shouldKeepValue_def propertyChanged_def getPropertyValue_output)
  have 1: "findBusinessObject ex_mappings 1 (ex_input (JStr ''={{b}}'') False) = Some 3 \<and>
        findOldProperty (Some (ex_template [ex_input (JStr ''={{a}}'') False]))
          (ex_input (JStr ''={{b}}'') False) = Some (ex_input (JStr ''={{a}}'') False) \<and>
        filter (\<lambda>i. nscal (heap (updateZeebeInputOutputParameterProperties ex_mappings 0
                               (Some (ex_template [ex_input (JStr ''={{a}}'') False]))
                               (ex_template [ex_input (JStr ''={{b}}'') False])) i) ''target''
                 = JStr ''x'')
          (nlist (heap (updateZeebeInputOutputParameterProperties ex_mappings 0
                     (Some (ex_template [ex_input (JStr ''={{a}}'') False]))
                     (ex_template [ex_input (JStr ''={{b}}'') False])) 2) ''inputParameters'')
          = [3] \<and>
        nscal (heap (updateZeebeInputOutputParameterProperties ex_mappings 0
                  (Some (ex_template [ex_input (JStr ''={{a}}'') False]))
                  (ex_template [ex_input (JStr ''={{b}}'') False])) 3) ''source''
          = JStr ''={{b}}''"
    using i fo unfolding ki
    by (simp add: ex_defs ex_mappings_def shouldUpdate_def getDefaultValue_def)
  have 2: "findBusinessObject ex_mappings 1 (ex_output (JStr ''z'')) = Some 4 \<and>
        filter (\<lambda>i. nscal (heap (updateZeebeInputOutputParameterProperties ex_mappings 0
                               (Some (ex_template [ex_output (JStr ''y'')]))
                               (ex_template [ex_output (JStr ''z'')])) i) ''source''
                 = JStr ''={{r}}'')
          (nlist (heap (updateZeebeInputOutputParameterProperties ex_mappings 0
                     (Some (ex_template [ex_output (JStr ''y'')]))
                     (ex_template [ex_output (JStr ''z'')])) 2) ''outputParameters'')
          = [4] \<and>
        nscal (heap (updateZeebeInputOutputParameterProperties ex_mappings 0
                  (Some (ex_template [ex_output (JStr ''y'')]))
                  (ex_template [ex_output (JStr ''z'')])) 4) ''target''
          = JStr ''z''"
    using out unfolding ko
    by (simp add: ex_defs ex_output_def ex_mappings_def shouldUpdate_def getDefaultValue_def)
  show ?thesis using ex_mappings_wf ee io 1 2 by simp
qed

text \<open>
  C2. With no new template the handler issues the identity-stamp mutations only: the
  template id, version and icon of the element become \<open>undefined\<close>. No reconciler runs:
  every other field of the element, and every other node, is as before.
\<close>

theorem preExecute_template_removal:
  "preExecute c d element oldTemplate None =
     Some (d\<lparr>heap := (heap d)(element := (heap d element)
                 \<lparr>nscal := (nscal (heap d element))
                    (''zeebe:modelerTemplate'' := JUndefined,
                     ''zeebe:modelerTemplateVersion'' := JUndefined,
                     ''zeebe:modelerTemplateIcon'' := JUndefined)\<rparr>),
             cmds := cmds d @
               [UpdateProperties element
                  [(''zeebe:modelerTemplate'', PScalar JUndefined),
                   (''zeebe:modelerTemplateVersion'', PScalar JUndefined)],
                UpdateProperties element
                  [(''zeebe:modelerTemplateIcon'', PScalar JUndefined)]]\<rparr>,
           element)"
  by (simp add: preExecute_def updateZeebeModelerTemplate_def
        updateZeebeModelerTemplateIcon_def element_updateProperties_def getBusinessObject_def)

theorem preExecute_template_removal_witness:
  "map_option (\<lambda>r. (nlist (heap (fst r) 2) ''values'', nref (heap (fst r) 0) ''extensionElements'',
                     nscal (heap (fst r) 0) ''zeebe:modelerTemplate'', length (cmds (fst r)), snd r))
     (preExecute ex_collab ex_headers 0 (Some (ex_template [ex_header ''k'' (JStr ''v'') False])) None)
   = Some ([3], Some 1, JUndefined, 2, 0)"
  using preExecute_template_removal
          [of ex_collab ex_headers 0 "Some (ex_template [ex_header ''k'' (JStr ''v'') False])"]
  by (simp add: ex_defs)

text \<open>
  C4. When the new template has no property of a keyed-collection kind and the holder
  exists, the reconciler removes the holder from the container; the source does not
  return there. On the task of the example, whose holder has one header, the reconciler
  issues a second mutation, which empties the detached holder.
\<close>

theorem headers_holder_removal_continues:
  "cmds (updateZeebeTaskHeaderProperties ex_headers 0 None (ex_template [])) =
     [UpdateModdleProperties 0 1 [(''values'', PList [])],
      UpdateModdleProperties 0 2 [(''values'', PList [])]]"
  by (simp add: updateZeebeTaskHeaderProperties_def ex_defs eval_defs)

theorem headers_holder_removal_continues_witness:
  "length (cmds (updateZeebeTaskHeaderProperties ex_headers 0 None (ex_template []))) = 2"
  using headers_holder_removal_continues by simp

text \<open>
  C5, as the claim states it, fails for task headers: the header of the example is found
  by its key, the new property is optional, its default is empty and the value is the
  old default, and yet the entry leaves the snapshot and stays in the holder.
\<close>

theorem header_found_always_leaves_snapshot:
  "findBusinessObject ex_headers 1 (ex_header ''k'' (JStr []) True) = Some 3 \<and>
   poptional (ex_header ''k'' (JStr []) True) \<and>
   \<not> truthy (getDefaultValue (ex_header ''k'' (JStr []) True)) \<and>
   \<not> shouldKeepValue ex_headers (Some 3)
       (findOldProperty (Some (ex_template [ex_header ''k'' (JStr ''v'') False]))
          (ex_header ''k'' (JStr []) True))
       (ex_header ''k'' (JStr []) True) \<and>
   snd (updateZeebeTaskHeaderProperties_each 0
          (Some (ex_template [ex_header ''k'' (JStr ''v'') False])) 1 2 (ex_headers, [3])
          (ex_header ''k'' (JStr []) True)) = [] \<and>
   nlist (heap (updateZeebeTaskHeaderProperties ex_headers 0
                  (Some (ex_template [ex_header ''k'' (JStr ''v'') False]))
                  (ex_template [ex_header ''k'' (JStr []) True])) 2) ''values'' = [3]"
  by (simp add: updateZeebeTaskHeaderProperties_def updateZeebeTaskHeaderProperties_each_def
        ex_defs eval_defs)

text \<open>
  C5, amended. An entry found by its identity key, and present in the snapshot, stays in
  the snapshot of an input/output mapping or of a custom property exactly when the
  property is optional, its default is empty and \<open>shouldKeepValue\<close> does not hold; the
  other candidates are as before. For task headers the entry found always leaves the
  snapshot.
\<close>

theorem keyed_found_snapshot:
  assumes f: "findBusinessObject d ee p = Some e"
      and dis: "distinct olds" and mem: "e \<in> set olds"
  shows "(is_a d e ''zeebe:Input'' \<longrightarrow>
            (e \<in> set (fst (snd (updateZeebeInputOutputParameterProperties_each el old ee holder
                                   (d, olds, oo) p)))
               \<longleftrightarrow> poptional p \<and> \<not> truthy (getDefaultValue p) \<and>
                   \<not> shouldKeepValue d (Some e) (findOldProperty old p) p) \<and>
            set (fst (snd (updateZeebeInputOutputParameterProperties_each el old ee holder
                             (d, olds, oo) p))) - {e} = set olds - {e} \<and>
            snd (snd (updateZeebeInputOutputParameterProperties_each el old ee holder
                        (d, olds, oo) p)) = oo) \<and>
         (\<not> is_a d e ''zeebe:Input'' \<longrightarrow>
            (e \<in> set (snd (snd (updateZeebeInputOutputParameterProperties_each el old ee holder
                                   (d, oi, olds) p)))
               \<longleftrightarrow> poptional p \<and> \<not> truthy (getDefaultValue p) \<and>
                   \<not> shouldKeepValue d (Some e) (findOldProperty old p) p) \<and>
            set (snd (snd (updateZeebeInputOutputParameterProperties_each el old ee holder
                             (d, oi, olds) p))) - {e} = set olds - {e} \<and>
            fst (snd (updateZeebeInputOutputParameterProperties_each el old ee holder
                        (d, oi, olds) p)) = oi) \<and>
         (e \<in> set (snd (updateZeebePropertyProperties_each el old ee holder (d, olds) p))
            \<longleftrightarrow> poptional p \<and> \<not> truthy (getDefaultValue p) \<and>
                \<not> shouldKeepValue d (Some e) (findOldProperty old p) p) \<and>
         set (snd (updateZeebePropertyProperties_each el old ee holder (d, olds) p)) - {e}
           = set olds - {e} \<and>
         e \<notin> set (snd (updateZeebeTaskHeaderProperties_each el old ee holder (d, olds) p)) \<and>
         set (snd (updateZeebeTaskHeaderProperties_each el old ee holder (d, olds) p)) - {e}
           = set olds - {e}"
  using mem
  by (auto simp: io_each_found_olds [OF f] zp_each_found_olds [OF f]
        header_each_found_olds [OF f] remove_arr_present [OF dis mem] shouldUpdate_def)

theorem keyed_found_snapshot_witness:
  "findBusinessObject ex_io 1 (ex_input (JStr []) True) = Some 3 \<and>
   distinct [3 :: nat] \<and> (3 :: nat) \<in> set [3] \<and> is_a ex_io 3 ''zeebe:Input'' \<and>
   3 \<in> set (fst (snd (updateZeebeInputOutputParameterProperties_each 0
                         (Some (ex_template [ex_input (JStr ''={{a}}'') False])) 1 2
                         (ex_io, [3], []) (ex_input (JStr []) True)))) \<and>
   3 \<notin> set (fst (snd (updateZeebeInputOutputParameterProperties_each 0
                         (Some (ex_template [ex_input (JStr ''={{a}}'') False])) 1 2
                         (ex_io, [3], []) (ex_input (JStr ''={{b}}'') True))))"
  using keyed_found_snapshot
          [where d = ex_io and ee = 1 and p = "ex_input (JStr []) True" and e = 3
             and olds = "[3]" and oo = "[]" and oi = "[]" and el = 0 and holder = 2
             and old = "Some (ex_template [ex_input (JStr ''={{a}}'') False])"]
        keyed_found_snapshot
          [where d = ex_io and ee = 1 and p = "ex_input (JStr ''={{b}}'') True" and e = 3
             and olds = "[3]" and oo = "[]" and oi = "[]" and el = 0 and holder = 2
             and old = "Some (ex_template [ex_input (JStr ''={{a}}'') False])"]
  by (simp add: ex_defs findExtension_def is_a_def getDefaultValue_def shouldKeepValue_def
        propertyChanged_def findBusinessObject_input findOldProperty_input
        getPropertyValue_input)

text \<open>
  C6, as the claim states it, fails for task headers: the required header \<open>other\<close> with an
  empty default has no entry in the holder, and the reconciler creates none.
\<close>

theorem required_empty_header_not_created:
  "findBusinessObject ex_headers 1 (ex_header ''other'' JUndefined False) = None \<and>
   \<not> poptional (ex_header ''other'' JUndefined False) \<and>
   updateZeebeTaskHeaderProperties_each 0 None 1 2 (ex_headers, [3])
     (ex_header ''other'' JUndefined False) = (ex_headers, [3])"
  by (simp add: updateZeebeTaskHeaderProperties_each_def ex_defs eval_defs)

text \<open>
  C6, amended. When no entry is found for a property of a keyed collection (the holder
  being a node of the document): for an input or output mapping and for a custom
  property the reconciler creates an entry and appends it to the holder exactly when the
  default is non-empty or the property is required, and otherwise changes nothing; for a
  task header it creates and appends an entry exactly when the default is non-empty, and
  otherwise changes nothing, required or not.
\<close>

theorem keyed_not_found_creation:
  assumes nf: "findBusinessObject d ee p = None" and h: "holder < fresh d"
  shows "(if shouldUpdate (getDefaultValue p) p
          then fresh (fst (updateZeebeInputOutputParameterProperties_each el old ee holder
                             (d, oi, oo) p)) = Suc (fresh d) \<and>
               (if btype (pbinding p) = ''zeebe:input''
                then nlist (heap (fst (updateZeebeInputOutputParameterProperties_each el old ee
                                         holder (d, oi, oo) p)) holder) ''inputParameters''
                       = nlist (heap d holder) ''inputParameters'' @ [fresh d] \<and>
                     heap (fst (updateZeebeInputOutputParameterProperties_each el old ee holder
                                  (d, oi, oo) p)) (fresh d)
                       = (empty_node ''zeebe:Input'')\<lparr>nscal := (\<lambda>_. JUndefined)
                            (''source'' := getDefaultValue p,
                             ''target'' := js_of (bname (pbinding p)))\<rparr>
                else nlist (heap (fst (updateZeebeInputOutputParameterProperties_each el old ee
                                         holder (d, oi, oo) p)) holder) ''outputParameters''
                       = nlist (heap d holder) ''outputParameters'' @ [fresh d] \<and>
                     heap (fst (updateZeebeInputOutputParameterProperties_each el old ee holder
                                  (d, oi, oo) p)) (fresh d)
                       = (empty_node ''zeebe:Output'')\<lparr>nscal := (\<lambda>_. JUndefined)
                            (''source'' := js_of (bsource (pbinding p)),
                             ''target'' := getDefaultValue p)\<rparr>) \<and>
               fresh (fst (updateZeebePropertyProperties_each el old ee holder (d, olds) p))
                 = Suc (fresh d) \<and>
               nlist (heap (fst (updateZeebePropertyProperties_each el old ee holder
                                   (d, olds) p)) holder) ''properties''
                 = nlist (heap d holder) ''properties'' @ [fresh d] \<and>
               heap (fst (updateZeebePropertyProperties_each el old ee holder (d, olds) p))
                    (fresh d)
                 = (empty_node ''zeebe:Property'')\<lparr>nscal := (\<lambda>_. JUndefined)
                      (''name'' := js_of (bname (pbinding p)), ''value'' := getDefaultValue p)\<rparr>
          else updateZeebeInputOutputParameterProperties_each el old ee holder (d, oi, oo) p
                 = (d, oi, oo) \<and>
               updateZeebePropertyProperties_each el old ee holder (d, olds) p = (d, olds)) \<and>
         (if truthy (getDefaultValue p)
          then fresh (fst (updateZeebeTaskHeaderProperties_each el old ee holder (d, olds) p))
                 = Suc (fresh d) \<and>
               nlist (heap (fst (updateZeebeTaskHeaderProperties_each el old ee holder
                                   (d, olds) p)) holder) ''values''
                 = nlist (heap d holder) ''values'' @ [fresh d] \<and>
               heap (fst (updateZeebeTaskHeaderProperties_each el old ee holder (d, olds) p))
                    (fresh d)
                 = (empty_node ''zeebe:Header'')\<lparr>nscal := (\<lambda>_. JUndefined)
                      (''key'' := js_of (bkey (pbinding p)), ''value'' := getDefaultValue p)\<rparr>
          else updateZeebeTaskHeaderProperties_each el old ee holder (d, olds) p = (d, olds))"
  using io_each_not_found [OF nf h, where el = el and old = old and oi = oi and oo = oo]
        zp_each_not_found [OF nf h, where el = el and old = old and olds = olds]
        header_each_not_found [OF nf h, where el = el and old = old and olds = olds]
  by (simp split: if_splits)

theorem keyed_not_found_creation_witness:
  "findBusinessObject ex_headers 1 (ex_header ''other'' (JStr ''w'') True) = None \<and>
   (2 :: nat) < fresh ex_headers \<and>
   truthy (getDefaultValue (ex_header ''other'' (JStr ''w'') True)) \<and>
   nlist (heap (fst (updateZeebeTaskHeaderProperties_each 0 None 1 2 (ex_headers, [3])
                       (ex_header ''other'' (JStr ''w'') True))) 2) ''values'' = [3, 4] \<and>
   nscal (heap (fst (updateZeebeTaskHeaderProperties_each 0 None 1 2 (ex_headers, [3])
                       (ex_header ''other'' (JStr ''w'') True))) 4) ''key'' = JStr ''other'' \<and>
   shouldUpdate (getDefaultValue (ex_header ''other'' JUndefined False))
     (ex_header ''other'' JUndefined False) \<and>
   fresh (fst (updateZeebePropertyProperties_each 0 None 1 2 (ex_headers, [])
                 (ex_header ''other'' JUndefined False))) = 5"
  using keyed_not_found_creation
          [where d = ex_headers and ee = 1 and p = "ex_header ''other'' (JStr ''w'') True"
             and holder = 2 and el = 0 and old = None and oi = "[]" and oo = "[]"
             and olds = "[3]"]
        keyed_not_found_creation
          [where d = ex_headers and ee = 1 and p = "ex_header ''other'' JUndefined False"
             and holder = 2 and el = 0 and old = None and oi = "[]" and oo = "[]"
             and olds = "[]"]
  by (simp add: ex_defs findBusinessObject_def findExtension_def is_a_def getBusinessObject_def
        getDefaultValue_def shouldUpdate_def kind_defs Let_def)

text \<open>
  C9, as the claim states it, fails: the task of the example has no extension container,
  the template has no property at all, and after the handler has applied it the task has
  a container (node 1), which is empty.
\<close>

theorem container_created_without_need:
  "nref (heap ex_task 0) ''extensionElements'' = None \<and>
   tproperties (ex_template []) = [] \<and>
   map_option (\<lambda>r. (nref (heap (fst r) (snd r)) ''extensionElements'',
                     nlist (heap (fst r) 1) ''values'', ntype (heap (fst r) 1)))
     (preExecute ex_collab ex_task 0 None (Some (ex_template [])))
   = Some (Some 1, [], ''bpmn:ExtensionElements'')"
  using ex_task_empty_template by (auto simp: ex_task_def ex_template_def empty_node_def)

text \<open>
  C9, amended. After the handler has applied a template, whatever kinds of properties the
  template contributes, the element has an extension container: the task-definition
  reconciler gets or creates it before it looks at the properties of the template, and no
  later step takes it away. The collaborators are assumed to return an element of the
  document and to keep the containers that exist.
\<close>

theorem preExecute_creates_container:
  assumes el: "element < fresh d"
      and re: "\<forall>d e t ed. e < fresh d \<longrightarrow>
                 snd (replaceElement c d e t ed) < fresh (fst (replaceElement c d e t ed))"
      and rm: "\<forall>d e. keeps_containers d (removeMessage c d e)"
      and ex: "preExecute c d element old (Some nt) = Some (d', e')"
  shows "nref (heap d' e') ''extensionElements'' \<noteq> None"
proof -
  let ?d2 = "updateZeebeModelerTemplateIcon (updateZeebeModelerTemplate d element (Some nt))
               element (Some nt)"
  obtain d3 e1 where t: "updateElementType c ?d2 element old nt = (d3, e1)"
    by (cases "updateElementType c ?d2 element old nt")
  have el2: "element < fresh ?d2" using el by simp
  have e1: "e1 < fresh d3"
    using updateElementType_cases [of c ?d2 element old nt] t el2 re
    by (metis fst_conv snd_conv)
  let ?d4 = "updateProperties d3 e1 old nt"
  let ?d5 = "updateZeebeTaskDefinition ?d4 e1 old nt"
  let ?d6 = "updateZeebeInputOutputParameterProperties ?d5 e1 old nt"
  let ?d7 = "updateZeebeTaskHeaderProperties ?d6 e1 old nt"
  let ?d8 = "updateZeebePropertyProperties ?d7 e1 old nt"
  obtain d9 where m: "updateMessage c ?d8 e1 old nt = Some d9"
    using ex t by (auto simp: preExecute_def Let_def split: option.splits)
  have res: "d' = updateCalledElement d9 e1 old nt" "e' = e1"
    using ex t m by (auto simp: preExecute_def Let_def)
  have "fresh d3 \<le> fresh ?d4"
    using keeps_updateProperties [of d3 e1 old nt] by (simp add: keeps_containers_def)
  then have e4: "e1 < fresh ?d4" using e1 by simp
  have has: "nref (heap ?d5 e1) ''extensionElements'' \<noteq> None"
    using td_has_container [OF e4] .
  have e5: "e1 < fresh ?d5"
    using keeps_updateZeebeTaskDefinition [of ?d4 e1 old nt] e4
    by (simp add: keeps_containers_def)
  have "keeps_containers ?d5 d'"
    unfolding res
    using keeps_io [of ?d5 e1 old nt] keeps_headers [of ?d6 e1 old nt]
          keeps_zps [of ?d7 e1 old nt] keeps_updateMessage [OF rm m]
          keeps_updateCalledElement [of d9 e1 old nt] keeps_trans
    by blast
  then show ?thesis using has e5 res by (simp add: keeps_containers_def)
qed

theorem preExecute_creates_container_witness:
  "(0 :: nat) < fresh ex_task \<and>
   preExecute ex_collab ex_task 0 None (Some (ex_template [])) \<noteq> None \<and>
   nref (heap (fst (the (preExecute ex_collab ex_task 0 None (Some (ex_template [])))))
               (snd (the (preExecute ex_collab ex_task 0 None (Some (ex_template []))))))
     ''extensionElements'' \<noteq> None"
proof -
  obtain d' where ex: "preExecute ex_collab ex_task 0 None (Some (ex_template [])) = Some (d', 0)"
    using ex_task_empty_template by blast
  have "nref (heap d' 0) ''extensionElements'' \<noteq> None"
    by (rule preExecute_creates_container [OF _ _ _ ex]) (simp_all add: ex_defs)
  then show ?thesis using ex by (simp add: ex_task_def)
qed

subsection \<open>Applying a template twice\<close>

text \<open>
  The template of the example binds two properties to the field \<open>x\<close>, with the defaults
  \<open>a\<close> and \<open>b\<close>. Its first application to the example task leaves \<open>x = a\<close>; its second
  application, with the template as old and as new template, starts from that state and
  leaves \<open>x = b\<close>.
\<close>

theorem second_application_overwrites_field:
  "\<exists>d1 d2. preExecute ex_collab ex_task 0 None (Some ex_dup) = Some (d1, 0) \<and>
           preExecute ex_collab d1 0 (Some ex_dup) (Some ex_dup) = Some (d2, 0) \<and>
           nscal (heap d1 0) ''x'' = JStr ''a'' \<and>
           nscal (heap d2 0) ''x'' = JStr ''b''"
proof -
  obtain d1 where 1: "preExecute ex_collab ex_task 0 None (Some ex_dup) = Some (d1, 0)"
    and f: "fresh d1 = 2"
    and h: "heap d1 = (\<lambda>_. empty_node [])
         (0 := (empty_node ''bpmn:ServiceTask'')
                 \<lparr>nscal := (\<lambda>_. JUndefined)
                    (''zeebe:modelerTemplate'' := JStr ''T'',
                     ''zeebe:modelerTemplateVersion'' := JNum 1,
                     ''zeebe:modelerTemplateIcon'' := JUndefined,
                     ''x'' := JStr ''a''),
                  nref := (\<lambda>_. None)(''extensionElements'' := Some 1)\<rparr>,
          1 := (empty_node ''bpmn:ExtensionElements'')\<lparr>nlist := (\<lambda>_. [])(''values'' := [])\<rparr>)"
    using ex_dup_first by blast
  obtain d2 where 2: "preExecute ex_collab d1 0 (Some ex_dup) (Some ex_dup) = Some (d2, 0)"
    and x: "nscal (heap d2 0) ''x'' = JStr ''b''"
    using ex_dup_second [OF h f] by blast
  have "nscal (heap d1 0) ''x'' = JStr ''a''" by (simp add: h)
  then show ?thesis using 1 2 x by blast
qed

end
